(* ===== verification/Payment_Prelude.thy ===== *)
theory Payment_Prelude
  imports Main "HOL-Library.Word"
begin

text \<open>
  Shared vocabulary of the payment-service development: the machine types the Go code
  uses (\<open>int\<close> of a 64-bit target as a 64-bit word, \<open>time.Time\<close> as an abstract clock
  reading), the lemma collection of the status constants, and the facts on a 64-bit
  counter that the store and the system theories use.
\<close>

section \<open>Types of the model\<close>

text \<open>Go's \<open>int\<close> on the 64-bit targets the service is built for: two's complement, wrapping.\<close>

type_synonym goint = "64 word"

text \<open>A reading of \<open>time.Now()\<close>: only equality and order of readings matter to the code.\<close>

type_synonym time = nat

section \<open>Lemma collections\<close>

named_theorems status_defs "the string constants of the payment status enumeration"

section \<open>A 64-bit counter started at zero\<close>

text \<open>
  The in-memory store numbers records with a Go \<open>int\<close> that is incremented once per
  insertion. After \<open>n\<close> increments from zero it holds \<open>of_nat n\<close>; these lemmas read
  that value back as an unsigned and as a signed number while \<open>n\<close> is in range.
\<close>

lemma unat_of_nat_64 [simp]: "n < 2 ^ 64 \<Longrightarrow> unat (of_nat n :: goint) = n"
  by (simp add: unat_of_nat)

lemma sint_of_nat_64:
  assumes "n < 2 ^ 63"
  shows "sint (of_nat n :: goint) = int n"
proof -
  have w: "(of_nat n :: goint) = word_of_int (int n)"
    by simp
  have "signed_take_bit 63 (int n) = int n"
    using assms by (simp add: signed_take_bit_int_eq_self_iff)
  then show ?thesis
    by (simp only: w sint_sbintrunc') simp
qed

lemma unat_minus_one_64 [simp]: "unat (- 1 :: goint) = 2 ^ 64 - 1"
  by (simp add: unsigned_minus_1_eq_mask mask_eq_exp_minus_1)

lemma of_nat_64_not_max: "m < 2 ^ 64 - 1 \<Longrightarrow> (of_nat m :: goint) \<noteq> - 1"
proof
  assume lt: "m < 2 ^ 64 - 1" and eq: "(of_nat m :: goint) = - 1"
  from lt have "unat (of_nat m :: goint) = m" by simp
  with eq have "m = 2 ^ 64 - 1" by simp
  with lt show False by simp
qed

lemma unat_counter_Suc:
  "c \<noteq> - 1 \<Longrightarrow> unat (c + 1 :: goint) = Suc (unat c)"
  using unatSuc [of c] by (simp add: add.commute eq_neg_iff_add_eq_0)

lemma of_nat_64_inj: "(of_nat m :: goint) = of_nat n \<Longrightarrow> m < 2 ^ 64 \<Longrightarrow> n < 2 ^ 64 \<Longrightarrow> m = n"
  by (metis unat_of_nat_64)

end
