(* ===== verification/Payment_Model.thy ===== *)
theory Payment_Model
  imports Payment_Prelude
begin

text \<open>
  The data model of package \<open>payment\<close> (\<open>src/payment/payment.go\<close>): the status
  enumeration, the \<open>Payment\<close>, \<open>OmiseCharge\<close> and \<open>Request\<close> structs, the error values
  the code passes around, and the three interfaces through which the components call
  each other (\<open>Service\<close>, \<open>Repository\<close>, \<open>Client\<close>). Interfaces are records of
  functions over a state type \<open>'s\<close> shared by all collaborators, so that a caller's
  lemmas hold for every implementation and an implementation is one value of the record.
\<close>

section \<open>Errors\<close>

text \<open>
  Go's \<open>error\<close> values. \<open>ErrPaymentNotFound\<close> is the sentinel of package \<open>inmem\<close>,
  compared by identity in the HTTP handler; every other error (from omise-go or a test
  double) is opaque and carries its message. \<open>NilDeref\<close> is not an error value but the
  run-time panic of dereferencing a nil pointer, kept as a branch so that no
  dereference of the code is silently total.
\<close>

datatype error = ErrPaymentNotFound | Err string | NilDeref

text \<open>The \<open>Error()\<close> text of an error value.\<close>

fun error_msg :: "error \<Rightarrow> string" where
  "error_msg ErrPaymentNotFound = ''payment not found''"
| "error_msg (Err s) = s"
| "error_msg NilDeref = ''runtime error: invalid memory address or nil pointer dereference''"

section \<open>Status\<close>

text \<open>
  \<open>type Status string\<close>: any string is a status; the five constants name the ones the
  gateway documents. The model keeps the string type, so that a status outside the five
  is representable, as it is in the code.
\<close>

type_synonym status = string

definition StatusFailed :: status where [status_defs]: "StatusFailed = ''failed''"
definition StatusExpired :: status where [status_defs]: "StatusExpired = ''expired''"
definition StatusPending :: status where [status_defs]: "StatusPending = ''pending''"
definition StatusReversed :: status where [status_defs]: "StatusReversed = ''reversed''"
definition StatusSuccessful :: status where [status_defs]: "StatusSuccessful = ''successful''"

section \<open>Structs\<close>

text \<open>\<open>OmiseCharge\<close>: the attributes of a gateway charge the service keeps.\<close>

record omise_charge =
  charge_ID :: string
  charge_Status :: status
  charge_Amount :: int
  charge_Currency :: string
  charge_AuthorizeURI :: string
  charge_SourceType :: string
  charge_ReturnURI :: string

text \<open>
  \<open>Payment\<close>. The field \<open>OmiseCharge\<close> is a pointer, so it is an option: \<open>None\<close> is
  nil. \<open>int64\<close> amounts are never computed with, so they are unbounded integers.
\<close>

record payment =
  payment_ID :: goint
  payment_Status :: status
  payment_Amount :: int
  payment_Currency :: string
  payment_OmiseCharge :: "omise_charge option"
  payment_CreatedAt :: time
  payment_UpdatedAt :: time

text \<open>\<open>Request\<close>: the details of a payment to be made.\<close>

record request =
  req_Amount :: int
  req_Currency :: string
  req_ReturnURI :: string
  req_SourceType :: string

section \<open>Interfaces\<close>

text \<open>
  \<open>Client\<close>: the payment gateway. A call returns an error or a charge and may change the
  world state \<open>'s\<close> (a charge is created at the gateway).
\<close>

record 's client =
  Charge :: "request \<Rightarrow> 's \<Rightarrow> (error + omise_charge) \<times> 's"
  GetCharge :: "string \<Rightarrow> 's \<Rightarrow> (error + omise_charge) \<times> 's"

text \<open>
  \<open>Repository\<close>: the payment store. \<open>Create(payment *Payment) error\<close> fills in the
  fields of the payment it is given through the pointer, so the model returns the
  filled-in payment beside the error (\<open>None\<close> is a nil error).
\<close>

record 's repository =
  repo_Create :: "payment \<Rightarrow> 's \<Rightarrow> (error option \<times> payment) \<times> 's"
  repo_Find :: "goint \<Rightarrow> 's \<Rightarrow> (error + payment) \<times> 's"
  repo_UpdateStatus :: "goint \<Rightarrow> status \<Rightarrow> 's \<Rightarrow> error option \<times> 's"

text \<open>\<open>Service\<close>: what the HTTP layer calls.\<close>

record 's Service =
  svc_CreatePaymentRequest :: "request \<Rightarrow> 's \<Rightarrow> (error + payment) \<times> 's"
  svc_Find :: "goint \<Rightarrow> 's \<Rightarrow> (error + payment) \<times> 's"

text \<open>The unexported \<open>service\<close> struct: the two collaborators it was built with.\<close>

record 's service =
  service_client :: "'s client"
  service_repo :: "'s repository"

section \<open>Lemmas on statuses\<close>

lemma status_distinct [simp]:
  "StatusSuccessful \<noteq> StatusPending" "StatusFailed \<noteq> StatusPending"
  "StatusExpired \<noteq> StatusPending" "StatusReversed \<noteq> StatusPending"
  "StatusPending \<noteq> StatusSuccessful" "StatusPending \<noteq> StatusFailed"
  "StatusPending \<noteq> StatusExpired" "StatusPending \<noteq> StatusReversed"
  by (simp_all add: status_defs)

end
