(* ===== verification/Payment_Service.thy ===== *)
theory Payment_Service
  imports Payment_Model
begin

text \<open>
  The payment orchestrator, \<open>service\<close> in \<open>src/payment/payment.go\<close>:
  \<open>NewService\<close>, \<open>CreatePaymentRequest\<close> and \<open>Find\<close>, over any client and any
  repository. Each Go statement that calls a collaborator is one \<open>case\<close> on the
  collaborator's result; each \<open>if err != nil { return nil, err }\<close> is the \<open>Inl\<close> branch
  of that case. The theory also gives call-recording wrappers for the collaborators, in
  the manner of the test doubles of \<open>payment_mock_test.go\<close>, with which the lemmas state
  which collaborator calls an operation makes and in which order.
\<close>

section \<open>Operations\<close>

text \<open>The \<open>Payment\<close> literal built from the gateway's charge (lines 92--97).\<close>

definition payment_of_charge :: "omise_charge \<Rightarrow> payment" where
  "payment_of_charge charge =
     \<lparr>payment_ID = 0, payment_Status = charge_Status charge,
      payment_Amount = charge_Amount charge, payment_Currency = charge_Currency charge,
      payment_OmiseCharge = Some charge, payment_CreatedAt = 0, payment_UpdatedAt = 0\<rparr>"

definition CreatePaymentRequest :: "'s service \<Rightarrow> request \<Rightarrow> 's \<Rightarrow> (error + payment) \<times> 's" where
  "CreatePaymentRequest svc req st =
     (case Charge (service_client svc) req st of
        (Inl err, st1) \<Rightarrow> (Inl err, st1)
      | (Inr charge, st1) \<Rightarrow>
          (case repo_Create (service_repo svc) (payment_of_charge charge) st1 of
             ((Some err, _), st2) \<Rightarrow> (Inl err, st2)
           | ((None, p), st2) \<Rightarrow> (Inr p, st2)))"

text \<open>
  \<open>Find\<close> (lines 109--134). The guard reads the status of the linked charge,
  \<open>payment.OmiseCharge.Status\<close>, not \<open>payment.Status\<close>, and dereferences the pointer
  to do so. The final \<open>repo.Find\<close> result is returned as it is.
\<close>

definition Find :: "'s service \<Rightarrow> goint \<Rightarrow> 's \<Rightarrow> (error + payment) \<times> 's" where
  "Find svc pid st =
     (case repo_Find (service_repo svc) pid st of
        (Inl err, st1) \<Rightarrow> (Inl err, st1)
      | (Inr p, st1) \<Rightarrow>
          (case payment_OmiseCharge p of
             None \<Rightarrow> (Inl NilDeref, st1)
           | Some oc \<Rightarrow>
               (if charge_Status oc \<noteq> StatusPending then (Inr p, st1)
                else
                  (case GetCharge (service_client svc) (charge_ID oc) st1 of
                     (Inl err, st2) \<Rightarrow> (Inl err, st2)
                   | (Inr charge, st2) \<Rightarrow>
                       (case repo_UpdateStatus (service_repo svc) pid (charge_Status charge) st2 of
                          (Some err, st3) \<Rightarrow> (Inl err, st3)
                        | (None, st3) \<Rightarrow> repo_Find (service_repo svc) pid st3)))))"

definition NewService :: "'s client \<Rightarrow> 's repository \<Rightarrow> 's Service" where
  "NewService c r =
     (let svc = \<lparr>service_client = c, service_repo = r\<rparr>
      in \<lparr>svc_CreatePaymentRequest = CreatePaymentRequest svc, svc_Find = Find svc\<rparr>)"

lemma NewService_simps [simp]:
  "svc_CreatePaymentRequest (NewService c r) = CreatePaymentRequest \<lparr>service_client = c, service_repo = r\<rparr>"
  "svc_Find (NewService c r) = Find \<lparr>service_client = c, service_repo = r\<rparr>"
  by (simp_all add: NewService_def Let_def)

section \<open>Recording the collaborator calls\<close>

text \<open>
  A call to a collaborator, with its arguments. Wrapping a client and a repository with
  \<open>traced_client\<close> and \<open>traced_repository\<close> extends the state with the list of calls
  made so far; the wrapped operation computes what the original does.
\<close>

datatype call =
    CallCharge request
  | CallGetCharge string
  | CallCreate payment
  | CallFind goint
  | CallUpdateStatus goint status

definition logged :: "call \<Rightarrow> 'a \<times> 's \<Rightarrow> call list \<Rightarrow> 'a \<times> ('s \<times> call list)" where
  "logged e r calls = (fst r, (snd r, calls @ [e]))"

definition traced_client :: "'s client \<Rightarrow> ('s \<times> call list) client" where
  "traced_client c =
     \<lparr>Charge = (\<lambda>req (st, calls). logged (CallCharge req) (Charge c req st) calls),
      GetCharge = (\<lambda>cid (st, calls). logged (CallGetCharge cid) (GetCharge c cid st) calls)\<rparr>"

definition traced_repository :: "'s repository \<Rightarrow> ('s \<times> call list) repository" where
  "traced_repository r =
     \<lparr>repo_Create = (\<lambda>p (st, calls). logged (CallCreate p) (repo_Create r p st) calls),
      repo_Find = (\<lambda>pid (st, calls). logged (CallFind pid) (repo_Find r pid st) calls),
      repo_UpdateStatus = (\<lambda>pid s (st, calls). logged (CallUpdateStatus pid s) (repo_UpdateStatus r pid s st) calls)\<rparr>"

lemma traced_client_simps [simp]:
  "Charge (traced_client c) req (st, calls) = logged (CallCharge req) (Charge c req st) calls"
  "GetCharge (traced_client c) cid (st, calls) = logged (CallGetCharge cid) (GetCharge c cid st) calls"
  by (simp_all add: traced_client_def)

lemma traced_repository_simps [simp]:
  "repo_Create (traced_repository r) p (st, calls) = logged (CallCreate p) (repo_Create r p st) calls"
  "repo_Find (traced_repository r) pid (st, calls) = logged (CallFind pid) (repo_Find r pid st) calls"
  "repo_UpdateStatus (traced_repository r) pid s (st, calls) =
     logged (CallUpdateStatus pid s) (repo_UpdateStatus r pid s st) calls"
  by (simp_all add: traced_repository_def)

lemma logged_pair [simp]: "logged e (a, st) calls = (a, (st, calls @ [e]))"
  by (simp add: logged_def)

section \<open>The repository's contract for \<open>Create\<close>\<close>

text \<open>
  What the service relies on from \<open>Repository.Create\<close> (spec, section 6): it assigns the
  identifier and the two timestamps and leaves every other field as given.
\<close>

definition create_contract :: "'s repository \<Rightarrow> bool" where
  "create_contract r \<longleftrightarrow>
     (\<forall>p st. \<exists>pid t1 t2. snd (fst (repo_Create r p st)) =
        p\<lparr>payment_ID := pid, payment_CreatedAt := t1, payment_UpdatedAt := t2\<rparr>)"

section \<open>Theorems of the orchestrator\<close>

text \<open>
  C1. A successful \<open>CreatePaymentRequest\<close> returns a payment whose status, amount and
  currency are those of the charge the gateway returned (not of the request), and whose
  linked charge is that charge, for every repository that keeps the contract of
  \<open>Create\<close>.
\<close>

theorem CreatePaymentRequest_copies_gateway_charge:
  assumes "create_contract r"
    and "svc_CreatePaymentRequest (NewService c r) req st = (Inr p, st')"
  shows "\<exists>ch st1. Charge c req st = (Inr ch, st1) \<and>
           payment_Status p = charge_Status ch \<and> payment_Amount p = charge_Amount ch \<and>
           payment_Currency p = charge_Currency ch \<and> payment_OmiseCharge p = Some ch"
proof -
  obtain r1 st1 where ch: "Charge c req st = (r1, st1)" by fastforce
  from assms(2) ch obtain chg where r1: "r1 = Inr chg"
    by (cases r1) (auto simp: CreatePaymentRequest_def)
  obtain eo p2 st2 where cr: "repo_Create r (payment_of_charge chg) st1 = ((eo, p2), st2)"
    by (metis prod.exhaust)
  with assms(2) ch r1 have "p = p2"
    by (auto simp: CreatePaymentRequest_def split: option.splits)
  moreover from assms(1) cr obtain pid t1 t2 where
    "p2 = (payment_of_charge chg)\<lparr>payment_ID := pid, payment_CreatedAt := t1, payment_UpdatedAt := t2\<rparr>"
    unfolding create_contract_def by (metis fst_conv snd_conv)
  ultimately show ?thesis
    using ch r1 by (simp add: payment_of_charge_def)
qed

text \<open>
  C2. \<open>Find\<close> of a payment whose linked charge is in a terminal status calls the
  repository's \<open>Find\<close> once and nothing else (no gateway call at all), and returns the
  stored record unchanged.
\<close>

theorem Find_terminal_no_gateway_call:
  assumes "repo_Find r pid st = (Inr p, st1)"
    and "payment_OmiseCharge p = Some oc" and "charge_Status oc \<noteq> StatusPending"
  shows "svc_Find (NewService (traced_client c) (traced_repository r)) pid (st, calls) =
           (Inr p, (st1, calls @ [CallFind pid]))"
  using assms by (simp add: Find_def)

text \<open>
  C3. \<open>Find\<close> of a pending payment, when the gateway answers and the update succeeds,
  makes exactly four collaborator calls in this order: the repository's \<open>Find\<close>, the
  gateway's \<open>GetCharge\<close> on the linked charge, \<open>UpdateStatus\<close> with the status the
  gateway reported, and a second \<open>Find\<close>, whose result it returns.
\<close>

theorem Find_pending_call_sequence:
  assumes "repo_Find r pid st = (Inr p, st1)"
    and "payment_OmiseCharge p = Some oc" and "charge_Status oc = StatusPending"
    and "GetCharge c (charge_ID oc) st1 = (Inr ch, st2)"
    and "repo_UpdateStatus r pid (charge_Status ch) st2 = (None, st3)"
    and "repo_Find r pid st3 = (res, st4)"
  shows "svc_Find (NewService (traced_client c) (traced_repository r)) pid (st, calls) =
           (res, (st4, calls @ [CallFind pid, CallGetCharge (charge_ID oc),
                               CallUpdateStatus pid (charge_Status ch), CallFind pid]))"
  using assms by (simp add: Find_def)

text \<open>
  C4. Errors of \<open>Find\<close> are propagated unchanged and stop the operation: a failed
  lookup (\<open>NotFound\<close> among others) makes no gateway call, and a failed \<open>GetCharge\<close>
  makes no update.
\<close>

theorem Find_error_propagation:
  assumes "repo_Find r pid st = (Inl e, st1)"
  shows "svc_Find (NewService (traced_client c) (traced_repository r)) pid (st, calls) =
           (Inl e, (st1, calls @ [CallFind pid]))"
  using assms by (simp add: Find_def)

text \<open>C5. A failed \<open>GetCharge\<close> on a pending payment is returned and no update is made.\<close>

theorem Find_gateway_error_no_update:
  assumes "repo_Find r pid st = (Inr p, st1)"
    and "payment_OmiseCharge p = Some oc" and "charge_Status oc = StatusPending"
    and "GetCharge c (charge_ID oc) st1 = (Inl e, st2)"
  shows "svc_Find (NewService (traced_client c) (traced_repository r)) pid (st, calls) =
           (Inl e, (st2, calls @ [CallFind pid, CallGetCharge (charge_ID oc)]))"
  using assms by (simp add: Find_def)

text \<open>
  C6. \<open>CreatePaymentRequest\<close> calls the gateway first; when the gateway fails, its error
  is returned unchanged and the repository is never called, so no payment is created.
\<close>

theorem CreatePaymentRequest_gateway_error_no_store:
  assumes "Charge c req st = (Inl e, st1)"
  shows "svc_CreatePaymentRequest (NewService (traced_client c) (traced_repository r)) req (st, calls) =
           (Inl e, (st1, calls @ [CallCharge req]))"
  using assms by (simp add: CreatePaymentRequest_def)

text \<open>
  C7. When the gateway has made the charge but the repository's \<open>Create\<close> fails, the
  store's error is returned as it is, after exactly one charge and one insert attempt:
  the charge is left at the gateway without a local record and nothing compensates it.
\<close>

theorem CreatePaymentRequest_store_error_orphans_charge:
  assumes "Charge c req st = (Inr ch, st1)"
    and "repo_Create r (payment_of_charge ch) st1 = ((Some e, p'), st2)"
  shows "svc_CreatePaymentRequest (NewService (traced_client c) (traced_repository r)) req (st, calls) =
           (Inl e, (st2, calls @ [CallCharge req, CallCreate (payment_of_charge ch)]))"
  using assms by (simp add: CreatePaymentRequest_def)

end
