(* ===== verification/Payment_Service_Test.thy ===== *)
theory Payment_Service_Test
  imports Payment_Service
begin

text \<open>
  The test doubles and test tables of \<open>src/payment/payment_test.go\<close> and
  \<open>payment_mock_test.go\<close>, as values of the collaborator records. The mock client and
  mock repository take their answers from the test row; the repository of the \<open>Find\<close>
  tests counts its \<open>Find\<close> calls (\<open>FindCalledTimes\<close>, the state \<open>nat\<close>) and answers
  the n-th call with the n-th row entry. A function field the test leaves nil panics when
  called (\<open>NilDeref\<close>). Each test case of the Go suite is a theorem here, and the test
  rows are the concrete inputs at which the orchestrator's theorems are witnessed.
\<close>

section \<open>Fixtures\<close>

definition test_now :: time where
  "test_now = 1"

definition errSomeError :: error where
  "errSomeError = Err ''some error''"

definition test_request :: request where
  "test_request = \<lparr>req_Amount = 20000, req_Currency = ''THB'',
     req_ReturnURI = ''http://returnuri.com'', req_SourceType = ''internet_banking_scb''\<rparr>"

definition fixture_charge :: "status \<Rightarrow> omise_charge" where
  "fixture_charge s = \<lparr>charge_ID = ''charge-1'', charge_Status = s, charge_Amount = 20000,
     charge_Currency = ''THB'', charge_AuthorizeURI = ''http://authuri.com'',
     charge_SourceType = ''internet_banking_scb'', charge_ReturnURI = ''http://returnuri.com''\<rparr>"

definition fixture_payment :: "status \<Rightarrow> payment" where
  "fixture_payment s = \<lparr>payment_ID = 1, payment_Status = s, payment_Amount = 20000,
     payment_Currency = ''THB'', payment_OmiseCharge = Some (fixture_charge s),
     payment_CreatedAt = test_now, payment_UpdatedAt = test_now\<rparr>"

section \<open>The \<open>CreatePaymentRequest\<close> suite\<close>

record create_mocks =
  cm_paymentStatus :: status
  cm_clientReturnErr :: "error option"
  cm_paymentID :: goint
  cm_repoReturnErr :: "error option"
  cm_omiseChargeID :: string
  cm_authorizeURI :: string

definition create_test_client :: "create_mocks \<Rightarrow> 's client" where
  "create_test_client mk =
     \<lparr>Charge = (\<lambda>req st.
        (case cm_clientReturnErr mk of
           Some e \<Rightarrow> Inl e
         | None \<Rightarrow> Inr \<lparr>charge_ID = cm_omiseChargeID mk, charge_Status = cm_paymentStatus mk,
              charge_Amount = req_Amount req, charge_Currency = req_Currency req,
              charge_AuthorizeURI = cm_authorizeURI mk, charge_SourceType = req_SourceType req,
              charge_ReturnURI = req_ReturnURI req\<rparr>, st)),
      GetCharge = (\<lambda>_ st. (Inl NilDeref, st))\<rparr>"

definition create_test_repository :: "create_mocks \<Rightarrow> 's repository" where
  "create_test_repository mk =
     \<lparr>repo_Create = (\<lambda>p st. ((cm_repoReturnErr mk,
         p\<lparr>payment_ID := cm_paymentID mk, payment_CreatedAt := test_now, payment_UpdatedAt := test_now\<rparr>), st)),
      repo_Find = (\<lambda>_ st. (Inl NilDeref, st)),
      repo_UpdateStatus = (\<lambda>_ _ st. (Some NilDeref, st))\<rparr>"

definition create_success :: create_mocks where
  "create_success = \<lparr>cm_paymentStatus = StatusPending, cm_clientReturnErr = None, cm_paymentID = 1,
     cm_repoReturnErr = None, cm_omiseChargeID = ''charge-1'', cm_authorizeURI = ''http://authuri.com''\<rparr>"

definition create_client_error :: create_mocks where
  "create_client_error = \<lparr>cm_paymentStatus = StatusPending, cm_clientReturnErr = Some errSomeError,
     cm_paymentID = 0, cm_repoReturnErr = None, cm_omiseChargeID = '''', cm_authorizeURI = ''''\<rparr>"

definition create_repository_error :: create_mocks where
  "create_repository_error = \<lparr>cm_paymentStatus = StatusPending, cm_clientReturnErr = None,
     cm_paymentID = 0, cm_repoReturnErr = Some errSomeError, cm_omiseChargeID = ''charge-1'',
     cm_authorizeURI = ''http://authuri.com''\<rparr>"

section \<open>The \<open>Find\<close> suite\<close>

record find_mocks =
  fm_findReturns :: "(error + payment) list"
  fm_getCharge :: "error + omise_charge"
  fm_updateStatusErr :: "error option"

definition find_test_client :: "find_mocks \<Rightarrow> nat client" where
  "find_test_client mk =
     \<lparr>Charge = (\<lambda>_ n. (Inl NilDeref, n)), GetCharge = (\<lambda>_ n. (fm_getCharge mk, n))\<rparr>"

definition find_test_repository :: "find_mocks \<Rightarrow> nat repository" where
  "find_test_repository mk =
     \<lparr>repo_Create = (\<lambda>p n. ((Some NilDeref, p), n)),
      repo_Find = (\<lambda>_ n. (if n < length (fm_findReturns mk) then fm_findReturns mk ! n else Inl NilDeref, Suc n)),
      repo_UpdateStatus = (\<lambda>_ _ n. (fm_updateStatusErr mk, n))\<rparr>"

definition find_success_no_update :: find_mocks where
  "find_success_no_update = \<lparr>fm_findReturns = [Inr (fixture_payment StatusSuccessful)],
     fm_getCharge = Inl NilDeref, fm_updateStatusErr = None\<rparr>"

definition find_success_update :: find_mocks where
  "find_success_update = \<lparr>fm_findReturns = [Inr (fixture_payment StatusPending), Inr (fixture_payment StatusSuccessful)],
     fm_getCharge = Inr (fixture_charge StatusSuccessful), fm_updateStatusErr = None\<rparr>"

definition find_1_error :: find_mocks where
  "find_1_error = \<lparr>fm_findReturns = [Inl errSomeError, Inr (fixture_payment StatusSuccessful)],
     fm_getCharge = Inr (fixture_charge StatusSuccessful), fm_updateStatusErr = None\<rparr>"

definition find_2_error :: find_mocks where
  "find_2_error = \<lparr>fm_findReturns = [Inr (fixture_payment StatusPending), Inl errSomeError],
     fm_getCharge = Inr (fixture_charge StatusSuccessful), fm_updateStatusErr = None\<rparr>"

definition find_getcharge_error :: find_mocks where
  "find_getcharge_error = \<lparr>fm_findReturns = [Inr (fixture_payment StatusPending)],
     fm_getCharge = Inl errSomeError, fm_updateStatusErr = None\<rparr>"

definition find_updatestatus_error :: find_mocks where
  "find_updatestatus_error = \<lparr>fm_findReturns = [Inr (fixture_payment StatusPending)],
     fm_getCharge = Inr (fixture_charge StatusSuccessful), fm_updateStatusErr = Some errSomeError\<rparr>"

lemmas test_defs = test_request_def fixture_charge_def fixture_payment_def test_now_def
  create_test_client_def create_test_repository_def find_test_client_def find_test_repository_def
  create_success_def create_client_error_def create_repository_error_def
  find_success_no_update_def find_success_update_def find_1_error_def find_2_error_def
  find_getcharge_error_def find_updatestatus_error_def

section \<open>The Go test cases hold\<close>

lemma create_test_success:
  "svc_CreatePaymentRequest (NewService (create_test_client create_success) (create_test_repository create_success))
     test_request () = (Inr (fixture_payment StatusPending), ())"
  by (simp add: CreatePaymentRequest_def payment_of_charge_def test_defs)

lemma create_test_errors:
  "svc_CreatePaymentRequest (NewService (create_test_client create_client_error)
     (create_test_repository create_client_error)) test_request () = (Inl errSomeError, ())"
  "svc_CreatePaymentRequest (NewService (create_test_client create_repository_error)
     (create_test_repository create_repository_error)) test_request () = (Inl errSomeError, ())"
  by (simp_all add: CreatePaymentRequest_def test_defs)

lemma find_test_successes:
  "svc_Find (NewService (find_test_client find_success_no_update) (find_test_repository find_success_no_update)) 1 0
     = (Inr (fixture_payment StatusSuccessful), 1)"
  "svc_Find (NewService (find_test_client find_success_update) (find_test_repository find_success_update)) 1 0
     = (Inr (fixture_payment StatusSuccessful), 2)"
  by (simp_all add: Find_def test_defs status_defs)

lemma find_test_errors:
  "svc_Find (NewService (find_test_client find_1_error) (find_test_repository find_1_error)) 1 0 = (Inl errSomeError, 1)"
  "svc_Find (NewService (find_test_client find_2_error) (find_test_repository find_2_error)) 1 0 = (Inl errSomeError, 2)"
  "svc_Find (NewService (find_test_client find_getcharge_error) (find_test_repository find_getcharge_error)) 1 0
     = (Inl errSomeError, 1)"
  "svc_Find (NewService (find_test_client find_updatestatus_error) (find_test_repository find_updatestatus_error)) 1 0
     = (Inl errSomeError, 1)"
  by (simp_all add: Find_def test_defs status_defs)

lemma create_test_repository_contract: "create_contract (create_test_repository mk)"
  by (auto simp: create_contract_def create_test_repository_def)

section \<open>Witnesses of the orchestrator's theorems at the test rows\<close>

theorem CreatePaymentRequest_copies_gateway_charge_witness:
  "\<exists>ch st1. Charge (create_test_client create_success) test_request () = (Inr ch, st1) \<and>
     payment_Status (fixture_payment StatusPending) = charge_Status ch \<and>
     payment_Amount (fixture_payment StatusPending) = charge_Amount ch \<and>
     payment_Currency (fixture_payment StatusPending) = charge_Currency ch \<and>
     payment_OmiseCharge (fixture_payment StatusPending) = Some ch"
  by (rule CreatePaymentRequest_copies_gateway_charge [OF create_test_repository_contract create_test_success])

theorem Find_terminal_no_gateway_call_witness:
  "svc_Find (NewService (traced_client (find_test_client find_success_no_update))
      (traced_repository (find_test_repository find_success_no_update))) 1 (0, []) =
     (Inr (fixture_payment StatusSuccessful), (1, [CallFind 1]))"
  using Find_terminal_no_gateway_call [of "find_test_repository find_success_no_update" 1 0 "fixture_payment StatusSuccessful" 1 "fixture_charge StatusSuccessful" "find_test_client find_success_no_update" "[]"]
  by (simp add: test_defs status_defs)

theorem Find_pending_call_sequence_witness:
  "svc_Find (NewService (traced_client (find_test_client find_success_update))
      (traced_repository (find_test_repository find_success_update))) 1 (0, []) =
     (Inr (fixture_payment StatusSuccessful),
      (2, [CallFind 1, CallGetCharge ''charge-1'', CallUpdateStatus 1 StatusSuccessful, CallFind 1]))"
  using Find_pending_call_sequence [of "find_test_repository find_success_update" 1 0 "fixture_payment StatusPending" 1 "fixture_charge StatusPending" "find_test_client find_success_update" "fixture_charge StatusSuccessful" 1 1 "Inr (fixture_payment StatusSuccessful)" 2 "[]"]
  by (simp add: test_defs status_defs)

theorem Find_error_propagation_witness:
  "svc_Find (NewService (traced_client (find_test_client find_1_error))
      (traced_repository (find_test_repository find_1_error))) 1 (0, []) =
     (Inl errSomeError, (1, [CallFind 1]))"
  using Find_error_propagation [of "find_test_repository find_1_error" 1 0 errSomeError 1 "find_test_client find_1_error" "[]"]
  by (simp add: test_defs)

theorem Find_gateway_error_no_update_witness:
  "svc_Find (NewService (traced_client (find_test_client find_getcharge_error))
      (traced_repository (find_test_repository find_getcharge_error))) 1 (0, []) =
     (Inl errSomeError, (1, [CallFind 1, CallGetCharge ''charge-1'']))"
  using Find_gateway_error_no_update [of "find_test_repository find_getcharge_error" 1 0 "fixture_payment StatusPending" 1 "fixture_charge StatusPending" "find_test_client find_getcharge_error" errSomeError 1 "[]"]
  by (simp add: test_defs status_defs)

theorem CreatePaymentRequest_gateway_error_no_store_witness:
  "svc_CreatePaymentRequest (NewService (traced_client (create_test_client create_client_error))
      (traced_repository (create_test_repository create_client_error))) test_request ((), []) =
     (Inl errSomeError, ((), [CallCharge test_request]))"
  using CreatePaymentRequest_gateway_error_no_store [of "create_test_client create_client_error" test_request "()" errSomeError "()" "create_test_repository create_client_error" "[]"]
  by (simp add: test_defs)

theorem CreatePaymentRequest_store_error_orphans_charge_witness:
  "svc_CreatePaymentRequest (NewService (traced_client (create_test_client create_repository_error))
      (traced_repository (create_test_repository create_repository_error))) test_request ((), []) =
     (Inl errSomeError, ((), [CallCharge test_request, CallCreate (payment_of_charge (fixture_charge StatusPending))]))"
  using CreatePaymentRequest_store_error_orphans_charge [of "create_test_client create_repository_error" test_request "()" "fixture_charge StatusPending" "()" "create_test_repository create_repository_error" errSomeError "(payment_of_charge (fixture_charge StatusPending))\<lparr>payment_ID := 0,
                  payment_CreatedAt := test_now, payment_UpdatedAt := test_now\<rparr>" "()" "[]"]
  by (simp add: test_defs)

end
