(* ===== verification/Inmem_Repository.thy ===== *)
theory Inmem_Repository
  imports Payment_Service_Test
begin

text \<open>
  The in-memory store of package \<open>inmem\<close> (\<open>src/inmem/payment.go\<close>), the
  \<open>Repository\<close> the program runs with. Its state is the counter \<open>currentID\<close> and the
  map \<open>m\<close> from identifiers to payments; the mutex is not part of this sequential model,
  in which each operation is atomic. Every call of \<open>time.Now()\<close> is the parameter \<open>now\<close>. The map
  holds \<open>*Payment\<close> pointers; since no caller keeps a pointer across operations, the
  model stores the payment values, and an in-place update is a map update.
\<close>

section \<open>State and operations\<close>

record inmem_repo =
  currentID :: goint
  inmem_m :: "goint \<rightharpoonup> payment"

definition NewPaymentRepository :: inmem_repo where
  "NewPaymentRepository = \<lparr>currentID = 0, inmem_m = Map.empty\<rparr>"

text \<open>\<open>Create\<close>: next identifier, both timestamps set, stored under the new identifier.\<close>

definition inmem_Create :: "time \<Rightarrow> payment \<Rightarrow> inmem_repo \<Rightarrow> (error option \<times> payment) \<times> inmem_repo" where
  "inmem_Create now p r =
     (let cid = currentID r + 1;
          p' = p\<lparr>payment_ID := cid, payment_CreatedAt := now, payment_UpdatedAt := now\<rparr>
      in ((None, p'), r\<lparr>currentID := cid, inmem_m := (inmem_m r)(cid \<mapsto> p')\<rparr>))"

definition inmem_Find :: "goint \<Rightarrow> inmem_repo \<Rightarrow> error + payment" where
  "inmem_Find pid r = (case inmem_m r pid of None \<Rightarrow> Inl ErrPaymentNotFound | Some p \<Rightarrow> Inr p)"

text \<open>
  \<open>UpdateStatus\<close> writes through the stored pointer: first \<open>payment.Status\<close>, then
  \<open>payment.OmiseCharge.Status\<close> (a nil \<open>OmiseCharge\<close> panics here, after the first
  write has taken effect), then \<open>UpdatedAt\<close>.
\<close>

definition inmem_UpdateStatus :: "time \<Rightarrow> goint \<Rightarrow> status \<Rightarrow> inmem_repo \<Rightarrow> error option \<times> inmem_repo" where
  "inmem_UpdateStatus now pid s r =
     (case inmem_m r pid of
        None \<Rightarrow> (Some ErrPaymentNotFound, r)
      | Some p \<Rightarrow>
          (let p1 = p\<lparr>payment_Status := s\<rparr> in
           case payment_OmiseCharge p1 of
             None \<Rightarrow> (Some NilDeref, r\<lparr>inmem_m := (inmem_m r)(pid \<mapsto> p1)\<rparr>)
           | Some oc \<Rightarrow>
               (None, r\<lparr>inmem_m := (inmem_m r)(pid \<mapsto>
                  p1\<lparr>payment_OmiseCharge := Some (oc\<lparr>charge_Status := s\<rparr>), payment_UpdatedAt := now\<rparr>)\<rparr>)))"

text \<open>
  The \<open>*PaymentRepository\<close> as a \<open>payment.Repository\<close>, as \<open>main\<close> hands it to
  \<open>NewService\<close>; \<open>Find\<close> does not change the store.
\<close>

definition inmem_repository :: "time \<Rightarrow> inmem_repo repository" where
  "inmem_repository now =
     \<lparr>repo_Create = inmem_Create now,
      repo_Find = (\<lambda>pid r. (inmem_Find pid r, r)),
      repo_UpdateStatus = inmem_UpdateStatus now\<rparr>"

section \<open>Well-formedness\<close>

text \<open>
  A stored record is well formed when it is stored under its own identifier and its
  linked charge exists and carries the payment's status.
\<close>

definition charge_linked :: "payment \<Rightarrow> bool" where
  "charge_linked p \<longleftrightarrow>
     (case payment_OmiseCharge p of None \<Rightarrow> False | Some oc \<Rightarrow> charge_Status oc = payment_Status p)"

definition inmem_wf :: "inmem_repo \<Rightarrow> bool" where
  "inmem_wf r \<longleftrightarrow> (\<forall>k \<in> dom (inmem_m r). payment_ID (the (inmem_m r k)) = k \<and> charge_linked (the (inmem_m r k)))"

text \<open>All identifiers in use lie between 1 and the counter, read unsigned.\<close>

definition ids_below :: "inmem_repo \<Rightarrow> bool" where
  "ids_below r \<longleftrightarrow> (\<forall>k \<in> dom (inmem_m r). 0 < unat k \<and> unat k \<le> unat (currentID r))"

text \<open>A sequence of \<open>Create\<close> calls, returning the identifiers they assigned.\<close>

fun create_all :: "time \<Rightarrow> payment list \<Rightarrow> inmem_repo \<Rightarrow> goint list \<times> inmem_repo" where
  "create_all now [] r = ([], r)"
| "create_all now (p # ps) r =
     (let (ids, r2) = create_all now ps (snd (inmem_Create now p r))
      in (payment_ID (snd (fst (inmem_Create now p r))) # ids, r2))"

section \<open>Characteristic equations\<close>

lemma inmem_repository_simps [simp]:
  "repo_Create (inmem_repository now) = inmem_Create now"
  "repo_Find (inmem_repository now) pid r = (inmem_Find pid r, r)"
  "repo_UpdateStatus (inmem_repository now) = inmem_UpdateStatus now"
  by (simp_all add: inmem_repository_def)

lemma inmem_Create_eq:
  "inmem_Create now p r =
     ((None, p\<lparr>payment_ID := currentID r + 1, payment_CreatedAt := now, payment_UpdatedAt := now\<rparr>),
      r\<lparr>currentID := currentID r + 1,
        inmem_m := (inmem_m r)(currentID r + 1 \<mapsto>
          p\<lparr>payment_ID := currentID r + 1, payment_CreatedAt := now, payment_UpdatedAt := now\<rparr>)\<rparr>)"
  by (simp add: inmem_Create_def Let_def)

lemma inmem_Find_Some [simp]: "inmem_m r pid = Some p \<Longrightarrow> inmem_Find pid r = Inr p"
  by (simp add: inmem_Find_def)

lemma inmem_Find_None [simp]: "inmem_m r pid = None \<Longrightarrow> inmem_Find pid r = Inl ErrPaymentNotFound"
  by (simp add: inmem_Find_def)

lemma inmem_UpdateStatus_missing [simp]:
  "inmem_m r pid = None \<Longrightarrow> inmem_UpdateStatus now pid s r = (Some ErrPaymentNotFound, r)"
  by (simp add: inmem_UpdateStatus_def)

lemma inmem_UpdateStatus_linked [simp]:
  "inmem_m r pid = Some p \<Longrightarrow> payment_OmiseCharge p = Some oc \<Longrightarrow>
   inmem_UpdateStatus now pid s r =
     (None, r\<lparr>inmem_m := (inmem_m r)(pid \<mapsto> p\<lparr>payment_Status := s,
        payment_OmiseCharge := Some (oc\<lparr>charge_Status := s\<rparr>), payment_UpdatedAt := now\<rparr>)\<rparr>)"
  by (simp add: inmem_UpdateStatus_def)

lemma inmem_UpdateStatus_nil [simp]:
  "inmem_m r pid = Some p \<Longrightarrow> payment_OmiseCharge p = None \<Longrightarrow>
   inmem_UpdateStatus now pid s r = (Some NilDeref, r\<lparr>inmem_m := (inmem_m r)(pid \<mapsto> p\<lparr>payment_Status := s\<rparr>)\<rparr>)"
  by (simp add: inmem_UpdateStatus_def)

lemma inmem_UpdateStatus_currentID [simp]:
  "currentID (snd (inmem_UpdateStatus now pid s r)) = currentID r"
  by (simp add: inmem_UpdateStatus_def Let_def split: option.split)

lemma inmem_UpdateStatus_dom [simp]:
  "dom (inmem_m (snd (inmem_UpdateStatus now pid s r))) = dom (inmem_m r)"
  by (auto simp: inmem_UpdateStatus_def Let_def split: option.splits)

lemma inmem_UpdateStatus_frame:
  "k \<noteq> pid \<Longrightarrow> inmem_m (snd (inmem_UpdateStatus now pid s r)) k = inmem_m r k"
  by (simp add: inmem_UpdateStatus_def Let_def split: option.split)

section \<open>Interface: the store keeps the service's contract\<close>

lemma create_contract_inmem: "create_contract (inmem_repository now)"
  unfolding create_contract_def by (auto simp: inmem_Create_eq)

section \<open>Well-formedness is kept\<close>

lemma inmem_wfD:
  "inmem_wf r \<Longrightarrow> inmem_m r k = Some p \<Longrightarrow> payment_ID p = k \<and> charge_linked p"
  by (force simp: inmem_wf_def)

lemma inmem_wfI:
  "(\<And>k p. inmem_m r k = Some p \<Longrightarrow> payment_ID p = k \<and> charge_linked p) \<Longrightarrow> inmem_wf r"
  by (auto simp: inmem_wf_def)

lemma charge_linked_Some:
  "payment_OmiseCharge p = Some oc \<Longrightarrow> charge_linked p \<longleftrightarrow> charge_Status oc = payment_Status p"
  by (simp add: charge_linked_def)

lemma charge_linked_obtain:
  assumes "charge_linked p"
  obtains oc where "payment_OmiseCharge p = Some oc" "charge_Status oc = payment_Status p"
  using assms by (auto simp: charge_linked_def split: option.splits)

lemma inmem_wf_empty: "inmem_wf NewPaymentRepository"
  by (simp add: inmem_wf_def NewPaymentRepository_def)

lemma inmem_wf_Create:
  "inmem_wf r \<Longrightarrow> charge_linked p \<Longrightarrow> inmem_wf (snd (inmem_Create now p r))"
  by (auto simp: inmem_wf_def inmem_Create_eq charge_linked_def split: option.splits)

lemma inmem_wf_UpdateStatus:
  assumes wf: "inmem_wf r"
  shows "inmem_wf (snd (inmem_UpdateStatus now pid s r))"
proof (cases "inmem_m r pid")
  case None
  with wf show ?thesis by simp
next
  case (Some p)
  with wf have "payment_ID p = pid" and "charge_linked p" by (auto dest: inmem_wfD)
  then obtain oc where oc: "payment_OmiseCharge p = Some oc" by (auto elim: charge_linked_obtain)
  show ?thesis
  proof (rule inmem_wfI)
    fix k q assume "inmem_m (snd (inmem_UpdateStatus now pid s r)) k = Some q"
    with Some oc wf \<open>payment_ID p = pid\<close> show "payment_ID q = k \<and> charge_linked q"
      by (auto simp: charge_linked_def split: if_splits dest: inmem_wfD)
  qed
qed

lemma inmem_wf_UpdateStatus_ok:
  "inmem_wf r \<Longrightarrow> inmem_m r pid = Some p \<Longrightarrow> fst (inmem_UpdateStatus now pid s r) = None"
  by (auto dest!: inmem_wfD elim: charge_linked_obtain)

section \<open>The identifier counter\<close>

lemma ids_below_empty: "ids_below NewPaymentRepository"
  by (simp add: ids_below_def NewPaymentRepository_def)

lemma ids_below_UpdateStatus: "ids_below r \<Longrightarrow> ids_below (snd (inmem_UpdateStatus now pid s r))"
  by (simp add: ids_below_def)

lemma ids_below_Create:
  assumes ib: "ids_below r" and nw: "currentID r \<noteq> - 1"
  shows "ids_below (snd (inmem_Create now p r))"
  unfolding ids_below_def
proof
  fix k assume "k \<in> dom (inmem_m (snd (inmem_Create now p r)))"
  then have "k = currentID r + 1 \<or> k \<in> dom (inmem_m r)"
    by (auto simp: inmem_Create_eq split: if_splits)
  then show "0 < unat k \<and> unat k \<le> unat (currentID (snd (inmem_Create now p r)))"
  proof (elim disjE)
    assume "k \<in> dom (inmem_m r)"
    with ib have "0 < unat k \<and> unat k \<le> unat (currentID r)" by (simp add: ids_below_def)
    with unat_counter_Suc [OF nw] show ?thesis by (simp add: inmem_Create_eq)
  qed (simp add: inmem_Create_eq unat_counter_Suc [OF nw])
qed

text \<open>While the counter has not reached its maximum, \<open>Create\<close> writes a fresh key.\<close>

lemma ids_below_fresh:
  assumes ib: "ids_below r" and nw: "currentID r \<noteq> - 1"
  shows "inmem_m r (currentID r + 1) = None"
proof (rule ccontr)
  assume "inmem_m r (currentID r + 1) \<noteq> None"
  then have "currentID r + 1 \<in> dom (inmem_m r)" by auto
  with ib have "unat (currentID r + 1) \<le> unat (currentID r)" by (auto simp: ids_below_def)
  with unat_counter_Suc [OF nw] show False by simp
qed

lemma create_all_ids:
  "fst (create_all now ps r) = map (\<lambda>i. currentID r + of_nat (Suc i)) [0..<length ps] \<and>
   currentID (snd (create_all now ps r)) = currentID r + of_nat (length ps)"
proof (induction ps arbitrary: r)
  case Nil
  then show ?case by simp
next
  case (Cons p ps)
  let ?r1 = "snd (inmem_Create now p r)"
  have c1: "currentID ?r1 = currentID r + 1" by (simp add: inmem_Create_eq)
  have "[0..<length (p # ps)] = 0 # map Suc [0..<length ps]"
    by (simp add: upt_conv_Cons map_Suc_upt del: upt_Suc)
  with Cons.IH [of ?r1] c1 show ?case
    by (auto simp: inmem_Create_eq split: prod.split simp del: upt_Suc)
qed

lemma create_all_Cons_state:
  "snd (create_all now (p # ps) r) = snd (create_all now ps (snd (inmem_Create now p r)))"
  by (simp split: prod.split)

lemma create_all_append_state:
  "snd (create_all now (ps @ [b]) r) = snd (inmem_Create now b (snd (create_all now ps r)))"
  by (induction ps arbitrary: r) (simp_all add: create_all_Cons_state del: create_all.simps(2))

section \<open>Theorems of the in-memory store\<close>

text \<open>
  C13. \<open>Create\<close> never fails; it gives the payment the next identifier and the current
  time as both timestamps, and a \<open>Find\<close> of that identifier returns exactly that payment,
  while every other identifier keeps its record (insert/lookup round trip).
\<close>

theorem inmem_Create_Find_roundtrip:
  assumes "inmem_Create now p r = ((e, p'), r')"
  shows "e = None \<and>
         p' = p\<lparr>payment_ID := currentID r + 1, payment_CreatedAt := now, payment_UpdatedAt := now\<rparr> \<and>
         inmem_Find (payment_ID p') r' = Inr p' \<and> currentID r' = currentID r + 1 \<and>
         (\<forall>k. k \<noteq> payment_ID p' \<longrightarrow> inmem_m r' k = inmem_m r k)"
  using assms by (auto simp: inmem_Create_def Let_def inmem_Find_def)

text \<open>
  C14. \<open>UpdateStatus\<close> of a stored payment with a linked charge succeeds; a later
  \<open>Find\<close> returns the payment with the new status in the payment and in its charge and
  the current time as \<open>UpdatedAt\<close>, and no other record changes (update/lookup round trip).
\<close>

theorem inmem_UpdateStatus_Find_roundtrip:
  assumes "inmem_m r pid = Some p" and "charge_linked p"
  shows "\<exists>r'. inmem_UpdateStatus now pid s r = (None, r') \<and>
           inmem_Find pid r' = Inr (p\<lparr>payment_Status := s,
              payment_OmiseCharge := map_option (\<lambda>oc. oc\<lparr>charge_Status := s\<rparr>) (payment_OmiseCharge p),
              payment_UpdatedAt := now\<rparr>) \<and>
           currentID r' = currentID r \<and> (\<forall>k. k \<noteq> pid \<longrightarrow> inmem_m r' k = inmem_m r k)"
  using assms by (auto elim: charge_linked_obtain)

text \<open>
  C15. An identifier with no record makes \<open>Find\<close> and \<open>UpdateStatus\<close> return the
  sentinel \<open>ErrPaymentNotFound\<close>, and \<open>UpdateStatus\<close> then leaves the store unchanged.
\<close>

theorem inmem_missing_id:
  assumes "inmem_m r pid = None"
  shows "inmem_Find pid r = Inl ErrPaymentNotFound \<and>
         inmem_UpdateStatus now pid s r = (Some ErrPaymentNotFound, r)"
  using assms by simp

text \<open>
  C16. Well-formedness (every record is stored under its own identifier and carries a
  linked charge with the same status) is kept by \<open>Create\<close> of a payment with a linked
  charge and by every \<open>UpdateStatus\<close>; on a well-formed store, \<open>UpdateStatus\<close> of a
  stored identifier never reaches the nil dereference and succeeds.
\<close>

theorem inmem_wf_preserved:
  assumes "inmem_wf r"
  shows "(charge_linked p \<longrightarrow> inmem_wf (snd (inmem_Create now p r))) \<and>
         inmem_wf (snd (inmem_UpdateStatus now pid s r)) \<and>
         (pid \<in> dom (inmem_m r) \<longrightarrow> fst (inmem_UpdateStatus now pid s r) = None)"
  using assms inmem_wf_Create inmem_wf_UpdateStatus inmem_wf_UpdateStatus_ok by blast

text \<open>
  C17. Starting from \<open>NewPaymentRepository\<close>, fewer than \<open>2^63\<close> calls of \<open>Create\<close>
  assign the identifiers 1, 2, ..., n, read as Go's signed \<open>int\<close>: unique, strictly
  increasing and positive.
\<close>

theorem create_all_ids_signed:
  assumes "length ps < 2 ^ 63"
  shows "map sint (fst (create_all now ps NewPaymentRepository)) = map int [1..<Suc (length ps)]"
proof -
  have "map sint (fst (create_all now ps NewPaymentRepository)) =
        map (\<lambda>i. sint (of_nat (Suc i) :: goint)) [0..<length ps]"
    using create_all_ids [of now ps NewPaymentRepository]
    by (simp add: NewPaymentRepository_def)
  also have "\<dots> = map (\<lambda>i. int (Suc i)) [0..<length ps]"
    using assms by (intro map_cong refl) (simp add: sint_of_nat_64 del: of_nat_Suc)
  also have "\<dots> = map int [1..<Suc (length ps)]"
    by (simp add: map_Suc_upt[symmetric] del: upt_Suc)
  finally show ?thesis .
qed

text \<open>
  C18. The counter is a Go \<open>int\<close> incremented without a check: after \<open>2^64\<close> calls of
  \<open>Create\<close> it has wrapped to 0, the next payment gets the identifier 1 again, which the
  first payment already had, and its record replaces the first one in the map.
\<close>

theorem create_all_id_reuse_after_wrap:
  assumes "length ps = 2 ^ 64"
  shows "hd (fst (create_all now (ps @ [b]) NewPaymentRepository)) = 1 \<and>
         last (fst (create_all now (ps @ [b]) NewPaymentRepository)) = 1 \<and>
         inmem_m (snd (create_all now (ps @ [b]) NewPaymentRepository)) 1 =
           Some (b\<lparr>payment_ID := 1, payment_CreatedAt := now, payment_UpdatedAt := now\<rparr>)"
proof -
  have ids: "fst (create_all now (ps @ [b]) NewPaymentRepository) =
             map (\<lambda>i. of_nat (Suc i)) [0..<Suc (2 ^ 64)]"
    using create_all_ids [of now "ps @ [b]" NewPaymentRepository] assms
    by (simp add: NewPaymentRepository_def del: upt_Suc)
  have cid: "currentID (snd (create_all now ps NewPaymentRepository)) = 0"
    using create_all_ids [of now ps NewPaymentRepository] assms
    by (simp add: NewPaymentRepository_def)
  have "hd [0..<Suc (2 ^ 64)] = 0" by (simp add: hd_upt del: upt_Suc)
  moreover have "last [0..<Suc (2 ^ 64)] = 2 ^ 64" by (simp del: upt_Suc)
  ultimately show ?thesis
    using ids cid create_all_append_state [of now ps b NewPaymentRepository]
    by (simp add: hd_map last_map inmem_Create_eq del: upt_Suc)
qed

section \<open>Witnesses\<close>

theorem inmem_Create_Find_roundtrip_witness:
  "fst (fst (inmem_Create 5 (fixture_payment StatusPending) \<lparr>currentID = 1, inmem_m = [1 \<mapsto> fixture_payment StatusSuccessful]\<rparr>)) = None \<and>
   inmem_Find 2 (snd (inmem_Create 5 (fixture_payment StatusPending) \<lparr>currentID = 1, inmem_m = [1 \<mapsto> fixture_payment StatusSuccessful]\<rparr>)) =
     Inr ((fixture_payment StatusPending)\<lparr>payment_ID := 2, payment_CreatedAt := 5, payment_UpdatedAt := 5\<rparr>) \<and>
   inmem_m (snd (inmem_Create 5 (fixture_payment StatusPending) \<lparr>currentID = 1, inmem_m = [1 \<mapsto> fixture_payment StatusSuccessful]\<rparr>)) 1 =
     Some (fixture_payment StatusSuccessful)"
proof -
  let ?r = "\<lparr>currentID = 1, inmem_m = [1 \<mapsto> fixture_payment StatusSuccessful]\<rparr>"
  let ?X = "inmem_Create 5 (fixture_payment StatusPending) ?r"
  have "?X = ((fst (fst ?X), snd (fst ?X)), snd ?X)" by simp
  from inmem_Create_Find_roundtrip [OF this] show ?thesis
    by (simp add: inmem_Create_eq)
qed

theorem inmem_UpdateStatus_Find_roundtrip_witness:
  "\<exists>r'. inmem_UpdateStatus 7 1 StatusSuccessful \<lparr>currentID = 2, inmem_m = [1 \<mapsto> fixture_payment StatusPending,
          2 \<mapsto> fixture_payment StatusFailed]\<rparr> = (None, r') \<and>
     inmem_Find 1 r' = Inr ((fixture_payment StatusSuccessful)\<lparr>payment_UpdatedAt := 7\<rparr>) \<and>
     inmem_m r' 2 = Some (fixture_payment StatusFailed)"
proof -
  let ?r = "\<lparr>currentID = 2, inmem_m = [1 \<mapsto> fixture_payment StatusPending, 2 \<mapsto> fixture_payment StatusFailed]\<rparr>"
  have "inmem_m ?r 1 = Some (fixture_payment StatusPending)" by simp
  moreover have "charge_linked (fixture_payment StatusPending)" by (simp add: charge_linked_def test_defs)
  ultimately obtain r' where "inmem_UpdateStatus 7 1 StatusSuccessful ?r = (None, r')"
    and "inmem_Find 1 r' = Inr ((fixture_payment StatusPending)\<lparr>payment_Status := StatusSuccessful,
          payment_OmiseCharge := map_option (\<lambda>oc. oc\<lparr>charge_Status := StatusSuccessful\<rparr>)
            (payment_OmiseCharge (fixture_payment StatusPending)), payment_UpdatedAt := 7\<rparr>)"
    and "\<forall>k. k \<noteq> 1 \<longrightarrow> inmem_m r' k = inmem_m ?r k"
    using inmem_UpdateStatus_Find_roundtrip [of ?r 1 "fixture_payment StatusPending" 7 StatusSuccessful] by blast
  then show ?thesis by (auto simp: test_defs)
qed

theorem inmem_missing_id_witness:
  "inmem_Find 42 NewPaymentRepository = Inl ErrPaymentNotFound \<and>
   inmem_UpdateStatus 3 42 StatusFailed NewPaymentRepository = (Some ErrPaymentNotFound, NewPaymentRepository)"
  by (rule inmem_missing_id) (simp add: NewPaymentRepository_def)

theorem inmem_wf_preserved_witness:
  "inmem_wf (snd (inmem_Create 5 (fixture_payment StatusPending)
        \<lparr>currentID = 1, inmem_m = [1 \<mapsto> fixture_payment StatusPending]\<rparr>)) \<and>
   inmem_wf (snd (inmem_UpdateStatus 5 1 StatusFailed
     \<lparr>currentID = 1, inmem_m = [1 \<mapsto> fixture_payment StatusPending]\<rparr>)) \<and>
   fst (inmem_UpdateStatus 5 1 StatusFailed
        \<lparr>currentID = 1, inmem_m = [1 \<mapsto> fixture_payment StatusPending]\<rparr>) = None"
proof -
  let ?r = "\<lparr>currentID = 1, inmem_m = [1 \<mapsto> fixture_payment StatusPending]\<rparr>"
  have wf: "inmem_wf ?r" by (simp add: inmem_wf_def charge_linked_def test_defs)
  have "charge_linked (fixture_payment StatusPending)" and "(1::goint) \<in> dom (inmem_m ?r)"
    by (simp_all add: charge_linked_def test_defs)
  with inmem_wf_preserved [OF wf, of "fixture_payment StatusPending" 5 1 StatusFailed] show ?thesis
    by blast
qed

theorem create_all_ids_signed_witness:
  "map sint (fst (create_all 5 [fixture_payment StatusPending, fixture_payment StatusSuccessful] NewPaymentRepository)) =
   map int [1..<Suc (length [fixture_payment StatusPending, fixture_payment StatusSuccessful])]"
  by (rule create_all_ids_signed) simp

theorem create_all_id_reuse_after_wrap_witness:
  "hd (fst (create_all 5 (replicate (2 ^ 64) (fixture_payment StatusPending) @ [fixture_payment StatusFailed]) NewPaymentRepository)) = 1 \<and>
   last (fst (create_all 5 (replicate (2 ^ 64) (fixture_payment StatusPending) @ [fixture_payment StatusFailed]) NewPaymentRepository)) = 1 \<and>
   inmem_m (snd (create_all 5 (replicate (2 ^ 64) (fixture_payment StatusPending) @ [fixture_payment StatusFailed]) NewPaymentRepository)) 1 =
     Some ((fixture_payment StatusFailed)\<lparr>payment_ID := 1, payment_CreatedAt := 5, payment_UpdatedAt := 5\<rparr>)"
  by (rule create_all_id_reuse_after_wrap) simp

end
