(* ===== verification/Payment_System.thy ===== *)
theory Payment_System
  imports Inmem_Repository
begin

text \<open>
  The program as \<open>main\<close> assembles it (\<open>src/main.go\<close>): the orchestrator built by
  \<open>NewService\<close> over the in-memory store, with the payment gateway as the environment.
  An operation of the system is one call of \<open>CreatePaymentRequest\<close> or \<open>Find\<close>; it
  carries the clock reading of the call and the answer the gateway gives to the one
  gateway call the operation may make (any answer: the gateway is not modelled). The
  theory proves that the store stays well formed in every run, that a record whose
  status has left \<open>pending\<close> never changes again, and that every operation refines an
  abstract per-payment lifecycle.
\<close>

section \<open>The system and its runs\<close>

text \<open>A gateway that gives the answer \<open>res\<close> to any call and keeps no state of its own here.\<close>

definition gateway_answer :: "error + omise_charge \<Rightarrow> 's client" where
  "gateway_answer res = \<lparr>Charge = (\<lambda>_ st. (res, st)), GetCharge = (\<lambda>_ st. (res, st))\<rparr>"

datatype sys_op =
    OpCreate time request "error + omise_charge"
  | OpFind time goint "error + omise_charge"

text \<open>\<open>paymentSvc := payment.NewService(client, paymentRepo)\<close> of \<open>main\<close>.\<close>

definition paymentSvc :: "time \<Rightarrow> error + omise_charge \<Rightarrow> inmem_repo Service" where
  "paymentSvc now res = NewService (gateway_answer res) (inmem_repository now)"

fun sys_exec :: "sys_op \<Rightarrow> inmem_repo \<Rightarrow> (error + payment) \<times> inmem_repo" where
  "sys_exec (OpCreate now req res) r = svc_CreatePaymentRequest (paymentSvc now res) req r"
| "sys_exec (OpFind now pid res) r = svc_Find (paymentSvc now res) pid r"

fun sys_run :: "inmem_repo \<Rightarrow> sys_op list \<Rightarrow> inmem_repo" where
  "sys_run r [] = r"
| "sys_run r (op # ops) = sys_run (snd (sys_exec op r)) ops"

text \<open>The number of operations in a run that insert a payment: creations the gateway accepted.\<close>

fun created :: "sys_op list \<Rightarrow> nat" where
  "created [] = 0"
| "created (OpCreate now req (Inr ch) # ops) = Suc (created ops)"
| "created (_ # ops) = created ops"

section \<open>Abstract lifecycle\<close>

text \<open>
  What the spec promises of each payment, independent of the store: a payment appears
  once with any status; a pending one may move to any status; nothing else changes.
\<close>

definition abs_status :: "inmem_repo \<Rightarrow> goint \<rightharpoonup> status" where
  "abs_status r = (\<lambda>k. map_option payment_Status (inmem_m r k))"

inductive lifecycle_step :: "(goint \<rightharpoonup> status) \<Rightarrow> (goint \<rightharpoonup> status) \<Rightarrow> bool" where
  stutter: "lifecycle_step a a"
| create: "a k = None \<Longrightarrow> lifecycle_step a (a(k \<mapsto> s))"
| settle: "a k = Some StatusPending \<Longrightarrow> lifecycle_step a (a(k \<mapsto> s))"

text \<open>The hypotheses under which one operation keeps every identifier fresh.\<close>

definition step_ok :: "sys_op \<Rightarrow> inmem_repo \<Rightarrow> bool" where
  "step_ok op r \<longleftrightarrow> inmem_wf r \<and> ids_below r \<and> (created [op] = 1 \<longrightarrow> currentID r \<noteq> - 1)"

text \<open>A store holding one pending payment, created through the service (used by the witnesses).\<close>

definition demo_store :: inmem_repo where
  "demo_store = sys_run NewPaymentRepository [OpCreate 1 test_request (Inr (fixture_charge StatusPending))]"

section \<open>Effect of one operation on the store\<close>

lemma gateway_answer_simps [simp]:
  "Charge (gateway_answer res) req st = (res, st)"
  "GetCharge (gateway_answer res) cid st = (res, st)"
  by (simp_all add: gateway_answer_def)

lemma sys_exec_create_state:
  "snd (sys_exec (OpCreate now req res) r) =
     (case res of Inl e \<Rightarrow> r | Inr ch \<Rightarrow> snd (inmem_Create now (payment_of_charge ch) r))"
  by (simp add: paymentSvc_def CreatePaymentRequest_def inmem_Create_eq split: sum.split)

lemma sys_exec_find_state:
  "snd (sys_exec (OpFind now pid res) r) =
     (case inmem_m r pid of
        None \<Rightarrow> r
      | Some p \<Rightarrow>
          (case payment_OmiseCharge p of
             None \<Rightarrow> r
           | Some oc \<Rightarrow>
               (if charge_Status oc = StatusPending
                then (case res of Inl e \<Rightarrow> r | Inr ch \<Rightarrow> snd (inmem_UpdateStatus now pid (charge_Status ch) r))
                else r)))"
  by (auto simp: paymentSvc_def Find_def inmem_Find_def
      split: option.split sum.split prod.split)

lemma sys_run_snoc: "sys_run r (ops @ [op]) = snd (sys_exec op (sys_run r ops))"
  by (induction ops arbitrary: r) simp_all

lemma created_snoc:
  "created (ops @ [op]) = created ops + created [op]"
  by (induction ops rule: created.induct) simp_all

lemma payment_of_charge_linked [simp]: "charge_linked (payment_of_charge ch)"
  by (simp add: charge_linked_def payment_of_charge_def)

section \<open>One operation: invariants and fresh identifiers\<close>

declare sys_exec.simps [simp del]

lemma abs_status_upd [simp]:
  "abs_status (r\<lparr>inmem_m := (inmem_m r)(k \<mapsto> p)\<rparr>) = (abs_status r)(k \<mapsto> payment_Status p)"
  by (simp add: abs_status_def fun_eq_iff)


lemma sys_exec_find_cases:
  obtains "snd (sys_exec (OpFind now pid res) r) = r"
  | s where "snd (sys_exec (OpFind now pid res) r) = snd (inmem_UpdateStatus now pid s r)"
  using sys_exec_find_state [of now pid res r]
  by (auto split: option.splits sum.splits if_splits simp del: inmem_UpdateStatus_linked)

lemma sys_exec_wf:
  "inmem_wf r \<Longrightarrow> inmem_wf (snd (sys_exec op r))"
proof (cases op)
  case (OpCreate now req res)
  moreover assume "inmem_wf r"
  ultimately show ?thesis
    by (auto simp: sys_exec_create_state intro: inmem_wf_Create split: sum.split)
next
  case (OpFind now pid res)
  moreover assume "inmem_wf r"
  ultimately show ?thesis
    by (cases rule: sys_exec_find_cases [of now pid res r]) (simp_all add: inmem_wf_UpdateStatus)
qed

lemma sys_run_wf: "inmem_wf r \<Longrightarrow> inmem_wf (sys_run r ops)"
  by (induction ops arbitrary: r) (simp_all add: sys_exec_wf)

lemma sys_exec_currentID:
  "currentID (snd (sys_exec op r)) = currentID r + of_nat (created [op])"
proof (cases op)
  case (OpCreate now req res)
  then show ?thesis
    by (cases res) (simp_all add: sys_exec_create_state inmem_Create_eq)
next
  case (OpFind now pid res)
  then show ?thesis
    by (cases rule: sys_exec_find_cases [of now pid res r]) simp_all
qed

lemma sys_exec_ids_below:
  assumes "ids_below r" and "created [op] = 1 \<longrightarrow> currentID r \<noteq> - 1"
  shows "ids_below (snd (sys_exec op r))"
proof (cases op)
  case (OpCreate now req res)
  with assms show ?thesis
    by (cases res) (simp_all add: sys_exec_create_state ids_below_Create)
next
  case (OpFind now pid res)
  with assms show ?thesis
    by (cases rule: sys_exec_find_cases [of now pid res r]) (simp_all add: ids_below_UpdateStatus)
qed

lemma sys_run_counter:
  "created ops < 2 ^ 64 \<Longrightarrow>
   ids_below (sys_run NewPaymentRepository ops) \<and>
   currentID (sys_run NewPaymentRepository ops) = of_nat (created ops)"
proof (induction ops rule: rev_induct)
  case Nil
  then show ?case using ids_below_empty by (simp add: NewPaymentRepository_def)
next
  case (snoc op ops)
  let ?r = "sys_run NewPaymentRepository ops"
  from snoc.prems have lt: "created ops + created [op] < 2 ^ 64" by (simp add: created_snoc)
  with snoc.IH have ib: "ids_below ?r" and cid: "currentID ?r = of_nat (created ops)" by simp_all
  have "created [op] = 1 \<longrightarrow> currentID ?r \<noteq> - 1"
    using lt cid of_nat_64_not_max [of "created ops"] by auto
  with ib have "ids_below (snd (sys_exec op ?r))" by (rule sys_exec_ids_below)
  moreover have "currentID (snd (sys_exec op ?r)) = of_nat (created (ops @ [op]))"
    by (simp add: sys_exec_currentID cid created_snoc)
  ultimately show ?case by (simp add: sys_run_snoc)
qed

lemma created_append: "created (xs @ ys) = created xs + created ys"
  by (induction xs rule: created.induct) simp_all


lemma sys_run_step_ok:
  assumes "created (ops @ [op]) < 2 ^ 64"
  shows "step_ok op (sys_run NewPaymentRepository ops)"
proof -
  let ?r = "sys_run NewPaymentRepository ops"
  from assms have lt: "created ops + created [op] < 2 ^ 64" by (simp add: created_snoc)
  with sys_run_counter [of ops] have "ids_below ?r" and cid: "currentID ?r = of_nat (created ops)"
    by simp_all
  moreover have "created [op] = 1 \<longrightarrow> currentID ?r \<noteq> - 1"
    using lt cid of_nat_64_not_max [of "created ops"] by auto
  ultimately show ?thesis
    using sys_run_wf inmem_wf_empty by (simp add: step_ok_def)
qed

lemma abs_status_eqI:
  "inmem_m r' = (inmem_m r)(k \<mapsto> p) \<Longrightarrow> abs_status r' = (abs_status r)(k \<mapsto> payment_Status p)"
  by (simp add: abs_status_def fun_eq_iff)

lemma sys_exec_create_fresh:
  assumes "step_ok (OpCreate now req (Inr ch)) r"
  shows "snd (sys_exec (OpCreate now req (Inr ch)) r) = snd (inmem_Create now (payment_of_charge ch) r)"
    and "inmem_m r (currentID r + 1) = None"
  using assms ids_below_fresh by (simp_all add: sys_exec_create_state step_ok_def)

lemma sys_exec_keeps_terminal:
  assumes ok: "step_ok op r" and k: "inmem_m r k = Some p" and t: "payment_Status p \<noteq> StatusPending"
  shows "inmem_m (snd (sys_exec op r)) k = Some p"
proof (cases op)
  case (OpCreate now req res)
  show ?thesis
  proof (cases res)
    case (Inl e)
    with OpCreate show ?thesis using k by (simp add: sys_exec_create_state)
  next
    case (Inr ch)
    with OpCreate ok have "inmem_m r (currentID r + 1) = None"
      by (simp add: sys_exec_create_fresh)
    with k have "k \<noteq> currentID r + 1" by auto
    with OpCreate Inr k show ?thesis by (simp add: sys_exec_create_state inmem_Create_eq)
  qed
next
  case (OpFind now pid res)
  from ok k have "charge_linked p" by (auto simp: step_ok_def dest: inmem_wfD)
  then obtain oc where oc: "payment_OmiseCharge p = Some oc" "charge_Status oc = payment_Status p"
    by (rule charge_linked_obtain)
  show ?thesis
  proof (cases "pid = k")
    case True
    with OpFind k oc t show ?thesis by (simp add: sys_exec_find_state)
  next
    case False
    with OpFind k show ?thesis
      by (cases rule: sys_exec_find_cases [of now pid res r]) (simp_all add: inmem_UpdateStatus_frame)
  qed
qed

lemma sys_exec_refines:
  assumes ok: "step_ok op r"
  shows "lifecycle_step (abs_status r) (abs_status (snd (sys_exec op r)))"
proof (cases op)
  case (OpCreate now req res)
  show ?thesis
  proof (cases res)
    case (Inl e)
    with OpCreate show ?thesis by (simp add: sys_exec_create_state lifecycle_step.stutter)
  next
    case (Inr ch)
    with OpCreate ok have "inmem_m r (currentID r + 1) = None"
      by (simp add: sys_exec_create_fresh)
    then have "abs_status r (currentID r + 1) = None" by (simp add: abs_status_def)
    moreover have "abs_status (snd (sys_exec op r)) = (abs_status r)(currentID r + 1 \<mapsto>
        payment_Status ((payment_of_charge ch)\<lparr>payment_ID := currentID r + 1,
          payment_CreatedAt := now, payment_UpdatedAt := now\<rparr>))"
      using OpCreate Inr
      by (intro abs_status_eqI) (simp add: sys_exec_create_state inmem_Create_eq)
    ultimately show ?thesis
      by (simp only: lifecycle_step.create)
  qed
next
  case (OpFind now pid res)
  show ?thesis
  proof (cases "\<exists>p oc ch. inmem_m r pid = Some p \<and> payment_OmiseCharge p = Some oc \<and>
                         charge_Status oc = StatusPending \<and> res = Inr ch")
    case True
    then obtain p oc ch where p: "inmem_m r pid = Some p" and oc: "payment_OmiseCharge p = Some oc"
      and pend: "charge_Status oc = StatusPending" and res: "res = Inr ch" by blast
    from ok p have "charge_linked p" by (auto simp: step_ok_def dest: inmem_wfD)
    with p oc pend have "abs_status r pid = Some StatusPending"
      by (simp add: abs_status_def charge_linked_Some)
    with OpFind p oc pend res show ?thesis
      by (simp add: sys_exec_find_state lifecycle_step.settle)
  next
    case False
    with OpFind have "snd (sys_exec op r) = r"
      by (auto simp: sys_exec_find_state split: option.split sum.split)
    then show ?thesis by (simp add: lifecycle_step.stutter)
  qed
qed

lemma sys_run_keeps_terminal:
  assumes "created (ops @ later) < 2 ^ 64"
    and "inmem_m (sys_run NewPaymentRepository ops) k = Some p"
    and "payment_Status p \<noteq> StatusPending"
  shows "inmem_m (sys_run NewPaymentRepository (ops @ later)) k = Some p"
  using assms(1)
proof (induction later rule: rev_induct)
  case Nil
  from assms(2) show ?case by simp
next
  case (snoc op later)
  then have "created (ops @ later) < 2 ^ 64" by (simp add: created_append)
  then have IH: "inmem_m (sys_run NewPaymentRepository (ops @ later)) k = Some p" by (rule snoc.IH)
  from snoc.prems have "step_ok op (sys_run NewPaymentRepository (ops @ later))"
    by (intro sys_run_step_ok) simp
  from sys_exec_keeps_terminal [OF this IH assms(3)] show ?case
    by (simp add: sys_run_snoc [of _ "ops @ later", simplified])
qed

lemma lifecycle_step_terminal:
  "lifecycle_step a a' \<Longrightarrow> a k = Some s \<Longrightarrow> s \<noteq> StatusPending \<Longrightarrow> a' k = Some s"
  by (induction rule: lifecycle_step.induct) auto

section \<open>Theorems of the assembled system\<close>

text \<open>
  C8. In every run of the system from the empty store, every stored payment is stored
  under its own identifier and has a linked charge whose status is the payment's status;
  hence the nil dereferences of \<open>Find\<close> and \<open>UpdateStatus\<close> are never reached.
\<close>

theorem reachable_store_well_formed:
  "inmem_wf (sys_run NewPaymentRepository ops)"
  by (rule sys_run_wf [OF inmem_wf_empty])

text \<open>
  C9. Once a stored payment's status is not \<open>pending\<close>, the record never changes again,
  whatever operations follow and whatever the gateway answers, as long as fewer than
  \<open>2^64\<close> payments have been inserted (the counter has not wrapped, see C18).
\<close>

theorem terminal_status_final:
  assumes "created (ops @ later) < 2 ^ 64"
    and "inmem_m (sys_run NewPaymentRepository ops) k = Some p"
    and "payment_Status p \<noteq> StatusPending"
  shows "inmem_m (sys_run NewPaymentRepository (ops @ later)) k = Some p"
  using assms by (rule sys_run_keeps_terminal)

text \<open>
  C10. Every operation of the system refines the abstract lifecycle: seen through
  \<open>abs_status\<close>, it adds one payment under a fresh identifier, moves one pending payment
  to a new status, or changes nothing (before the counter wraps).
\<close>

theorem run_refines_lifecycle:
  assumes "created (ops @ [op]) < 2 ^ 64"
  shows "lifecycle_step (abs_status (sys_run NewPaymentRepository ops))
                        (abs_status (sys_run NewPaymentRepository (ops @ [op])))"
  using sys_exec_refines [OF sys_run_step_ok [OF assms]] by (simp add: sys_run_snoc)

text \<open>
  C11. Two \<open>Find\<close> calls in a row on a pending payment that the gateway now reports in a
  terminal status: the first returns the payment with that status; the second, at any
  time and with any gateway, returns the same result, leaves the store as it is and calls
  nothing but the store's \<open>Find\<close>.
\<close>

theorem Find_twice_idempotent:
  assumes wf: "inmem_wf r" and p: "inmem_m r pid = Some p"
    and pend: "payment_Status p = StatusPending" and fin: "charge_Status ch \<noteq> StatusPending"
    and first: "svc_Find (NewService (traced_client (gateway_answer (Inr ch)))
                   (traced_repository (inmem_repository now))) pid (r, []) = (res1, (r1, calls1))"
  shows "svc_Find (NewService (traced_client g) (traced_repository (inmem_repository now'))) pid (r1, []) =
           (res1, (r1, [CallFind pid])) \<and>
         (\<exists>q. res1 = Inr q \<and> payment_Status q = charge_Status ch)"
proof -
  from wf p have "charge_linked p" by (auto dest: inmem_wfD)
  then obtain oc where oc: "payment_OmiseCharge p = Some oc" "charge_Status oc = StatusPending"
    using pend by (auto elim: charge_linked_obtain)
  with first p fin show ?thesis by (auto simp: Find_def)
qed

section \<open>Witnesses\<close>

lemmas sys_eval = sys_exec.simps paymentSvc_def CreatePaymentRequest_def Find_def
  inmem_Find_def inmem_Create_eq payment_of_charge_def NewPaymentRepository_def test_defs

theorem terminal_status_final_witness:
  "inmem_m (sys_run NewPaymentRepository
      ([OpCreate 1 test_request (Inr (fixture_charge StatusSuccessful))] @
       [OpFind 2 1 (Inr (fixture_charge StatusFailed)), OpCreate 3 test_request (Inr (fixture_charge StatusPending))])) 1 =
   Some ((payment_of_charge (fixture_charge StatusSuccessful))\<lparr>payment_ID := 1, payment_CreatedAt := 1, payment_UpdatedAt := 1\<rparr>)"
  by (rule terminal_status_final) (simp_all add: sys_eval status_defs)

theorem run_refines_lifecycle_witness:
  "lifecycle_step (abs_status (sys_run NewPaymentRepository [OpCreate 1 test_request (Inr (fixture_charge StatusPending))]))
     (abs_status (sys_run NewPaymentRepository
        ([OpCreate 1 test_request (Inr (fixture_charge StatusPending))] @ [OpFind 2 1 (Inr (fixture_charge StatusSuccessful))])))"
  by (rule run_refines_lifecycle) simp

theorem Find_twice_idempotent_witness:
  "svc_Find (NewService (traced_client (gateway_answer (Inl errSomeError))) (traced_repository (inmem_repository 3))) 1
     (fst (snd (svc_Find (NewService (traced_client (gateway_answer (Inr (fixture_charge StatusSuccessful))))
        (traced_repository (inmem_repository 2))) 1 (demo_store, []))), []) =
   (fst (svc_Find (NewService (traced_client (gateway_answer (Inr (fixture_charge StatusSuccessful))))
        (traced_repository (inmem_repository 2))) 1 (demo_store, [])),
    (fst (snd (svc_Find (NewService (traced_client (gateway_answer (Inr (fixture_charge StatusSuccessful))))
        (traced_repository (inmem_repository 2))) 1 (demo_store, []))), [CallFind 1])) \<and>
   (\<exists>q. fst (svc_Find (NewService (traced_client (gateway_answer (Inr (fixture_charge StatusSuccessful))))
        (traced_repository (inmem_repository 2))) 1 (demo_store, [])) = Inr q \<and>
        payment_Status q = charge_Status (fixture_charge StatusSuccessful))"
proof -
  let ?svc = "NewService (traced_client (gateway_answer (Inr (fixture_charge StatusSuccessful))))
                (traced_repository (inmem_repository 2))"
  let ?X = "svc_Find ?svc 1 (demo_store, [])"
  let ?p = "(payment_of_charge (fixture_charge StatusPending))
              \<lparr>payment_ID := 1, payment_CreatedAt := 1, payment_UpdatedAt := 1\<rparr>"
  have wf: "inmem_wf demo_store"
    unfolding demo_store_def by (rule sys_run_wf [OF inmem_wf_empty])
  have p: "inmem_m demo_store 1 = Some ?p"
    by (simp add: demo_store_def sys_eval)
  have pend: "payment_Status ?p = StatusPending"
    by (simp add: payment_of_charge_def test_defs)
  have fin: "charge_Status (fixture_charge StatusSuccessful) \<noteq> StatusPending"
    by (simp add: test_defs)
  have first: "?X = (fst ?X, (fst (snd ?X), snd (snd ?X)))"
    by simp
  show ?thesis
    by (rule Find_twice_idempotent [of demo_store 1 ?p "fixture_charge StatusSuccessful" 2
          "fst ?X" "fst (snd ?X)" "snd (snd ?X)" "gateway_answer (Inl errSomeError)" 3, OF wf p pend fin first])
qed

end
