(* ===== verification/Omise_Client.thy ===== *)
theory Omise_Client
  imports Payment_Service
begin

text \<open>
  The gateway client of package \<open>client\<close> (\<open>src/client/omise.go\<close>): the \<open>Omise\<close>
  wrapper around an omise-go client, with \<open>Charge\<close> (create a source, then a charge on
  that source) and \<open>GetCharge\<close> (retrieve a charge). The omise-go library is not part of
  the repository: its \<open>Do\<close> calls are the three operations of the record
  \<open>omise_backend\<close>, and its \<open>Source\<close> and \<open>Charge\<close> objects are records holding the
  fields the wrapper reads. \<open>Charge.Source\<close> is a pointer in omise-go, so the source
  type of a charge is an option; the wrapper dereferences it without a check.
  \<open>NewOmise\<close> takes the library's constructor \<open>omise.NewClient\<close> as a parameter.
\<close>

section \<open>The omise-go objects and operations used\<close>

record omise_source =
  source_ID :: string
  source_Type :: string
  source_Amount :: int
  source_Currency :: string

record omise_api_charge =
  och_ID :: string
  och_Status :: string
  och_Amount :: int
  och_Currency :: string
  och_AuthorizeURI :: string
  och_Source :: "string option"
  och_ReturnURI :: string

record create_source_op =
  cs_Type :: string
  cs_Amount :: int
  cs_Currency :: string

record create_charge_op =
  cc_Source :: string
  cc_Amount :: int
  cc_Currency :: string
  cc_ReturnURI :: string

record 's omise_backend =
  do_create_source :: "create_source_op \<Rightarrow> 's \<Rightarrow> (error + omise_source) \<times> 's"
  do_create_charge :: "create_charge_op \<Rightarrow> 's \<Rightarrow> (error + omise_api_charge) \<times> 's"
  do_retrieve_charge :: "string \<Rightarrow> 's \<Rightarrow> (error + omise_api_charge) \<times> 's"

section \<open>The wrapper\<close>

record 's Omise =
  omise_client :: "'s omise_backend"

text \<open>
  The \<open>payment.OmiseCharge\<close> literal built from an omise-go charge (the same literal in
  \<open>Charge\<close> and \<open>GetCharge\<close>); \<open>charge.Source.Type\<close> panics on a nil source.
\<close>

definition to_OmiseCharge :: "omise_api_charge \<Rightarrow> error + omise_charge" where
  "to_OmiseCharge ch =
     (case och_Source ch of
        None \<Rightarrow> Inl NilDeref
      | Some st \<Rightarrow> Inr \<lparr>charge_ID = och_ID ch, charge_Status = och_Status ch,
          charge_Amount = och_Amount ch, charge_Currency = och_Currency ch,
          charge_AuthorizeURI = och_AuthorizeURI ch, charge_SourceType = st,
          charge_ReturnURI = och_ReturnURI ch\<rparr>)"

text \<open>
  \<open>Charge\<close>: the source is created from the request's type, amount and currency; the
  charge is created from the source's identifier, the amount and currency the source
  reports, and the request's return URI.
\<close>

definition Omise_Charge :: "'s Omise \<Rightarrow> request \<Rightarrow> 's \<Rightarrow> (error + omise_charge) \<times> 's" where
  "Omise_Charge c req st =
     (case do_create_source (omise_client c)
             \<lparr>cs_Type = req_SourceType req, cs_Amount = req_Amount req, cs_Currency = req_Currency req\<rparr> st of
        (Inl err, st1) \<Rightarrow> (Inl err, st1)
      | (Inr source, st1) \<Rightarrow>
          (case do_create_charge (omise_client c)
                  \<lparr>cc_Source = source_ID source, cc_Amount = source_Amount source,
                   cc_Currency = source_Currency source, cc_ReturnURI = req_ReturnURI req\<rparr> st1 of
             (Inl err, st2) \<Rightarrow> (Inl err, st2)
           | (Inr charge, st2) \<Rightarrow> (to_OmiseCharge charge, st2)))"

definition Omise_GetCharge :: "'s Omise \<Rightarrow> string \<Rightarrow> 's \<Rightarrow> (error + omise_charge) \<times> 's" where
  "Omise_GetCharge c cid st =
     (case do_retrieve_charge (omise_client c) cid st of
        (Inl err, st1) \<Rightarrow> (Inl err, st1)
      | (Inr charge, st1) \<Rightarrow> (to_OmiseCharge charge, st1))"

text \<open>The \<open>*Omise\<close> as a \<open>payment.Client\<close>, as \<open>main\<close> hands it to \<open>NewService\<close>.\<close>

definition omise_as_client :: "'s Omise \<Rightarrow> 's client" where
  "omise_as_client c = \<lparr>Charge = Omise_Charge c, GetCharge = Omise_GetCharge c\<rparr>"

text \<open>
  \<open>NewOmise\<close>: \<open>omise.NewClient\<close>, the library's constructor, checks the two keys and
  returns a client or an error; it is a parameter here. On an error \<open>log.Fatal\<close> ends
  the process with the error's message (\<open>Inl\<close>).
\<close>

definition NewOmise ::
  "(string \<Rightarrow> string \<Rightarrow> error + 's omise_backend) \<Rightarrow> string \<Rightarrow> string \<Rightarrow> string + 's Omise" where
  "NewOmise omise_NewClient publicKey secretKey =
     (case omise_NewClient publicKey secretKey of
        Inl err \<Rightarrow> Inl (error_msg err)
      | Inr client \<Rightarrow> Inr \<lparr>omise_client = client\<rparr>)"

section \<open>Recording the backend calls\<close>

datatype omise_call =
    CallCreateSource create_source_op
  | CallCreateCharge create_charge_op
  | CallRetrieveCharge string

definition logged_omise :: "omise_call \<Rightarrow> 'a \<times> 's \<Rightarrow> omise_call list \<Rightarrow> 'a \<times> ('s \<times> omise_call list)" where
  "logged_omise e r calls = (fst r, (snd r, calls @ [e]))"

definition traced_backend :: "'s omise_backend \<Rightarrow> ('s \<times> omise_call list) omise_backend" where
  "traced_backend b =
     \<lparr>do_create_source = (\<lambda>op (st, calls). logged_omise (CallCreateSource op) (do_create_source b op st) calls),
      do_create_charge = (\<lambda>op (st, calls). logged_omise (CallCreateCharge op) (do_create_charge b op st) calls),
      do_retrieve_charge = (\<lambda>cid (st, calls). logged_omise (CallRetrieveCharge cid) (do_retrieve_charge b cid st) calls)\<rparr>"

section \<open>A gateway fixture\<close>

text \<open>
  A stateless gateway for the witnesses: it creates source \<open>src_1\<close> with the requested
  data, a pending charge \<open>chrg_1\<close> on exactly the data it is asked for, and knows only
  that charge when asked to retrieve one; \<open>retrieve_status\<close> is the status it reports then.
\<close>

definition sandbox_backend :: "string \<Rightarrow> unit omise_backend" where
  "sandbox_backend retrieve_status =
     \<lparr>do_create_source = (\<lambda>op st. (Inr \<lparr>source_ID = ''src_1'', source_Type = cs_Type op,
          source_Amount = cs_Amount op, source_Currency = cs_Currency op\<rparr>, st)),
      do_create_charge = (\<lambda>op st. (Inr \<lparr>och_ID = ''chrg_1'', och_Status = ''pending'',
          och_Amount = cc_Amount op, och_Currency = cc_Currency op,
          och_AuthorizeURI = ''http://auth'', och_Source = Some ''internet_banking_scb'',
          och_ReturnURI = cc_ReturnURI op\<rparr>, st)),
      do_retrieve_charge = (\<lambda>cid st.
          (if cid = ''chrg_1''
           then Inr \<lparr>och_ID = ''chrg_1'', och_Status = retrieve_status, och_Amount = 2000,
                  och_Currency = ''THB'', och_AuthorizeURI = ''http://auth'',
                  och_Source = Some ''internet_banking_scb'', och_ReturnURI = ''http://return''\<rparr>
           else Inl (Err ''charge was not found''), st))\<rparr>"

text \<open>A gateway that never panics and whose charge objects always carry a source.\<close>

definition gateway_sound :: "'g omise_backend \<Rightarrow> bool" where
  "gateway_sound b \<longleftrightarrow>
     (\<forall>op g. fst (do_create_source b op g) \<noteq> Inl NilDeref) \<and>
     (\<forall>op g. fst (do_create_charge b op g) \<noteq> Inl NilDeref \<and>
        (\<forall>ch. fst (do_create_charge b op g) = Inr ch \<longrightarrow> och_Source ch \<noteq> None)) \<and>
     (\<forall>cid g. fst (do_retrieve_charge b cid g) \<noteq> Inl NilDeref \<and>
        (\<forall>ch. fst (do_retrieve_charge b cid g) = Inr ch \<longrightarrow> och_Source ch \<noteq> None))"

section \<open>Characteristic equations\<close>

lemma traced_backend_simps [simp]:
  "do_create_source (traced_backend b) op (st, calls) = logged_omise (CallCreateSource op) (do_create_source b op st) calls"
  "do_create_charge (traced_backend b) cop (st, calls) = logged_omise (CallCreateCharge cop) (do_create_charge b cop st) calls"
  "do_retrieve_charge (traced_backend b) cid (st, calls) = logged_omise (CallRetrieveCharge cid) (do_retrieve_charge b cid st) calls"
  by (simp_all add: traced_backend_def)

lemma logged_omise_pair [simp]: "logged_omise e (a, st) calls = (a, (st, calls @ [e]))"
  by (simp add: logged_omise_def)

lemma omise_as_client_simps [simp]:
  "Charge (omise_as_client c) = Omise_Charge c"
  "GetCharge (omise_as_client c) = Omise_GetCharge c"
  by (simp_all add: omise_as_client_def)

lemma to_OmiseCharge_Inr:
  "to_OmiseCharge ch = Inr oc \<longleftrightarrow>
     (\<exists>st. och_Source ch = Some st \<and> oc = \<lparr>charge_ID = och_ID ch, charge_Status = och_Status ch,
        charge_Amount = och_Amount ch, charge_Currency = och_Currency ch,
        charge_AuthorizeURI = och_AuthorizeURI ch, charge_SourceType = st,
        charge_ReturnURI = och_ReturnURI ch\<rparr>)"
  by (auto simp: to_OmiseCharge_def split: option.split)

section \<open>A sound gateway never makes the client panic\<close>

lemma Omise_Charge_no_panic:
  assumes "gateway_sound b"
  shows "fst (Omise_Charge \<lparr>omise_client = b\<rparr> req g) \<noteq> Inl NilDeref"
proof -
  let ?sop = "\<lparr>cs_Type = req_SourceType req, cs_Amount = req_Amount req, cs_Currency = req_Currency req\<rparr>"
  obtain r1 g1 where s: "do_create_source b ?sop g = (r1, g1)" by fastforce
  show ?thesis
  proof (cases r1)
    case Inl
    have "fst (do_create_source b ?sop g) \<noteq> Inl NilDeref" using assms unfolding gateway_sound_def by blast
    then have "r1 \<noteq> Inl NilDeref" using s by simp
    with s Inl show ?thesis by (auto simp: Omise_Charge_def)
  next
    case (Inr src)
    let ?cop = "\<lparr>cc_Source = source_ID src, cc_Amount = source_Amount src,
        cc_Currency = source_Currency src, cc_ReturnURI = req_ReturnURI req\<rparr>"
    obtain r2 g2 where c: "do_create_charge b ?cop g1 = (r2, g2)" by fastforce
    have "fst (do_create_charge b ?cop g1) \<noteq> Inl NilDeref \<and>
        (\<forall>ch. fst (do_create_charge b ?cop g1) = Inr ch \<longrightarrow> och_Source ch \<noteq> None)"
      using assms unfolding gateway_sound_def by blast
    then have r2: "r2 \<noteq> Inl NilDeref" "\<forall>ch. r2 = Inr ch \<longrightarrow> och_Source ch \<noteq> None"
      using c by simp_all
    show ?thesis
    proof (cases r2)
      case (Inr ch)
      then obtain t where "och_Source ch = Some t" using r2 by blast
      with s c \<open>r1 = Inr src\<close> Inr show ?thesis by (simp add: Omise_Charge_def to_OmiseCharge_def)
    qed (use s c \<open>r1 = Inr src\<close> r2 in \<open>simp add: Omise_Charge_def\<close>)
  qed
qed

lemma Omise_GetCharge_no_panic:
  assumes "gateway_sound b"
  shows "fst (Omise_GetCharge \<lparr>omise_client = b\<rparr> cid g) \<noteq> Inl NilDeref"
proof -
  obtain r1 g1 where c: "do_retrieve_charge b cid g = (r1, g1)" by fastforce
  have "fst (do_retrieve_charge b cid g) \<noteq> Inl NilDeref \<and>
      (\<forall>ch. fst (do_retrieve_charge b cid g) = Inr ch \<longrightarrow> och_Source ch \<noteq> None)"
    using assms unfolding gateway_sound_def by blast
  then have r1: "r1 \<noteq> Inl NilDeref" "\<forall>ch. r1 = Inr ch \<longrightarrow> och_Source ch \<noteq> None"
    using c by simp_all
  show ?thesis
  proof (cases r1)
    case (Inr ch)
    then obtain t where "och_Source ch = Some t" using r1 by blast
    with c Inr show ?thesis by (simp add: Omise_GetCharge_def to_OmiseCharge_def)
  qed (use c r1 in \<open>simp add: Omise_GetCharge_def\<close>)
qed


section \<open>Theorems of the gateway client\<close>

text \<open>
  C19. \<open>Charge\<close> creates the charge on the source it has just created: any
  \<open>CreateCharge\<close> call it makes names that source's identifier and carries the amount and
  currency the source reports (not the request's) and the request's return URI, and it
  comes after exactly one \<open>CreateSource\<close> call made with the request's data.
\<close>

theorem Omise_Charge_charges_created_source:
  assumes "Charge (omise_as_client \<lparr>omise_client = traced_backend b\<rparr>) req (st, []) = (res, (st', calls))"
    and "CallCreateCharge cop \<in> set calls"
  shows "\<exists>src st1. do_create_source b \<lparr>cs_Type = req_SourceType req, cs_Amount = req_Amount req,
             cs_Currency = req_Currency req\<rparr> st = (Inr src, st1) \<and>
           calls = [CallCreateSource \<lparr>cs_Type = req_SourceType req, cs_Amount = req_Amount req,
                      cs_Currency = req_Currency req\<rparr>, CallCreateCharge cop] \<and>
           cop = \<lparr>cc_Source = source_ID src, cc_Amount = source_Amount src,
                  cc_Currency = source_Currency src, cc_ReturnURI = req_ReturnURI req\<rparr>"
proof -
  let ?sop = "\<lparr>cs_Type = req_SourceType req, cs_Amount = req_Amount req, cs_Currency = req_Currency req\<rparr>"
  obtain r1 st1 where s: "do_create_source b ?sop st = (r1, st1)" by fastforce
  show ?thesis
  proof (cases r1)
    case Inl
    with s assms show ?thesis by (auto simp: Omise_Charge_def)
  next
    case (Inr src)
    obtain r2 st2 where "do_create_charge b \<lparr>cc_Source = source_ID src, cc_Amount = source_Amount src,
        cc_Currency = source_Currency src, cc_ReturnURI = req_ReturnURI req\<rparr> st1 = (r2, st2)"
      by fastforce
    with s Inr assms show ?thesis by (cases r2) (auto simp: Omise_Charge_def)
  qed
qed

text \<open>
  C20. When the gateway refuses to create the source, \<open>Charge\<close> returns that error after
  the one \<open>CreateSource\<close> call: no charge is created.
\<close>

theorem Omise_Charge_source_error:
  assumes "do_create_source b \<lparr>cs_Type = req_SourceType req, cs_Amount = req_Amount req,
             cs_Currency = req_Currency req\<rparr> st = (Inl e, st1)"
  shows "Charge (omise_as_client \<lparr>omise_client = traced_backend b\<rparr>) req (st, calls) =
           (Inl e, (st1, calls @ [CallCreateSource \<lparr>cs_Type = req_SourceType req,
              cs_Amount = req_Amount req, cs_Currency = req_Currency req\<rparr>]))"
  using assms by (simp add: Omise_Charge_def)

text \<open>
  C21. Every charge the client hands to the service, from \<open>Charge\<close> or \<open>GetCharge\<close>, is
  a field-by-field copy of a charge object the gateway returned in that call, whose
  source is present; \<open>GetCharge\<close> asks the gateway once, for the identifier it was given.
\<close>

theorem Omise_client_returns_gateway_charge:
  assumes "GetCharge (omise_as_client \<lparr>omise_client = traced_backend b\<rparr>) cid (st, []) = (Inr oc, (st', calls))"
  shows "calls = [CallRetrieveCharge cid] \<and>
         (\<exists>ch t. do_retrieve_charge b cid st = (Inr ch, st') \<and> och_Source ch = Some t \<and>
            oc = \<lparr>charge_ID = och_ID ch, charge_Status = och_Status ch, charge_Amount = och_Amount ch,
                  charge_Currency = och_Currency ch, charge_AuthorizeURI = och_AuthorizeURI ch,
                  charge_SourceType = t, charge_ReturnURI = och_ReturnURI ch\<rparr>)"
proof -
  obtain r st1 where "do_retrieve_charge b cid st = (r, st1)" by fastforce
  with assms show ?thesis by (cases r) (auto simp: Omise_GetCharge_def to_OmiseCharge_Inr)
qed

text \<open>
  C22. A charge object without a source makes the client panic: \<open>charge.Source.Type\<close>
  dereferences the nil pointer, in \<open>GetCharge\<close> as in \<open>Charge\<close>.
\<close>

theorem Omise_GetCharge_nil_source_panics:
  assumes "do_retrieve_charge (omise_client c) cid st = (Inr ch, st1)" and "och_Source ch = None"
  shows "GetCharge (omise_as_client c) cid st = (Inl NilDeref, st1)"
  using assms by (simp add: Omise_GetCharge_def to_OmiseCharge_def)

section \<open>Witnesses\<close>

theorem Omise_Charge_charges_created_source_witness:
  "\<exists>src st1. do_create_source (sandbox_backend ''pending'') \<lparr>cs_Type = ''internet_banking_scb'',
       cs_Amount = 2000, cs_Currency = ''THB''\<rparr> () = (Inr src, st1) \<and>
     [CallCreateSource \<lparr>cs_Type = ''internet_banking_scb'', cs_Amount = 2000, cs_Currency = ''THB''\<rparr>,
      CallCreateCharge \<lparr>cc_Source = ''src_1'', cc_Amount = 2000, cc_Currency = ''THB'', cc_ReturnURI = ''http://return''\<rparr>] =
     [CallCreateSource \<lparr>cs_Type = ''internet_banking_scb'', cs_Amount = 2000, cs_Currency = ''THB''\<rparr>,
      CallCreateCharge \<lparr>cc_Source = ''src_1'', cc_Amount = 2000, cc_Currency = ''THB'', cc_ReturnURI = ''http://return''\<rparr>] \<and>
     \<lparr>cc_Source = ''src_1'', cc_Amount = 2000, cc_Currency = ''THB'', cc_ReturnURI = ''http://return''\<rparr> =
       \<lparr>cc_Source = source_ID src, cc_Amount = source_Amount src, cc_Currency = source_Currency src,
        cc_ReturnURI = ''http://return''\<rparr>"
proof -
  let ?req = "\<lparr>req_Amount = 2000, req_Currency = ''THB'', req_ReturnURI = ''http://return'',
               req_SourceType = ''internet_banking_scb''\<rparr>"
  let ?cop = "\<lparr>cc_Source = ''src_1'', cc_Amount = 2000, cc_Currency = ''THB'', cc_ReturnURI = ''http://return''\<rparr>"
  let ?X = "Charge (omise_as_client \<lparr>omise_client = traced_backend (sandbox_backend ''pending'')\<rparr>) ?req ((), [])"
  have run: "?X = (fst ?X, (fst (snd ?X), snd (snd ?X)))" by (simp only: prod.collapse)
  have calls: "snd (snd ?X) = [CallCreateSource \<lparr>cs_Type = ''internet_banking_scb'', cs_Amount = 2000,
                 cs_Currency = ''THB''\<rparr>, CallCreateCharge ?cop]"
    by (simp add: Omise_Charge_def sandbox_backend_def)
  then have "CallCreateCharge ?cop \<in> set (snd (snd ?X))" by simp
  from Omise_Charge_charges_created_source [OF run this] calls show ?thesis by simp
qed

theorem Omise_Charge_source_error_witness:
  "Charge (omise_as_client \<lparr>omise_client = traced_backend
       ((sandbox_backend ''pending'')\<lparr>do_create_source := (\<lambda>_ st. (Inl (Err ''invalid source type''), st))\<rparr>)\<rparr>)
     \<lparr>req_Amount = 2000, req_Currency = ''THB'', req_ReturnURI = ''http://return'', req_SourceType = ''bogus''\<rparr>
     ((), []) =
   (Inl (Err ''invalid source type''),
    ((), [CallCreateSource \<lparr>cs_Type = ''bogus'', cs_Amount = 2000, cs_Currency = ''THB''\<rparr>]))"
  using Omise_Charge_source_error [of "(sandbox_backend ''pending'')\<lparr>do_create_source :=
      (\<lambda>_ st. (Inl (Err ''invalid source type''), st))\<rparr>"
    "\<lparr>req_Amount = 2000, req_Currency = ''THB'', req_ReturnURI = ''http://return'', req_SourceType = ''bogus''\<rparr>"
    "()" "Err ''invalid source type''" "()" "[]"] by simp

theorem Omise_client_returns_gateway_charge_witness:
  "[CallRetrieveCharge ''chrg_1''] = [CallRetrieveCharge ''chrg_1''] \<and>
   (\<exists>ch t. do_retrieve_charge (sandbox_backend ''successful'') ''chrg_1'' () = (Inr ch, ()) \<and>
      och_Source ch = Some t \<and>
      \<lparr>charge_ID = ''chrg_1'', charge_Status = ''successful'', charge_Amount = 2000, charge_Currency = ''THB'',
       charge_AuthorizeURI = ''http://auth'', charge_SourceType = ''internet_banking_scb'',
       charge_ReturnURI = ''http://return''\<rparr> =
      \<lparr>charge_ID = och_ID ch, charge_Status = och_Status ch, charge_Amount = och_Amount ch,
       charge_Currency = och_Currency ch, charge_AuthorizeURI = och_AuthorizeURI ch,
       charge_SourceType = t, charge_ReturnURI = och_ReturnURI ch\<rparr>)"
  by (rule Omise_client_returns_gateway_charge)
    (simp add: Omise_GetCharge_def to_OmiseCharge_def sandbox_backend_def)

theorem Omise_GetCharge_nil_source_panics_witness:
  "GetCharge (omise_as_client \<lparr>omise_client = ((sandbox_backend ''pending'')\<lparr>do_retrieve_charge :=
       (\<lambda>cid st. (Inr \<lparr>och_ID = cid, och_Status = ''successful'', och_Amount = 100, och_Currency = ''THB'',
          och_AuthorizeURI = ''http://auth'', och_Source = None, och_ReturnURI = ''http://return''\<rparr>, st))\<rparr>)\<rparr>)
     ''chrg_2'' () = (Inl NilDeref, ())"
  by (rule Omise_GetCharge_nil_source_panics) (simp, simp)

end
