(* ===== verification/Http_Handler.thy ===== *)
theory Http_Handler
  imports Payment_Service
begin

text \<open>
  The HTTP adapter of package \<open>handler\<close> (\<open>src/handler/handler.go\<close>): the \<open>Payment\<close>
  handler over a \<open>payment.Service\<close>, its two handlers \<open>createPaymentRequest\<close> and
  \<open>getPayment\<close>, \<open>respondJSON\<close> and \<open>respondError\<close>, and the routes \<open>Append\<close> and
  \<open>main\<close> register. The library calls the handlers make are modelled from their Go
  documentation, at the level the handlers observe them: \<open>json.Decoder.Decode\<close> into
  the request struct (a JSON value, or \<open>None\<close> for a body that is not JSON),
  \<open>strings.ToUpper\<close> on ASCII text, \<open>strconv.Atoi\<close> on a 64-bit target, and the
  gorilla/mux route match on clean paths. A response is its status code, its
  \<open>Content-Type\<close> and the value that is encoded as its body. A handler that panics
  returns \<open>Inl NilDeref\<close>: \<open>net/http\<close> then aborts the connection without a response.
\<close>

section \<open>JSON request bodies and their decoding\<close>

datatype json = JNull | JBool bool | JNum int | JStr string | JArr "json list"
  | JObj "(string \<times> json) list"

record createPaymentRequestRequest =
  cprq_Amount :: int
  cprq_Currency :: string
  cprq_ReturnURI :: string
  cprq_SourceType :: string

definition zero_createPaymentRequestRequest :: createPaymentRequestRequest where
  "zero_createPaymentRequestRequest =
     \<lparr>cprq_Amount = 0, cprq_Currency = [], cprq_ReturnURI = [], cprq_SourceType = []\<rparr>"

definition ascii_lower :: "char \<Rightarrow> char" where
  "ascii_lower c = (if (65::nat) \<le> of_char c \<and> of_char c \<le> (90::nat) then char_of (of_char c + (32::nat)) else c)"

definition ascii_upper :: "char \<Rightarrow> char" where
  "ascii_upper c = (if (97::nat) \<le> of_char c \<and> of_char c \<le> (122::nat) then char_of (of_char c - (32::nat)) else c)"

text \<open>
  \<open>Decode\<close> stores each member of the object in the field whose tag matches its key,
  exactly or up to case, in the order of the members (a later member overwrites an
  earlier one); it ignores members with other keys and JSON \<open>null\<close> values, and fails
  on a value of the wrong JSON type or a number outside \<open>int64\<close>.
\<close>

fun set_request_field :: "createPaymentRequestRequest \<Rightarrow> string \<times> json \<Rightarrow> createPaymentRequestRequest option" where
  "set_request_field r (k, v) =
     (if v = JNull then Some r
      else if map ascii_lower k = ''amount'' then
        (case v of JNum n \<Rightarrow> if - (2 ^ 63) \<le> n \<and> n < 2 ^ 63 then Some (r\<lparr>cprq_Amount := n\<rparr>) else None
         | _ \<Rightarrow> None)
      else if map ascii_lower k = ''currency'' then
        (case v of JStr s \<Rightarrow> Some (r\<lparr>cprq_Currency := s\<rparr>) | _ \<Rightarrow> None)
      else if map ascii_lower k = ''return_uri'' then
        (case v of JStr s \<Rightarrow> Some (r\<lparr>cprq_ReturnURI := s\<rparr>) | _ \<Rightarrow> None)
      else if map ascii_lower k = ''source_type'' then
        (case v of JStr s \<Rightarrow> Some (r\<lparr>cprq_SourceType := s\<rparr>) | _ \<Rightarrow> None)
      else Some r)"

fun decode_members :: "createPaymentRequestRequest \<Rightarrow> (string \<times> json) list \<Rightarrow> createPaymentRequestRequest option" where
  "decode_members r [] = Some r"
| "decode_members r (kv # kvs) =
     (case set_request_field r kv of None \<Rightarrow> None | Some r' \<Rightarrow> decode_members r' kvs)"

definition json_Decode :: "json option \<Rightarrow> createPaymentRequestRequest option" where
  "json_Decode body =
     (case body of
        None \<Rightarrow> None
      | Some JNull \<Rightarrow> Some zero_createPaymentRequestRequest
      | Some (JObj kvs) \<Rightarrow> decode_members zero_createPaymentRequestRequest kvs
      | Some _ \<Rightarrow> None)"

definition strings_ToUpper :: "string \<Rightarrow> string" where
  "strings_ToUpper s = map ascii_upper s"

section \<open>\<open>strconv.Atoi\<close>\<close>

definition is_digit :: "char \<Rightarrow> bool" where
  "is_digit c = ((48::nat) \<le> of_char c \<and> of_char c \<le> (57::nat))"

definition digit_val :: "char \<Rightarrow> int" where
  "digit_val c = int (of_char c) - 48"

definition decimal_val :: "string \<Rightarrow> int" where
  "decimal_val ds = foldl (\<lambda>n c. 10 * n + digit_val c) 0 ds"

text \<open>
  An optional sign, then one or more decimal digits; the value must fit the 64-bit
  \<open>int\<close>, else \<open>ErrRange\<close>. Every error is \<open>None\<close>: the handler ignores its text.
\<close>

definition strconv_Atoi :: "string \<Rightarrow> goint option" where
  "strconv_Atoi s =
     (let (neg, ds) = (case s of
                         [] \<Rightarrow> (False, [])
                       | c # r \<Rightarrow> if c = CHR ''-'' then (True, r)
                                  else if c = CHR ''+'' then (False, r) else (False, s))
      in if ds = [] \<or> \<not> list_all is_digit ds then None
         else let v = (if neg then - decimal_val ds else decimal_val ds)
              in if - (2 ^ 63) \<le> v \<and> v < 2 ^ 63 then Some (word_of_int v) else None)"




section \<open>Responses\<close>

definition StatusOK :: nat where "StatusOK = 200"
definition StatusBadRequest :: nat where "StatusBadRequest = 400"
definition StatusNotFound :: nat where "StatusNotFound = 404"
definition StatusMethodNotAllowed :: nat where "StatusMethodNotAllowed = 405"
definition StatusInternalServerError :: nat where "StatusInternalServerError = 500"

record createPaymentRequestResponse =
  cprs_ID :: goint
  cprs_AuthorizedURI :: string

record getPaymentResponse =
  gp_ID :: goint
  gp_Status :: status
  gp_Amount :: int
  gp_Currency :: string
  gp_SourceType :: string
  gp_CreatedAt :: time
  gp_UpdatedAt :: time

datatype response_body =
    BodyCreated createPaymentRequestResponse
  | BodyPayment getPaymentResponse
  | BodyMessage string
  | BodyText string
  | BodyEmpty

record http_response =
  resp_Code :: nat
  resp_ContentType :: string
  resp_Body :: response_body

definition respondJSON :: "response_body \<Rightarrow> nat \<Rightarrow> http_response" where
  "respondJSON v code = \<lparr>resp_Code = code, resp_ContentType = ''application/json'', resp_Body = v\<rparr>"

definition respondError :: "string \<Rightarrow> nat \<Rightarrow> http_response" where
  "respondError err code = respondJSON (BodyMessage err) code"

section \<open>The handler\<close>

record 's Payment_handler =
  handler_service :: "'s Service"

definition NewPayment :: "'s Service \<Rightarrow> 's Payment_handler" where
  "NewPayment svc = \<lparr>handler_service = svc\<rparr>"

text \<open>The \<open>payment.Request\<close> the handler builds from the decoded body.\<close>

definition payment_request_of :: "createPaymentRequestRequest \<Rightarrow> request" where
  "payment_request_of req =
     \<lparr>req_Amount = cprq_Amount req, req_Currency = strings_ToUpper (cprq_Currency req),
      req_ReturnURI = cprq_ReturnURI req, req_SourceType = cprq_SourceType req\<rparr>"

text \<open>
  \<open>createPaymentRequest\<close>: a body that does not decode is answered 400; otherwise the
  service is called once with the decoded fields, the currency upper-cased, and its
  error is answered 500 with the error's text. A panic of the service, and the
  dereference of \<open>payment.OmiseCharge\<close>, are panics of the handler.
\<close>

definition createPaymentRequest :: "'s Payment_handler \<Rightarrow> json option \<Rightarrow> 's \<Rightarrow> (error + http_response) \<times> 's" where
  "createPaymentRequest h body st =
     (case json_Decode body of
        None \<Rightarrow> (Inr (respondError ''invalid request body'' StatusBadRequest), st)
      | Some req \<Rightarrow>
          (case svc_CreatePaymentRequest (handler_service h) (payment_request_of req) st of
             (Inl NilDeref, st') \<Rightarrow> (Inl NilDeref, st')
           | (Inl err, st') \<Rightarrow> (Inr (respondError (error_msg err) StatusInternalServerError), st')
           | (Inr p, st') \<Rightarrow>
               (case payment_OmiseCharge p of
                  None \<Rightarrow> (Inl NilDeref, st')
                | Some oc \<Rightarrow> (Inr (respondJSON (BodyCreated \<lparr>cprs_ID = payment_ID p,
                                 cprs_AuthorizedURI = charge_AuthorizeURI oc\<rparr>) StatusOK), st'))))"

text \<open>
  \<open>getPayment\<close>: an identifier that \<open>Atoi\<close> rejects is answered 400; otherwise the
  service's \<open>Find\<close> is called once; \<open>ErrPaymentNotFound\<close> is answered 400, any other
  error 500, and a payment 200 with its fields and its charge's source type.
\<close>

definition getPayment :: "'s Payment_handler \<Rightarrow> string \<Rightarrow> 's \<Rightarrow> (error + http_response) \<times> 's" where
  "getPayment h idStr st =
     (case strconv_Atoi idStr of
        None \<Rightarrow> (Inr (respondError ''payment id must be a number'' StatusBadRequest), st)
      | Some pid \<Rightarrow>
          (case svc_Find (handler_service h) pid st of
             (Inl NilDeref, st') \<Rightarrow> (Inl NilDeref, st')
           | (Inl err, st') \<Rightarrow>
               (Inr (respondError (error_msg err)
                       (if err = ErrPaymentNotFound then StatusBadRequest else StatusInternalServerError)), st')
           | (Inr p, st') \<Rightarrow>
               (case payment_OmiseCharge p of
                  None \<Rightarrow> (Inl NilDeref, st')
                | Some oc \<Rightarrow> (Inr (respondJSON (BodyPayment
                                 \<lparr>gp_ID = payment_ID p, gp_Status = payment_Status p,
                                  gp_Amount = payment_Amount p, gp_Currency = payment_Currency p,
                                  gp_SourceType = charge_SourceType oc, gp_CreatedAt = payment_CreatedAt p,
                                  gp_UpdatedAt = payment_UpdatedAt p\<rparr>) StatusOK), st'))))"

section \<open>Routes\<close>

datatype http_method = MethodGet | MethodPost | MethodOther string

record http_request =
  rq_Method :: http_method
  rq_Path :: string
  rq_Body :: "json option"

text \<open>
  The router of \<open>main\<close>: \<open>/\<close> answers the service's name to any method; under the
  prefix \<open>/payments\<close>, \<open>Append\<close> routes \<open>POST /payments\<close> to \<open>createPaymentRequest\<close>
  and \<open>GET /payments/{id}\<close>, \<open>{id}\<close> a non-empty segment without \<open>/\<close>, to
  \<open>getPayment\<close>. gorilla/mux answers 405 with no body when a path matches with another
  method and \<open>http.NotFound\<close>'s 404 when none matches.
\<close>

definition route_id :: "string \<Rightarrow> string option" where
  "route_id path =
     (if take 10 path = ''/payments/'' \<and> drop 10 path \<noteq> [] \<and> CHR ''/'' \<notin> set (drop 10 path)
      then Some (drop 10 path) else None)"

definition not_found_response :: http_response where
  "not_found_response = \<lparr>resp_Code = StatusNotFound, resp_ContentType = ''text/plain; charset=utf-8'',
                         resp_Body = BodyText ''404 page not found''\<rparr>"

definition method_not_allowed_response :: http_response where
  "method_not_allowed_response = \<lparr>resp_Code = StatusMethodNotAllowed, resp_ContentType = [],
                                  resp_Body = BodyEmpty\<rparr>"

definition serve :: "'s Payment_handler \<Rightarrow> http_request \<Rightarrow> 's \<Rightarrow> (error + http_response) \<times> 's" where
  "serve h rq st =
     (if rq_Path rq = ''/'' then
        (Inr \<lparr>resp_Code = StatusOK, resp_ContentType = ''text/plain; charset=utf-8'',
              resp_Body = BodyText ''Payment Service''\<rparr>, st)
      else if rq_Path rq = ''/payments'' then
        (if rq_Method rq = MethodPost then createPaymentRequest h (rq_Body rq) st
         else (Inr method_not_allowed_response, st))
      else (case route_id (rq_Path rq) of
              Some idStr \<Rightarrow> if rq_Method rq = MethodGet then getPayment h idStr st
                            else (Inr method_not_allowed_response, st)
            | None \<Rightarrow> (Inr not_found_response, st)))"

section \<open>Recording the service calls\<close>

datatype svc_call = CallCreatePaymentRequest request | CallServiceFind goint

definition traced_service :: "'s Service \<Rightarrow> ('s \<times> svc_call list) Service" where
  "traced_service svc =
     \<lparr>svc_CreatePaymentRequest = (\<lambda>req (st, calls).
         (fst (svc_CreatePaymentRequest svc req st), (snd (svc_CreatePaymentRequest svc req st),
          calls @ [CallCreatePaymentRequest req]))),
      svc_Find = (\<lambda>pid (st, calls).
         (fst (svc_Find svc pid st), (snd (svc_Find svc pid st), calls @ [CallServiceFind pid])))\<rparr>"

text \<open>
  What the handlers need of the service to answer without panicking: no panic, and a
  payment returned with its charge.
\<close>

definition service_result_ok :: "error + payment \<Rightarrow> bool" where
  "service_result_ok res = (case res of Inl e \<Rightarrow> e \<noteq> NilDeref | Inr p \<Rightarrow> payment_OmiseCharge p \<noteq> None)"

section \<open>Characteristic equations\<close>


lemma traced_service_simps [simp]:
  "svc_CreatePaymentRequest (traced_service svc) req (st, calls) =
     (fst (svc_CreatePaymentRequest svc req st), (snd (svc_CreatePaymentRequest svc req st),
      calls @ [CallCreatePaymentRequest req]))"
  "svc_Find (traced_service svc) pid (st, calls) =
     (fst (svc_Find svc pid st), (snd (svc_Find svc pid st), calls @ [CallServiceFind pid]))"
  by (simp_all add: traced_service_def)

lemma NewPayment_service [simp]: "handler_service (NewPayment svc) = svc"
  by (simp add: NewPayment_def)

lemmas response_defs = respondError_def respondJSON_def StatusOK_def StatusBadRequest_def
  StatusInternalServerError_def StatusNotFound_def StatusMethodNotAllowed_def
  not_found_response_def method_not_allowed_response_def

section \<open>Decimal text\<close>







lemma createPaymentRequest_calls:
  "snd (snd (createPaymentRequest (NewPayment (traced_service svc)) body (st, calls))) =
     calls @ (case json_Decode body of None \<Rightarrow> [] | Some r \<Rightarrow> [CallCreatePaymentRequest (payment_request_of r)])"
proof (cases "json_Decode body")
  case (Some req)
  then show ?thesis
    by (cases "fst (svc_CreatePaymentRequest svc (payment_request_of req) st)")
      (auto simp: createPaymentRequest_def split: error.splits option.splits)
qed (simp add: createPaymentRequest_def)

lemma getPayment_calls:
  "snd (snd (getPayment (NewPayment (traced_service svc)) idStr (st, calls))) =
     calls @ (case strconv_Atoi idStr of None \<Rightarrow> [] | Some pid \<Rightarrow> [CallServiceFind pid])"
proof (cases "strconv_Atoi idStr")
  case (Some pid)
  then show ?thesis
    by (cases "fst (svc_Find svc pid st)") (auto simp: getPayment_def split: error.splits option.splits)
qed (simp add: getPayment_def)

lemma route_id_payments: "route_id ''/payments'' = None"
  by (simp add: route_id_def)


section \<open>The handlers' effects and panics\<close>

lemma service_result_okE:
  assumes "service_result_ok res"
  obtains e where "res = Inl e" "e \<noteq> NilDeref" | p oc where "res = Inr p" "payment_OmiseCharge p = Some oc"
  using assms by (cases res) (auto simp: service_result_ok_def)

lemma createPaymentRequest_no_panic:
  assumes "service_result_ok (fst (svc_CreatePaymentRequest (handler_service h) (payment_request_of r) st))"
    and "json_Decode body = Some r"
  shows "fst (createPaymentRequest h body st) \<noteq> Inl NilDeref"
proof -
  obtain res st' where c: "svc_CreatePaymentRequest (handler_service h) (payment_request_of r) st = (res, st')"
    by fastforce
  from assms(1) c have "service_result_ok res" by simp
  then show ?thesis
  proof (cases rule: service_result_okE)
    case (1 e)
    with c assms(2) show ?thesis by (cases e) (simp_all add: createPaymentRequest_def)
  next
    case (2 p oc)
    with c assms(2) show ?thesis by (simp add: createPaymentRequest_def)
  qed
qed

lemma getPayment_no_panic:
  assumes "service_result_ok (fst (svc_Find (handler_service h) pid st))" and "strconv_Atoi idStr = Some pid"
  shows "fst (getPayment h idStr st) \<noteq> Inl NilDeref"
proof -
  obtain res st' where c: "svc_Find (handler_service h) pid st = (res, st')" by fastforce
  from assms(1) c have "service_result_ok res" by simp
  then show ?thesis
  proof (cases rule: service_result_okE)
    case (1 e)
    with c assms(2) show ?thesis by (cases e) (simp_all add: getPayment_def)
  next
    case (2 p oc)
    with c assms(2) show ?thesis by (simp add: getPayment_def)
  qed
qed

lemma serve_no_panic:
  assumes "\<forall>req. service_result_ok (fst (svc_CreatePaymentRequest (handler_service h) req st))"
    and "\<forall>pid. service_result_ok (fst (svc_Find (handler_service h) pid st))"
  shows "fst (serve h rq st) \<noteq> Inl NilDeref"
proof -
  have cr: "fst (createPaymentRequest h body st) \<noteq> Inl NilDeref" for body
  proof (cases "json_Decode body")
    case (Some r)
    show ?thesis by (rule createPaymentRequest_no_panic [OF spec [OF assms(1)] Some])
  qed (simp add: createPaymentRequest_def)
  have gp: "fst (getPayment h idStr st) \<noteq> Inl NilDeref" for idStr
  proof (cases "strconv_Atoi idStr")
    case (Some pid)
    show ?thesis by (rule getPayment_no_panic [OF spec [OF assms(2)] Some])
  qed (simp add: getPayment_def)
  show ?thesis
    by (cases "route_id (rq_Path rq)") (simp_all add: serve_def cr gp)
qed

lemma createPaymentRequest_state:
  "snd (createPaymentRequest h body st) =
     (case json_Decode body of None \<Rightarrow> st
      | Some r \<Rightarrow> snd (svc_CreatePaymentRequest (handler_service h) (payment_request_of r) st))"
proof (cases "json_Decode body")
  case (Some r)
  obtain res st' where c: "svc_CreatePaymentRequest (handler_service h) (payment_request_of r) st = (res, st')"
    by fastforce
  with Some show ?thesis
    by (cases res) (simp_all add: createPaymentRequest_def split: error.split option.split)
qed (simp add: createPaymentRequest_def)

lemma getPayment_state:
  "snd (getPayment h idStr st) =
     (case strconv_Atoi idStr of None \<Rightarrow> st | Some pid \<Rightarrow> snd (svc_Find (handler_service h) pid st))"
proof (cases "strconv_Atoi idStr")
  case (Some pid)
  obtain res st' where c: "svc_Find (handler_service h) pid st = (res, st')" by fastforce
  with Some show ?thesis
    by (cases res) (simp_all add: getPayment_def split: error.split option.split)
qed (simp add: getPayment_def)

lemma serve_state:
  "snd (serve h rq st) =
     (if rq_Path rq = ''/payments'' \<and> rq_Method rq = MethodPost then
        (case json_Decode (rq_Body rq) of None \<Rightarrow> st
         | Some r \<Rightarrow> snd (svc_CreatePaymentRequest (handler_service h) (payment_request_of r) st))
      else if rq_Path rq \<noteq> ''/'' \<and> rq_Method rq = MethodGet then
        (case Option.bind (route_id (rq_Path rq)) strconv_Atoi of None \<Rightarrow> st
         | Some pid \<Rightarrow> snd (svc_Find (handler_service h) pid st))
      else st)"
proof (cases "rq_Path rq = ''/''")
  case True
  then show ?thesis by (simp add: serve_def)
next
  case root: False
  show ?thesis
  proof (cases "rq_Path rq = ''/payments''")
    case True
    with root show ?thesis
      by (simp add: serve_def createPaymentRequest_state route_id_payments)
  next
    case False
    with root show ?thesis
      by (cases "route_id (rq_Path rq)") (simp_all add: serve_def getPayment_state)
  qed
qed

section \<open>Theorems of the HTTP adapter\<close>

text \<open>
  C23. \<open>getPayment\<close> answers 200, 400 or 500 when it does not panic: 400 exactly when
  the path's identifier is not a 64-bit decimal number or the service reports
  \<open>ErrPaymentNotFound\<close> for it, 200 exactly when the service returns a payment.
\<close>

theorem getPayment_status_codes:
  assumes "getPayment h idStr st = (Inr resp, st')"
  shows "resp_Code resp \<in> {200, 400, 500} \<and>
         (resp_Code resp = 400 \<longleftrightarrow> strconv_Atoi idStr = None \<or>
            (\<exists>pid. strconv_Atoi idStr = Some pid \<and> fst (svc_Find (handler_service h) pid st) = Inl ErrPaymentNotFound)) \<and>
         (resp_Code resp = 200 \<longleftrightarrow>
            (\<exists>pid p. strconv_Atoi idStr = Some pid \<and> fst (svc_Find (handler_service h) pid st) = Inr p))"
proof (cases "strconv_Atoi idStr")
  case None
  with assms show ?thesis by (auto simp: getPayment_def response_defs)
next
  case (Some pid)
  obtain r s1 where f: "svc_Find (handler_service h) pid st = (r, s1)" by fastforce
  show ?thesis
  proof (cases r)
    case (Inl e)
    with Some f assms show ?thesis by (cases e) (auto simp: getPayment_def response_defs)
  next
    case (Inr p)
    with Some f assms show ?thesis
      by (cases "payment_OmiseCharge p") (auto simp: getPayment_def response_defs)
  qed
qed

text \<open>
  C24. \<open>createPaymentRequest\<close> answers 200, 400 or 500 when it does not panic: 400
  exactly when the body does not decode, and 200 exactly when the service created a
  payment from the decoded request, the body then carrying that payment's identifier
  and its charge's authorize URI.
\<close>

theorem createPaymentRequest_status_codes:
  assumes "createPaymentRequest h body st = (Inr resp, st')"
  shows "resp_Code resp \<in> {200, 400, 500} \<and>
         (resp_Code resp = 400 \<longleftrightarrow> json_Decode body = None) \<and>
         (resp_Code resp = 200 \<longleftrightarrow>
            (\<exists>req p oc. json_Decode body = Some req \<and>
               svc_CreatePaymentRequest (handler_service h) (payment_request_of req) st = (Inr p, st') \<and>
               payment_OmiseCharge p = Some oc \<and>
               resp_Body resp = BodyCreated \<lparr>cprs_ID = payment_ID p, cprs_AuthorizedURI = charge_AuthorizeURI oc\<rparr>))"
proof (cases "json_Decode body")
  case None
  with assms show ?thesis by (auto simp: createPaymentRequest_def response_defs)
next
  case (Some req)
  obtain r s1 where c: "svc_CreatePaymentRequest (handler_service h) (payment_request_of req) st = (r, s1)"
    by fastforce
  show ?thesis
  proof (cases r)
    case (Inl e)
    with Some c assms show ?thesis by (cases e) (auto simp: createPaymentRequest_def response_defs)
  next
    case (Inr p)
    with Some c assms show ?thesis
      by (cases "payment_OmiseCharge p") (auto simp: createPaymentRequest_def response_defs)
  qed
qed

text \<open>
  C25. The service calls a request causes through the router: \<open>POST /payments\<close> with a
  body that decodes makes one \<open>CreatePaymentRequest\<close> call, with the decoded amount,
  return URI and source type unchecked and the currency upper-cased; \<open>GET /payments/{id}\<close>
  with a numeric identifier makes one \<open>Find\<close> call for it; every other request makes none.
\<close>

theorem serve_service_calls:
  "snd (snd (serve (NewPayment (traced_service svc)) rq (st, []))) =
     (if rq_Path rq = ''/payments'' \<and> rq_Method rq = MethodPost then
        (case json_Decode (rq_Body rq) of None \<Rightarrow> [] | Some r \<Rightarrow> [CallCreatePaymentRequest (payment_request_of r)])
      else if rq_Path rq \<noteq> ''/'' \<and> rq_Method rq = MethodGet then
        (case Option.bind (route_id (rq_Path rq)) strconv_Atoi of None \<Rightarrow> [] | Some pid \<Rightarrow> [CallServiceFind pid])
      else [])"
proof (cases "rq_Path rq = ''/''")
  case True
  then show ?thesis by (simp add: serve_def)
next
  case root: False
  show ?thesis
  proof (cases "rq_Path rq = ''/payments''")
    case True
    with root show ?thesis
      by (simp add: serve_def createPaymentRequest_calls route_id_payments)
  next
    case False
    with root show ?thesis
      by (cases "route_id (rq_Path rq)") (simp_all add: serve_def getPayment_calls)
  qed
qed




end
