(* ===== verification/Payment_Main.thy ===== *)
theory Payment_Main
  imports Payment_System Omise_Client Http_Handler
begin

text \<open>
  The program as \<open>main\<close> (\<open>src/main.go\<close>) assembles it: its configuration from the
  environment (\<open>getEnv\<close>, \<open>mustGetEnv\<close>) and its start up to \<open>ListenAndServe\<close>
  (\<open>main_start\<close>), the Omise client and the in-memory store under
  one service, and the handler in front of it. The state of the whole program is the
  pair of the gateway's state and the store; the client works on the first component
  and the store on the second. Requests are served one after the other, each with its
  own clock reading. The theory proves that this program refines the system of
  \<open>Payment_System\<close>, whose gateway answers are free, so that its results carry over,
  and that, with a gateway whose charges always carry a source, no request makes the
  server panic.
\<close>

section \<open>Configuration\<close>

definition defaultPort :: string where "defaultPort = ''8080''"

definition getEnv :: "(string \<rightharpoonup> string) \<Rightarrow> string \<Rightarrow> string \<Rightarrow> string" where
  "getEnv env key fallback = (case env key of None \<Rightarrow> fallback | Some val \<Rightarrow> val)"

text \<open>\<open>mustGetEnv\<close>: a missing variable is \<open>log.Fatal\<close>, which ends the process (\<open>Inl\<close> its message).\<close>

definition mustGetEnv :: "(string \<rightharpoonup> string) \<Rightarrow> string \<Rightarrow> string + string" where
  "mustGetEnv env key = (case env key of None \<Rightarrow> Inl (key @ '' is not defined'') | Some val \<Rightarrow> Inr val)"

record main_config =
  cfg_omisePublicKey :: string
  cfg_omiseSecretKey :: string
  cfg_port :: string

text \<open>The first three statements of \<open>main\<close>, in their order.\<close>

definition main_config_of :: "(string \<rightharpoonup> string) \<Rightarrow> string + main_config" where
  "main_config_of env =
     (case mustGetEnv env ''OMISE_PUBLIC_KEY'' of
        Inl msg \<Rightarrow> Inl msg
      | Inr pk \<Rightarrow>
          (case mustGetEnv env ''OMISE_SECRET_KEY'' of
             Inl msg \<Rightarrow> Inl msg
           | Inr sk \<Rightarrow> Inr \<lparr>cfg_omisePublicKey = pk, cfg_omiseSecretKey = sk,
                             cfg_port = getEnv env ''PORT'' defaultPort\<rparr>))"

text \<open>
  The start of \<open>main\<close> up to \<open>ListenAndServe\<close>: the configuration, then the Omise
  client; the server then listens on the address \<open>":" + port\<close> with that client.
  Either step can end the process through \<open>log.Fatal\<close> (\<open>Inl\<close> its message).
\<close>

definition main_start ::
  "(string \<Rightarrow> string \<Rightarrow> error + 'g omise_backend) \<Rightarrow> (string \<rightharpoonup> string) \<Rightarrow> string + (string \<times> 'g Omise)" where
  "main_start omise_NewClient env =
     (case main_config_of env of
        Inl msg \<Rightarrow> Inl msg
      | Inr cfg \<Rightarrow>
          (case NewOmise omise_NewClient (cfg_omisePublicKey cfg) (cfg_omiseSecretKey cfg) of
             Inl msg \<Rightarrow> Inl msg
           | Inr client \<Rightarrow> Inr ('':'' @ cfg_port cfg, client)))"

section \<open>The assembled program\<close>

definition on_gateway :: "('g \<Rightarrow> 'a \<times> 'g) \<Rightarrow> 'g \<times> 'r \<Rightarrow> 'a \<times> ('g \<times> 'r)" where
  "on_gateway f st = (fst (f (fst st)), (snd (f (fst st)), snd st))"

definition on_store :: "('r \<Rightarrow> 'a \<times> 'r) \<Rightarrow> 'g \<times> 'r \<Rightarrow> 'a \<times> ('g \<times> 'r)" where
  "on_store f st = (fst (f (snd st)), (fst st, snd (f (snd st))))"

definition lift_client :: "'g client \<Rightarrow> ('g \<times> 'r) client" where
  "lift_client c = \<lparr>Charge = (\<lambda>req. on_gateway (Charge c req)),
                    GetCharge = (\<lambda>cid. on_gateway (GetCharge c cid))\<rparr>"

definition lift_repository :: "'r repository \<Rightarrow> ('g \<times> 'r) repository" where
  "lift_repository rp = \<lparr>repo_Create = (\<lambda>p. on_store (repo_Create rp p)),
                         repo_Find = (\<lambda>pid. on_store (repo_Find rp pid)),
                         repo_UpdateStatus = (\<lambda>pid s. on_store (repo_UpdateStatus rp pid s))\<rparr>"

text \<open>
  \<open>client.NewOmise\<close>, \<open>inmem.NewPaymentRepository\<close>, \<open>payment.NewService\<close> and
  \<open>handler.NewPayment\<close> of \<open>main\<close>, for a request served at clock reading \<open>now\<close>.
\<close>

definition main_service :: "'g omise_backend \<Rightarrow> time \<Rightarrow> ('g \<times> inmem_repo) Service" where
  "main_service b now =
     NewService (lift_client (omise_as_client \<lparr>omise_client = b\<rparr>)) (lift_repository (inmem_repository now))"

definition main_handler :: "'g omise_backend \<Rightarrow> time \<Rightarrow> ('g \<times> inmem_repo) Payment_handler" where
  "main_handler b now = NewPayment (main_service b now)"

fun serve_all :: "'g omise_backend \<Rightarrow> (time \<times> http_request) list \<Rightarrow> 'g \<times> inmem_repo \<Rightarrow>
                  (error + http_response) list \<times> ('g \<times> inmem_repo)" where
  "serve_all b [] st = ([], st)"
| "serve_all b ((now, rq) # rqs) st =
     (let (out, st1) = serve (main_handler b now) rq st;
          (outs, st2) = serve_all b rqs st1
      in (out # outs, st2))"

section \<open>The gateway's answer in the system model\<close>

text \<open>
  The answer the client gives to the gateway call \<open>Find\<close> makes for \<open>pid\<close> on store
  \<open>r\<close>, if it makes one (any value otherwise: it is not used).
\<close>

definition find_answer :: "'g client \<Rightarrow> goint \<Rightarrow> inmem_repo \<Rightarrow> 'g \<Rightarrow> (error + omise_charge) \<times> 'g" where
  "find_answer c pid r g =
     (case inmem_m r pid of
        Some p \<Rightarrow> (case payment_OmiseCharge p of
                     Some oc \<Rightarrow> if charge_Status oc = StatusPending then GetCharge c (charge_ID oc) g
                               else (Inl (Err []), g)
                   | None \<Rightarrow> (Inl (Err []), g))
      | None \<Rightarrow> (Inl (Err []), g))"


text \<open>
  The operations of the system model a request amounts to: one creation or one lookup
  when it reaches the service, none otherwise; the gateway's answer is the client's.
\<close>

definition request_ops :: "'g omise_backend \<Rightarrow> time \<Rightarrow> http_request \<Rightarrow> 'g \<times> inmem_repo \<Rightarrow> sys_op list" where
  "request_ops b now rq st =
     (if rq_Path rq = ''/payments'' \<and> rq_Method rq = MethodPost then
        (case json_Decode (rq_Body rq) of
           None \<Rightarrow> []
         | Some q \<Rightarrow> [OpCreate now (payment_request_of q)
                       (fst (Omise_Charge \<lparr>omise_client = b\<rparr> (payment_request_of q) (fst st)))])
      else if rq_Path rq \<noteq> ''/'' \<and> rq_Method rq = MethodGet then
        (case Option.bind (route_id (rq_Path rq)) strconv_Atoi of
           None \<Rightarrow> []
         | Some pid \<Rightarrow> [OpFind now pid (fst (find_answer (omise_as_client \<lparr>omise_client = b\<rparr>) pid (snd st) (fst st)))])
      else [])"

fun sys_trace :: "'g omise_backend \<Rightarrow> (time \<times> http_request) list \<Rightarrow> 'g \<times> inmem_repo \<Rightarrow> sys_op list" where
  "sys_trace b [] st = []"
| "sys_trace b ((now, rq) # rqs) st =
     request_ops b now rq st @ sys_trace b rqs (snd (serve (main_handler b now) rq st))"

section \<open>Characteristic equations\<close>

lemma lift_client_simps [simp]:
  "Charge (lift_client c) req (g, r) = (fst (Charge c req g), (snd (Charge c req g), r))"
  "GetCharge (lift_client c) cid (g, r) = (fst (GetCharge c cid g), (snd (GetCharge c cid g), r))"
  by (simp_all add: lift_client_def on_gateway_def)

lemma lift_repository_simps [simp]:
  "repo_Create (lift_repository rp) p (g, r) = (fst (repo_Create rp p r), (g, snd (repo_Create rp p r)))"
  "repo_Find (lift_repository rp) pid (g, r) = (fst (repo_Find rp pid r), (g, snd (repo_Find rp pid r)))"
  "repo_UpdateStatus (lift_repository rp) pid s (g, r) =
     (fst (repo_UpdateStatus rp pid s r), (g, snd (repo_UpdateStatus rp pid s r)))"
  by (simp_all add: lift_repository_def on_store_def)

lemma sys_exec_create_ok:
  assumes "res \<noteq> Inl NilDeref"
  shows "service_result_ok (fst (sys_exec (OpCreate now req res) r))"
  using assms
  by (cases res) (simp_all add: sys_exec.simps paymentSvc_def CreatePaymentRequest_def inmem_Create_eq
      service_result_ok_def payment_of_charge_def)

lemma sys_exec_find_ok:
  assumes wf: "inmem_wf r" and res: "res \<noteq> Inl NilDeref"
  shows "service_result_ok (fst (sys_exec (OpFind now pid res) r))"
proof (cases "inmem_m r pid")
  case None
  then show ?thesis by (simp add: sys_exec.simps paymentSvc_def Find_def service_result_ok_def)
next
  case (Some p)
  with wf obtain oc where oc: "payment_OmiseCharge p = Some oc"
    by (auto dest: inmem_wfD elim: charge_linked_obtain)
  show ?thesis
  proof (cases "charge_Status oc = StatusPending")
    case False
    with Some oc show ?thesis by (simp add: sys_exec.simps paymentSvc_def Find_def service_result_ok_def)
  next
    case True
    with Some oc res show ?thesis
      by (cases res) (simp_all add: sys_exec.simps paymentSvc_def Find_def service_result_ok_def)
  qed
qed

lemma main_service_create:
  "svc_CreatePaymentRequest (main_service b now) req (g, r) =
     (fst (sys_exec (OpCreate now req (fst (Omise_Charge \<lparr>omise_client = b\<rparr> req g))) r),
      (snd (Omise_Charge \<lparr>omise_client = b\<rparr> req g),
       snd (sys_exec (OpCreate now req (fst (Omise_Charge \<lparr>omise_client = b\<rparr> req g))) r)))"
proof -
  obtain res g' where c: "Omise_Charge \<lparr>omise_client = b\<rparr> req g = (res, g')" by fastforce
  show ?thesis
    by (cases res) (simp_all add: c main_service_def CreatePaymentRequest_def sys_exec.simps
        paymentSvc_def inmem_Create_eq)
qed

lemma main_service_find:
  "svc_Find (main_service b now) pid (g, r) =
     (fst (sys_exec (OpFind now pid (fst (find_answer (omise_as_client \<lparr>omise_client = b\<rparr>) pid r g))) r),
      (snd (find_answer (omise_as_client \<lparr>omise_client = b\<rparr>) pid r g),
       snd (sys_exec (OpFind now pid (fst (find_answer (omise_as_client \<lparr>omise_client = b\<rparr>) pid r g))) r)))"
proof (cases "inmem_m r pid")
  case None
  then show ?thesis by (simp add: main_service_def Find_def sys_exec.simps paymentSvc_def find_answer_def)
next
  case (Some p)
  show ?thesis
  proof (cases "payment_OmiseCharge p")
    case None
    with Some show ?thesis by (simp add: main_service_def Find_def sys_exec.simps paymentSvc_def find_answer_def)
  next
    case (Some oc)
    obtain res g' where gc: "Omise_GetCharge \<lparr>omise_client = b\<rparr> (charge_ID oc) g = (res, g')" by fastforce
    from \<open>inmem_m r pid = Some p\<close> Some gc show ?thesis
      by (cases res) (simp_all add: main_service_def Find_def sys_exec.simps paymentSvc_def find_answer_def
          split: prod.splits option.splits)
  qed
qed

lemma find_answer_no_panic:
  assumes "gateway_sound b"
  shows "fst (find_answer (omise_as_client \<lparr>omise_client = b\<rparr>) pid r g) \<noteq> Inl NilDeref"
  using Omise_GetCharge_no_panic [OF assms]
  by (simp add: find_answer_def split: option.split)

lemma main_service_ok:
  assumes "gateway_sound b" and "inmem_wf r"
  shows "service_result_ok (fst (svc_CreatePaymentRequest (main_service b now) req (g, r)))"
    and "service_result_ok (fst (svc_Find (main_service b now) pid (g, r)))"
  using assms
  by (simp_all add: main_service_create main_service_find sys_exec_create_ok sys_exec_find_ok
      Omise_Charge_no_panic find_answer_no_panic)

lemma main_service_wf:
  assumes "inmem_wf r"
  shows "inmem_wf (snd (snd (svc_CreatePaymentRequest (main_service b now) req (g, r))))"
    and "inmem_wf (snd (snd (svc_Find (main_service b now) pid (g, r))))"
  using assms by (simp_all add: main_service_create main_service_find sys_exec_wf)

lemma sys_run_append: "sys_run r (xs @ ys) = sys_run (sys_run r xs) ys"
  by (induction xs arbitrary: r) simp_all

lemma serve_store:
  "snd (snd (serve (main_handler b now) rq (g, r))) = sys_run r (request_ops b now rq (g, r))"
  by (simp add: serve_state request_ops_def main_handler_def main_service_create main_service_find
      split: option.split)

lemma serve_all_store:
  "snd (snd (serve_all b rqs st)) = sys_run (snd st) (sys_trace b rqs st)"
proof (induction rqs arbitrary: st)
  case (Cons x rqs)
  obtain now rq where x: "x = (now, rq)" by fastforce
  obtain g r where st: "st = (g, r)" by fastforce
  obtain out st1 where s1: "serve (main_handler b now) rq st = (out, st1)"
    by (cases "serve (main_handler b now) rq st") simp
  have "snd st1 = sys_run r (request_ops b now rq (g, r))"
    using serve_store [of b now rq g r] s1 st by simp
  with Cons.IH [of st1] x st s1 show ?case
    by (simp add: Let_def split_def sys_run_append)
qed simp

lemma sys_trace_append:
  "sys_trace b (rqs @ later) st = sys_trace b rqs st @ sys_trace b later (snd (serve_all b rqs st))"
proof (induction rqs arbitrary: st)
  case (Cons x rqs)
  obtain now rq where x: "x = (now, rq)" by fastforce
  with Cons.IH show ?case by (simp add: Let_def split_def)
qed simp

lemma created_single: "created [op] \<le> Suc 0"
proof (cases op)
  case (OpCreate now req res)
  then show ?thesis by (cases res) simp_all
qed simp

lemma created_request_ops: "created (request_ops b now rq st) \<le> 1"
  by (simp add: request_ops_def created_single split: option.split)

lemma created_sys_trace: "created (sys_trace b rqs st) \<le> length rqs"
proof (induction rqs arbitrary: st)
  case (Cons x rqs)
  obtain now rq where x: "x = (now, rq)" by fastforce
  have "created (sys_trace b rqs (snd (serve (main_handler b now) rq st))) \<le> length rqs"
    by (rule Cons.IH)
  with x created_request_ops [of b now rq st] show ?case by (simp add: created_append)
qed simp

lemma serve_wf:
  assumes "inmem_wf (snd st)"
  shows "inmem_wf (snd (snd (serve (main_handler b now) rq st)))"
proof -
  obtain g r where "st = (g, r)" by fastforce
  with assms show ?thesis by (simp add: serve_store sys_run_wf)
qed

lemma request_ops_length: "length (request_ops b now rq st) \<le> Suc 0"
  by (simp add: request_ops_def split: option.split)

lemma request_ops_cases:
  obtains "request_ops b now rq st = []" | op where "request_ops b now rq st = [op]"
  using request_ops_length [of b now rq st] by (cases "request_ops b now rq st") auto

text \<open>
  \<open>main\<close> reaches \<open>ListenAndServe\<close> exactly when both keys are set and omise-go accepts
  them; it then listens on \<open>PORT\<close>, \<open>8080\<close> by default, with the client built from the
  keys. Otherwise it stops on the first failing step, in \<open>main\<close>'s order.
\<close>

lemma main_start_serves:
  "main_start nc env = Inr (addr, c) \<longleftrightarrow>
     (\<exists>pk sk b. env ''OMISE_PUBLIC_KEY'' = Some pk \<and> env ''OMISE_SECRET_KEY'' = Some sk \<and>
        nc pk sk = Inr b \<and> c = \<lparr>omise_client = b\<rparr> \<and> addr = '':'' @ getEnv env ''PORT'' defaultPort)"
  by (auto simp: main_start_def main_config_of_def mustGetEnv_def NewOmise_def
      split: option.splits sum.splits)

lemma main_start_fatal:
  "main_start nc env = Inl msg \<longleftrightarrow>
     (env ''OMISE_PUBLIC_KEY'' = None \<and> msg = ''OMISE_PUBLIC_KEY is not defined'') \<or>
     (env ''OMISE_PUBLIC_KEY'' \<noteq> None \<and> env ''OMISE_SECRET_KEY'' = None \<and>
        msg = ''OMISE_SECRET_KEY is not defined'') \<or>
     (\<exists>pk sk e. env ''OMISE_PUBLIC_KEY'' = Some pk \<and> env ''OMISE_SECRET_KEY'' = Some sk \<and>
        nc pk sk = Inl e \<and> msg = error_msg e)"
  by (auto simp: main_start_def main_config_of_def mustGetEnv_def NewOmise_def
      split: option.splits sum.splits)

section \<open>Theorems of the assembled program\<close>

text \<open>
  C28. Over HTTP, on the program \<open>main\<close> builds with any gateway: once a stored payment's
  status is not \<open>pending\<close>, the record never changes again, whatever requests follow,
  for runs of fewer than \<open>2^64\<close> requests from the empty store.
\<close>

theorem http_terminal_status_final:
  assumes "length (rqs @ later) < 2 ^ 64"
    and "inmem_m (snd (snd (serve_all b rqs (g, NewPaymentRepository)))) k = Some p"
    and "payment_Status p \<noteq> StatusPending"
  shows "inmem_m (snd (snd (serve_all b (rqs @ later) (g, NewPaymentRepository)))) k = Some p"
proof -
  let ?ops = "sys_trace b rqs (g, NewPaymentRepository)"
  let ?later = "sys_trace b later (snd (serve_all b rqs (g, NewPaymentRepository)))"
  have "created (?ops @ ?later) < 2 ^ 64"
    using created_sys_trace [of b "rqs @ later" "(g, NewPaymentRepository)"] assms(1)
    by (simp add: sys_trace_append)
  from sys_run_keeps_terminal [OF this _ assms(3)] assms(2) show ?thesis
    by (simp add: serve_all_store sys_trace_append)
qed

text \<open>
  C29. Over HTTP, every request served by the program refines the abstract lifecycle:
  seen through \<open>abs_status\<close>, it adds one payment under a fresh identifier, moves one
  pending payment to a new status, or changes nothing (runs of fewer than \<open>2^64\<close>
  requests from the empty store).
\<close>

theorem http_request_refines_lifecycle:
  assumes "length (rqs @ [(now, rq)]) < 2 ^ 64"
  shows "lifecycle_step (abs_status (snd (snd (serve_all b rqs (g, NewPaymentRepository)))))
           (abs_status (snd (snd (serve_all b (rqs @ [(now, rq)]) (g, NewPaymentRepository)))))"
proof -
  let ?st = "snd (serve_all b rqs (g, NewPaymentRepository))"
  let ?ops = "sys_trace b rqs (g, NewPaymentRepository)"
  have run: "snd (snd (serve_all b (rqs @ [(now, rq)]) (g, NewPaymentRepository))) =
             sys_run NewPaymentRepository (?ops @ request_ops b now rq ?st)"
    by (simp add: serve_all_store sys_trace_append)
  have pre: "snd (snd (serve_all b rqs (g, NewPaymentRepository))) = sys_run NewPaymentRepository ?ops"
    by (simp add: serve_all_store)
  show ?thesis
  proof (cases rule: request_ops_cases [of b now rq ?st])
    case 1
    then show ?thesis by (simp add: run pre lifecycle_step.stutter)
  next
    case (2 op)
    have "created (?ops @ [op]) < 2 ^ 64"
      using created_sys_trace [of b "rqs @ [(now, rq)]" "(g, NewPaymentRepository)"] assms 2
      by (simp add: sys_trace_append)
    from sys_exec_refines [OF sys_run_step_ok [OF this]] 2 show ?thesis
      by (simp add: run pre sys_run_snoc)
  qed
qed

text \<open>
  C30. With a gateway that never panics and whose charges always carry a source, the
  program answers every request of every run from a well-formed store without
  panicking, and the store stays well formed: the nil dereferences of the client, the
  orchestrator, the store and the handlers are all unreachable.
\<close>

theorem main_never_panics:
  assumes "gateway_sound b" and "inmem_wf (snd st)"
  shows "Inl NilDeref \<notin> set (fst (serve_all b rqs st)) \<and> inmem_wf (snd (snd (serve_all b rqs st)))"
  using assms(2)
proof (induction rqs arbitrary: st)
  case Nil
  then show ?case by simp
next
  case (Cons x rqs)
  obtain now rq where x: "x = (now, rq)" by fastforce
  obtain g r where st: "st = (g, r)" by fastforce
  have "inmem_wf r" using Cons.prems st by simp
  then have c: "\<forall>req. service_result_ok (fst (svc_CreatePaymentRequest (main_service b now) req (g, r)))"
    using main_service_ok(1) [OF assms(1)] by blast
  from \<open>inmem_wf r\<close> have f: "\<forall>pid. service_result_ok (fst (svc_Find (main_service b now) pid (g, r)))"
    using main_service_ok(2) [OF assms(1)] by blast
  have ok: "fst (serve (main_handler b now) rq st) \<noteq> Inl NilDeref"
    unfolding st main_handler_def by (rule serve_no_panic) (simp_all add: c f)
  have wf: "inmem_wf (snd (snd (serve (main_handler b now) rq st)))"
    by (rule serve_wf [OF Cons.prems])
  obtain out st1 where s1: "serve (main_handler b now) rq st = (out, st1)"
    by (cases "serve (main_handler b now) rq st") simp
  obtain outs st2 where s2: "serve_all b rqs st1 = (outs, st2)"
    by (cases "serve_all b rqs st1") simp
  show ?case
    using Cons.IH [OF wf] ok x s1 s2 by simp
qed


end
