(* ===== verification/Http_Handler_Test.thy ===== *)
theory Http_Handler_Test
  imports Http_Handler
begin

text \<open>
  The tables of \<open>src/handler/handler_test.go\<close> over the double \<open>mockService\<close> of
  \<open>handler_mock_test.go\<close>, each Go test case as a lemma about the router's answer, and
  the witnesses of the handler's theorems. A request body is the JSON value the test's
  text parses to; the text \<open>x\<close> is not JSON.
\<close>

section \<open>The double and the fixtures\<close>

text \<open>\<open>mockService\<close>: both functions return fixed values and keep no state.\<close>

definition mockService ::
  "(error + payment) \<Rightarrow> (error + payment) \<Rightarrow> unit Service" where
  "mockService createRet findRet =
     \<lparr>svc_CreatePaymentRequest = (\<lambda>_ st. (createRet, st)), svc_Find = (\<lambda>_ st. (findRet, st))\<rparr>"

definition handler_now :: time where "handler_now = 1"

definition test_charge :: "status \<Rightarrow> int \<Rightarrow> omise_charge" where
  "test_charge s amt = \<lparr>charge_ID = ''charge-1'', charge_Status = s, charge_Amount = amt,
     charge_Currency = ''THB'', charge_AuthorizeURI = ''http://authuri.com'',
     charge_SourceType = ''internet_banking_scb'', charge_ReturnURI = ''http://returnuri.com''\<rparr>"

definition test_payment :: "status \<Rightarrow> int \<Rightarrow> payment" where
  "test_payment s amt = \<lparr>payment_ID = 1, payment_Status = s, payment_Amount = amt,
     payment_Currency = ''THB'', payment_OmiseCharge = Some (test_charge s amt),
     payment_CreatedAt = handler_now, payment_UpdatedAt = handler_now\<rparr>"

text \<open>The body of the tests' POST requests, with its key \<open>payment_type\<close>.\<close>

definition test_body :: "json option" where
  "test_body = Some (JObj [(''amount'', JNum 2000), (''currency'', JStr ''THB''),
     (''return_uri'', JStr ''http://localhost:8080''), (''payment_type'', JStr ''internet_banking_scb'')])"

definition post_payments :: "json option \<Rightarrow> http_request" where
  "post_payments body = \<lparr>rq_Method = MethodPost, rq_Path = ''/payments'', rq_Body = body\<rparr>"

definition get_payment :: "string \<Rightarrow> http_request" where
  "get_payment idStr = \<lparr>rq_Method = MethodGet, rq_Path = ''/payments/'' @ idStr, rq_Body = None\<rparr>"

definition some_error :: error where "some_error = Err ''some error''"

lemmas handler_test_defs = mockService_def test_payment_def test_charge_def test_body_def
  post_payments_def get_payment_def some_error_def handler_now_def

lemmas handler_eval = serve_def createPaymentRequest_def getPayment_def route_id_def
  json_Decode_def zero_createPaymentRequestRequest_def ascii_lower_def payment_request_of_def
  strings_ToUpper_def ascii_upper_def strconv_Atoi_def is_digit_def decimal_val_def digit_val_def

section \<open>\<open>TestPayment_createPaymentRequest\<close>\<close>

lemma createPaymentRequest_test_success:
  "serve (NewPayment (mockService (Inr (test_payment StatusPending 2000)) (Inl some_error)))
     (post_payments test_body) () =
   (Inr (respondJSON (BodyCreated \<lparr>cprs_ID = 1, cprs_AuthorizedURI = ''http://authuri.com''\<rparr>) StatusOK), ())"
  by (simp add: handler_eval handler_test_defs)

lemma createPaymentRequest_test_invalid_body:
  "serve (NewPayment (mockService (Inl some_error) (Inl some_error))) (post_payments None) () =
   (Inr (respondError ''invalid request body'' StatusBadRequest), ())"
  by (simp add: handler_eval handler_test_defs)

lemma createPaymentRequest_test_error:
  "serve (NewPayment (mockService (Inl some_error) (Inl some_error))) (post_payments test_body) () =
   (Inr (respondError ''some error'' StatusInternalServerError), ())"
  by (simp add: handler_eval handler_test_defs)

section \<open>\<open>TestPayment_getPayment\<close>\<close>

lemma getPayment_test_success:
  "serve (NewPayment (mockService (Inl some_error) (Inr (test_payment StatusSuccessful 20000))))
     (get_payment ''1'') () =
   (Inr (respondJSON (BodyPayment \<lparr>gp_ID = 1, gp_Status = StatusSuccessful, gp_Amount = 20000,
      gp_Currency = ''THB'', gp_SourceType = ''internet_banking_scb'', gp_CreatedAt = handler_now,
      gp_UpdatedAt = handler_now\<rparr>) StatusOK), ())"
  by (simp add: handler_eval handler_test_defs)

lemma getPayment_test_invalid_id:
  "serve (NewPayment (mockService (Inl some_error) (Inl ErrPaymentNotFound))) (get_payment ''x'') () =
   (Inr (respondError ''payment id must be a number'' StatusBadRequest), ())"
  by (simp add: handler_eval handler_test_defs)

lemma getPayment_test_not_found:
  "serve (NewPayment (mockService (Inl some_error) (Inl ErrPaymentNotFound))) (get_payment ''1'') () =
   (Inr (respondError ''payment not found'' StatusBadRequest), ())"
  by (simp add: handler_eval handler_test_defs)

lemma getPayment_test_error:
  "serve (NewPayment (mockService (Inl some_error) (Inl some_error))) (get_payment ''1'') () =
   (Inr (respondError ''some error'' StatusInternalServerError), ())"
  by (simp add: handler_eval handler_test_defs)

section \<open>What the tests' body decodes to\<close>

text \<open>
  The tests' body names the source type \<open>payment_type\<close>, which \<open>Decode\<close> ignores: the
  service receives an empty source type, and the handler forwards it, as it forwards a
  negative amount, without a check.
\<close>

lemma test_body_forwards_empty_source_type:
  "snd (snd (serve (NewPayment (traced_service (mockService (Inl some_error) (Inl some_error))))
      (post_payments test_body) ((), []))) =
   [CallCreatePaymentRequest \<lparr>req_Amount = 2000, req_Currency = ''THB'',
      req_ReturnURI = ''http://localhost:8080'', req_SourceType = []\<rparr>]"
  by (simp add: serve_service_calls handler_eval handler_test_defs)

lemma negative_amount_forwarded:
  "snd (snd (serve (NewPayment (traced_service (mockService (Inl some_error) (Inl some_error))))
      (post_payments (Some (JObj [(''amount'', JNum (-5)), (''currency'', JStr ''thb'')]))) ((), []))) =
   [CallCreatePaymentRequest \<lparr>req_Amount = -5, req_Currency = ''THB'', req_ReturnURI = [], req_SourceType = []\<rparr>]"
  by (simp add: serve_service_calls handler_eval handler_test_defs char_of_def bit_simps)

section \<open>Witnesses\<close>

theorem getPayment_status_codes_witness:
  "getPayment (NewPayment (mockService (Inl some_error) (Inl ErrPaymentNotFound))) ''1'' () =
     (Inr (respondError ''payment not found'' StatusBadRequest), ()) \<and>
   resp_Code (respondError ''payment not found'' StatusBadRequest) \<in> {200, 400, 500} \<and>
   (resp_Code (respondError ''payment not found'' StatusBadRequest) = 400 \<longleftrightarrow>
      strconv_Atoi ''1'' = None \<or>
      (\<exists>pid. strconv_Atoi ''1'' = Some pid \<and>
         fst (svc_Find (handler_service (NewPayment (mockService (Inl some_error) (Inl ErrPaymentNotFound)))) pid ()) =
           Inl ErrPaymentNotFound))"
proof -
  have run: "getPayment (NewPayment (mockService (Inl some_error) (Inl ErrPaymentNotFound))) ''1'' () =
     (Inr (respondError ''payment not found'' StatusBadRequest), ())"
    by (simp add: handler_eval handler_test_defs)
  from getPayment_status_codes [OF run] run show ?thesis by blast
qed

theorem createPaymentRequest_status_codes_witness:
  "createPaymentRequest (NewPayment (mockService (Inr (test_payment StatusPending 2000)) (Inl some_error))) test_body () =
     (Inr (respondJSON (BodyCreated \<lparr>cprs_ID = 1, cprs_AuthorizedURI = ''http://authuri.com''\<rparr>) StatusOK), ()) \<and>
   (resp_Code (respondJSON (BodyCreated \<lparr>cprs_ID = 1, cprs_AuthorizedURI = ''http://authuri.com''\<rparr>) StatusOK) = 200 \<longleftrightarrow>
      (\<exists>req p oc. json_Decode test_body = Some req \<and>
         svc_CreatePaymentRequest (handler_service (NewPayment (mockService (Inr (test_payment StatusPending 2000)) (Inl some_error))))
           (payment_request_of req) () = (Inr p, ()) \<and>
         payment_OmiseCharge p = Some oc \<and>
         resp_Body (respondJSON (BodyCreated \<lparr>cprs_ID = 1, cprs_AuthorizedURI = ''http://authuri.com''\<rparr>) StatusOK) =
           BodyCreated \<lparr>cprs_ID = payment_ID p, cprs_AuthorizedURI = charge_AuthorizeURI oc\<rparr>))"
proof -
  have run: "createPaymentRequest (NewPayment (mockService (Inr (test_payment StatusPending 2000)) (Inl some_error))) test_body () =
     (Inr (respondJSON (BodyCreated \<lparr>cprs_ID = 1, cprs_AuthorizedURI = ''http://authuri.com''\<rparr>) StatusOK), ())"
    by (simp add: handler_eval handler_test_defs)
  from createPaymentRequest_status_codes [OF run] run show ?thesis by blast
qed


end
