(* ===== verification/Inmem_Concurrency.thy ===== *)
theory Inmem_Concurrency
  imports Inmem_Repository "HOL-Library.Multiset"
begin

text \<open>
  The locking of the in-memory store (\<open>src/inmem/payment.go\<close>) under concurrent
  requests. \<open>net/http\<close> runs each request in its own goroutine, so store operations
  interleave at the granularity of their statements. The store is an explicit heap: the
  map \<open>m\<close> holds addresses of \<open>Payment\<close> objects, and \<open>Find\<close> hands the address to its
  caller, who reads the fields later. Each goroutine runs a list of atomic steps
  translated from the code (\<open>mop\<close>); the \<open>sync.RWMutex\<close> is a writer flag and a reader
  count, and a lock step is enabled only when the mutex allows it. The theory proves the
  mutex discipline as an invariant of every interleaving (so \<open>Create\<close>, under \<open>Lock\<close>,
  runs alone), and shows that \<open>UpdateStatus\<close>, which writes under \<open>RLock\<close> only, can
  be observed half done by a concurrent \<open>Find\<close>. It also proves that every interleaving
  is finite, that goroutines running the three methods never deadlock, early returns and
  nil-charge panics included, and that every call can complete.
\<close>

section \<open>Steps, goroutines and the shared state\<close>

datatype mop =
    MLock | MUnlock | MRLock | MRUnlock
  | MLookup goint
  | MSetStatus status
  | MSetChargeStatus status
  | MSetUpdatedAt time
  | MCreateBody payment time
  | MReadStatus
  | MReadChargeStatus

datatype hold = NoHold | HoldR | HoldW

record goroutine =
  t_prog :: "mop list"
  t_hold :: hold
  t_ptr :: "nat option"
  t_seen_status :: "status option"
  t_seen_charge :: "status option"

record shared =
  mu_w :: bool
  mu_r :: nat
  heap :: "nat \<rightharpoonup> payment"
  sm :: "goint \<rightharpoonup> nat"
  s_currentID :: goint
  next_addr :: nat

text \<open>
  The statements of the store's methods, each body between its lock and its deferred
  unlock; \<open>Find\<close>'s caller then reads fields through the returned pointer, as
  \<open>payment.Find\<close> (line 115) and the handler do.
\<close>

definition prog_Create :: "payment \<Rightarrow> time \<Rightarrow> mop list" where
  "prog_Create p now = [MLock, MCreateBody p now, MUnlock]"

definition prog_UpdateStatus :: "goint \<Rightarrow> status \<Rightarrow> time \<Rightarrow> mop list" where
  "prog_UpdateStatus pid s now =
     [MRLock, MLookup pid, MSetStatus s, MSetChargeStatus s, MSetUpdatedAt now, MRUnlock]"

definition prog_Find_read :: "goint \<Rightarrow> mop list" where
  "prog_Find_read pid = [MRLock, MLookup pid, MRUnlock, MReadStatus, MReadChargeStatus]"

definition new_goroutine :: "mop list \<Rightarrow> goroutine" where
  "new_goroutine prog = \<lparr>t_prog = prog, t_hold = NoHold, t_ptr = None, t_seen_status = None,
                         t_seen_charge = None\<rparr>"

text \<open>
  An early return (identifier not found) or a panic (nil \<open>OmiseCharge\<close>) leaves only the
  deferred unlocks to run.
\<close>

definition is_unlock :: "mop \<Rightarrow> bool" where
  "is_unlock op \<longleftrightarrow> op = MUnlock \<or> op = MRUnlock"

definition abort_rest :: "mop list \<Rightarrow> mop list" where
  "abort_rest ops = filter is_unlock ops"

definition with_payment :: "shared \<Rightarrow> goroutine \<Rightarrow> mop list \<Rightarrow> (payment \<Rightarrow> payment option) \<Rightarrow>
                            (shared \<times> goroutine) option" where
  "with_payment g t rest f =
     (case t_ptr t of
        None \<Rightarrow> None
      | Some a \<Rightarrow> (case heap g a of
                    None \<Rightarrow> None
                  | Some p \<Rightarrow> (case f p of
                                None \<Rightarrow> Some (g, t\<lparr>t_prog := abort_rest rest\<rparr>)
                              | Some p' \<Rightarrow> Some (g\<lparr>heap := (heap g)(a \<mapsto> p')\<rparr>, t\<lparr>t_prog := rest\<rparr>))))"

text \<open>
  One atomic step of a goroutine whose next statement is \<open>op\<close>, \<open>None\<close> when it is
  blocked. \<open>Lock\<close> waits for no writer and no reader, \<open>RLock\<close> for no writer; an unlock
  is enabled only for the holder (Go aborts the program on any other unlock).
\<close>

fun op_step :: "mop \<Rightarrow> mop list \<Rightarrow> shared \<Rightarrow> goroutine \<Rightarrow> (shared \<times> goroutine) option" where
  "op_step MLock rest g t =
     (if t_hold t = NoHold \<and> \<not> mu_w g \<and> mu_r g = 0
      then Some (g\<lparr>mu_w := True\<rparr>, t\<lparr>t_prog := rest, t_hold := HoldW\<rparr>) else None)"
| "op_step MUnlock rest g t =
     (if t_hold t = HoldW then Some (g\<lparr>mu_w := False\<rparr>, t\<lparr>t_prog := rest, t_hold := NoHold\<rparr>) else None)"
| "op_step MRLock rest g t =
     (if t_hold t = NoHold \<and> \<not> mu_w g
      then Some (g\<lparr>mu_r := Suc (mu_r g)\<rparr>, t\<lparr>t_prog := rest, t_hold := HoldR\<rparr>) else None)"
| "op_step MRUnlock rest g t =
     (if t_hold t = HoldR then Some (g\<lparr>mu_r := mu_r g - 1\<rparr>, t\<lparr>t_prog := rest, t_hold := NoHold\<rparr>) else None)"
| "op_step (MLookup pid) rest g t =
     (case sm g pid of
        None \<Rightarrow> Some (g, t\<lparr>t_prog := abort_rest rest, t_ptr := None\<rparr>)
      | Some a \<Rightarrow> Some (g, t\<lparr>t_prog := rest, t_ptr := Some a\<rparr>))"
| "op_step (MSetStatus s) rest g t = with_payment g t rest (\<lambda>p. Some (p\<lparr>payment_Status := s\<rparr>))"
| "op_step (MSetChargeStatus s) rest g t =
     with_payment g t rest
       (\<lambda>p. map_option (\<lambda>oc. p\<lparr>payment_OmiseCharge := Some (oc\<lparr>charge_Status := s\<rparr>)\<rparr>) (payment_OmiseCharge p))"
| "op_step (MSetUpdatedAt now) rest g t = with_payment g t rest (\<lambda>p. Some (p\<lparr>payment_UpdatedAt := now\<rparr>))"
| "op_step (MCreateBody p now) rest g t =
     (let cid = s_currentID g + 1;
          p' = p\<lparr>payment_ID := cid, payment_CreatedAt := now, payment_UpdatedAt := now\<rparr>
      in Some (g\<lparr>s_currentID := cid, heap := (heap g)(next_addr g \<mapsto> p'),
                 sm := (sm g)(cid \<mapsto> next_addr g), next_addr := Suc (next_addr g)\<rparr>,
               t\<lparr>t_prog := rest\<rparr>))"
| "op_step MReadStatus rest g t =
     (case t_ptr t of
        None \<Rightarrow> None
      | Some a \<Rightarrow> Some (g, t\<lparr>t_prog := rest, t_seen_status := map_option payment_Status (heap g a)\<rparr>))"
| "op_step MReadChargeStatus rest g t =
     (case t_ptr t of
        None \<Rightarrow> None
      | Some a \<Rightarrow> Some (g, t\<lparr>t_prog := rest,
           t_seen_charge := Option.bind (heap g a) (\<lambda>p. map_option charge_Status (payment_OmiseCharge p))\<rparr>))"

definition tstep :: "shared \<Rightarrow> goroutine \<Rightarrow> (shared \<times> goroutine) option" where
  "tstep g t = (case t_prog t of [] \<Rightarrow> None | op # rest \<Rightarrow> op_step op rest g t)"

text \<open>The interleaving semantics: any goroutine whose next step is enabled takes it.\<close>

inductive cstep :: "shared \<times> goroutine list \<Rightarrow> shared \<times> goroutine list \<Rightarrow> bool" where
  run: "i < length ts \<Longrightarrow> tstep g (ts ! i) = Some (g', t') \<Longrightarrow> cstep (g, ts) (g', ts[i := t'])"

text \<open>
  The mutex discipline: the reader count is the number of goroutines holding the read
  lock, the writer flag says that one goroutine holds the write lock, and a writer
  excludes every other holder.
\<close>

definition holders :: "hold \<Rightarrow> goroutine list \<Rightarrow> nat" where
  "holders h ts = count (mset (map t_hold ts)) h"

definition mutex_inv :: "shared \<times> goroutine list \<Rightarrow> bool" where
  "mutex_inv c \<longleftrightarrow>
     mu_r (fst c) = holders HoldR (snd c) \<and>
     (mu_w (fst c) \<longleftrightarrow> holders HoldW (snd c) = 1) \<and>
     holders HoldW (snd c) \<le> 1 \<and>
     (mu_w (fst c) \<longrightarrow> mu_r (fst c) = 0)"

text \<open>\<open>NewPaymentRepository\<close> with an unlocked mutex and an empty heap.\<close>

definition NewShared :: shared where
  "NewShared = \<lparr>mu_w = False, mu_r = 0, heap = Map.empty, sm = Map.empty, s_currentID = 0, next_addr = 0\<rparr>"

text \<open>The store the heap represents: each identifier's payment is the object at its address.\<close>

definition abs_store :: "shared \<Rightarrow> inmem_repo" where
  "abs_store g = \<lparr>currentID = s_currentID g, inmem_m = (\<lambda>k. Option.bind (sm g k) (heap g))\<rparr>"

text \<open>
  A schedule: the goroutines to step, in order; \<open>None\<close> when one of them is blocked.
\<close>

fun run_schedule :: "nat list \<Rightarrow> shared \<times> goroutine list \<Rightarrow> (shared \<times> goroutine list) option" where
  "run_schedule [] c = Some c"
| "run_schedule (i # sch) (g, ts) =
     (if i < length ts
      then (case tstep g (ts ! i) of None \<Rightarrow> None | Some (g', t') \<Rightarrow> run_schedule sch (g', ts[i := t']))
      else None)"

text \<open>
  The heap layout \<open>Create\<close> maintains: every identifier points to an allocated object
  below the next free address, and no two identifiers share an object.
\<close>

definition heap_ok :: "shared \<Rightarrow> bool" where
  "heap_ok g \<longleftrightarrow>
     (\<forall>k a. sm g k = Some a \<longrightarrow> a < next_addr g \<and> heap g a \<noteq> None) \<and>
     (\<forall>k k' a. sm g k = Some a \<longrightarrow> sm g k' = Some a \<longrightarrow> k = k')"

text \<open>
  Three goroutines: one request creating a pending payment, one reconciling it to
  \<open>successful\<close>, one reading it; and an interleaving of their statements.
\<close>

text \<open>The heap of a store holding one pending payment, identifier 1, at address 0.\<close>

definition one_payment_heap :: shared where
  "one_payment_heap = NewShared\<lparr>heap := [0 \<mapsto> fixture_payment StatusPending], sm := [1 \<mapsto> 0],
                                 s_currentID := 1, next_addr := 1\<rparr>"

definition torn_progs :: "mop list list" where
  "torn_progs =
     [prog_Create (payment_of_charge (fixture_charge StatusPending)) 1,
      prog_UpdateStatus 1 StatusSuccessful 2, prog_Find_read 1]"

definition torn_schedule :: "nat list" where
  "torn_schedule = [0, 0, 0, 1, 1, 1, 2, 2, 2, 2, 2, 1, 1, 1]"


text \<open>
  Progress: every step consumes a statement, so the sum of the goroutines' remaining
  statements bounds every interleaving.
\<close>

definition prog_size :: "shared \<times> goroutine list \<Rightarrow> nat" where
  "prog_size c = sum_list (map (\<lambda>t. length (t_prog t)) (snd c))"

text \<open>The goroutines of the server: each runs one of the store's methods.\<close>

definition store_call :: "mop list \<Rightarrow> bool" where
  "store_call ps \<longleftrightarrow> (\<exists>p n. ps = prog_Create p n) \<or> (\<exists>pid s n. ps = prog_UpdateStatus pid s n) \<or>
                     (\<exists>pid. ps = prog_Find_read pid)"

text \<open>
  The positions a goroutine running one method can reach, with the lock it holds there
  and whether it holds a pointer; an aborted body leaves a suffix of unlocks.
\<close>

inductive go_shape :: "goroutine \<Rightarrow> bool" where
  finished: "t_prog t = [] \<Longrightarrow> t_hold t = NoHold \<Longrightarrow> go_shape t"
| create_lock: "t_prog t = [MLock, MCreateBody p n, MUnlock] \<Longrightarrow> t_hold t = NoHold \<Longrightarrow> go_shape t"
| create_body: "t_prog t = [MCreateBody p n, MUnlock] \<Longrightarrow> t_hold t = HoldW \<Longrightarrow> go_shape t"
| create_unlock: "t_prog t = [MUnlock] \<Longrightarrow> t_hold t = HoldW \<Longrightarrow> go_shape t"
| update_lock: "t_prog t = prog_UpdateStatus pid s n \<Longrightarrow> t_hold t = NoHold \<Longrightarrow> go_shape t"
| update_lookup: "t_prog t = [MLookup pid, MSetStatus s, MSetChargeStatus s, MSetUpdatedAt n, MRUnlock] \<Longrightarrow>
                  t_hold t = HoldR \<Longrightarrow> go_shape t"
| update_status: "t_prog t = [MSetStatus s, MSetChargeStatus s, MSetUpdatedAt n, MRUnlock] \<Longrightarrow>
                  t_hold t = HoldR \<Longrightarrow> t_ptr t \<noteq> None \<Longrightarrow> go_shape t"
| update_charge: "t_prog t = [MSetChargeStatus s, MSetUpdatedAt n, MRUnlock] \<Longrightarrow>
                  t_hold t = HoldR \<Longrightarrow> t_ptr t \<noteq> None \<Longrightarrow> go_shape t"
| update_time: "t_prog t = [MSetUpdatedAt n, MRUnlock] \<Longrightarrow> t_hold t = HoldR \<Longrightarrow> t_ptr t \<noteq> None \<Longrightarrow> go_shape t"
| read_unlock: "t_prog t = [MRUnlock] \<Longrightarrow> t_hold t = HoldR \<Longrightarrow> go_shape t"
| find_lock: "t_prog t = prog_Find_read pid \<Longrightarrow> t_hold t = NoHold \<Longrightarrow> go_shape t"
| find_lookup: "t_prog t = [MLookup pid, MRUnlock, MReadStatus, MReadChargeStatus] \<Longrightarrow> t_hold t = HoldR \<Longrightarrow>
                go_shape t"
| find_unlock: "t_prog t = [MRUnlock, MReadStatus, MReadChargeStatus] \<Longrightarrow> t_hold t = HoldR \<Longrightarrow>
                t_ptr t \<noteq> None \<Longrightarrow> go_shape t"
| find_read: "t_prog t = [MReadStatus, MReadChargeStatus] \<Longrightarrow> t_hold t = NoHold \<Longrightarrow> t_ptr t \<noteq> None \<Longrightarrow>
              go_shape t"
| find_read_charge: "t_prog t = [MReadChargeStatus] \<Longrightarrow> t_hold t = NoHold \<Longrightarrow> t_ptr t \<noteq> None \<Longrightarrow>
                     go_shape t"

text \<open>
  The heap is never freed, so a pointer a goroutine took from the map stays valid; the
  liveness invariant adds this to the mutex discipline and the goroutines' positions.
\<close>

definition ptr_ok :: "shared \<Rightarrow> goroutine \<Rightarrow> bool" where
  "ptr_ok g t \<longleftrightarrow> (\<forall>a. t_ptr t = Some a \<longrightarrow> heap g a \<noteq> None)"

definition sm_alloc :: "shared \<Rightarrow> bool" where
  "sm_alloc g \<longleftrightarrow> (\<forall>k a. sm g k = Some a \<longrightarrow> heap g a \<noteq> None)"

definition live_inv :: "shared \<times> goroutine list \<Rightarrow> bool" where
  "live_inv c \<longleftrightarrow> mutex_inv c \<and> sm_alloc (fst c) \<and> list_all (\<lambda>t. go_shape t \<and> ptr_ok (fst c) t) (snd c)"






section \<open>The mutex discipline\<close>

lemma with_payment_frame:
  "with_payment g t rest f = Some (g', t') \<Longrightarrow>
   t_hold t' = t_hold t \<and> mu_w g' = mu_w g \<and> mu_r g' = mu_r g"
  by (auto simp: with_payment_def split: option.splits)

lemma op_step_frame:
  "op \<notin> {MLock, MUnlock, MRLock, MRUnlock} \<Longrightarrow> op_step op rest g t = Some (g', t') \<Longrightarrow>
   t_hold t' = t_hold t \<and> mu_w g' = mu_w g \<and> mu_r g' = mu_r g"
  by (cases op) (auto simp: Let_def dest: with_payment_frame split: option.splits)

lemma holders_update:
  "i < length ts \<Longrightarrow> holders h (ts[i := t']) =
     holders h ts - (if t_hold (ts ! i) = h then 1 else 0) + (if t_hold t' = h then 1 else 0)"
  by (auto simp: holders_def map_update mset_update nth_mem_mset)

lemma holders_pos: "i < length ts \<Longrightarrow> t_hold (ts ! i) = h \<Longrightarrow> 0 < holders h ts"
  unfolding holders_def by (rule count_mset_gt_0) (auto intro: nth_mem)



lemma tstep_SomeE:
  assumes "tstep g t = Some (g', t')"
  obtains op rest where "t_prog t = op # rest" "op_step op rest g t = Some (g', t')"
  using assms by (cases "t_prog t") (auto simp: tstep_def)

lemma cstep_mutex_inv:
  assumes "cstep c c'" and "mutex_inv c"
  shows "mutex_inv c'"
  using assms
proof (induction rule: cstep.induct)
  case (run i ts g g' t')
  from run.hyps(2) obtain op rest where
    st: "op_step op rest g (ts ! i) = Some (g', t')" by (rule tstep_SomeE)
  show ?case
  proof (cases "op \<in> {MLock, MUnlock, MRLock, MRUnlock}")
    case False
    from op_step_frame [OF False st] run holders_pos [OF run.hyps(1), of "t_hold (ts ! i)"] show ?thesis
      by (cases "t_hold (ts ! i)") (auto simp: mutex_inv_def holders_update)
  next
    case True
    then consider "op = MLock" | "op = MUnlock" | "op = MRLock" | "op = MRUnlock" by blast
    then show ?thesis
    proof cases
      case 1
      with st run show ?thesis
        by (auto simp: mutex_inv_def holders_update split: if_splits)
    next
      case 2
      with st run holders_pos [OF run.hyps(1), of HoldW] show ?thesis
        by (auto simp: mutex_inv_def holders_update split: if_splits)
    next
      case 3
      with st run show ?thesis
        by (auto simp: mutex_inv_def holders_update split: if_splits)
    next
      case 4
      with st run holders_pos [OF run.hyps(1), of HoldR] show ?thesis
        by (auto simp: mutex_inv_def holders_update split: if_splits)
    qed
  qed
qed


lemma holders_start: "holders h (map new_goroutine progs) = (if h = NoHold then length progs else 0)"
  by (induction progs) (auto simp: holders_def new_goroutine_def)

lemma mutex_inv_start: "mutex_inv (NewShared, map new_goroutine progs)"
  by (simp add: mutex_inv_def NewShared_def holders_start)

lemma run_schedule_reach: "run_schedule sch c = Some c' \<Longrightarrow> cstep\<^sup>*\<^sup>* c c'"
proof (induction sch c rule: run_schedule.induct)
  case (2 i sch g ts)
  then obtain g' t' where i: "i < length ts" and st: "tstep g (ts ! i) = Some (g', t')"
    and rest: "run_schedule sch (g', ts[i := t']) = Some c'"
    by (auto split: if_splits option.splits)
  from cstep.run [OF i st] "2.IH" [OF i _ _ rest] st show ?case
    by (auto intro: converse_rtranclp_into_rtranclp)
qed simp

lemma run_schedule_one:
  "run_schedule (0 # sch) (g, [t]) =
     (case tstep g t of None \<Rightarrow> None | Some (g', t') \<Rightarrow> run_schedule sch (g', [t']))"
  by (simp split: option.split)


section \<open>Progress of the store's goroutines\<close>

lemma sum_list_update_nat:
  "i < length xs \<Longrightarrow> sum_list (xs[i := x]) + xs ! i = sum_list xs + (x :: nat)"
  by (induction xs arbitrary: i) (auto split: nat.split)

lemma op_step_shrinks:
  "op_step op rest g t = Some (g', t') \<Longrightarrow> length (t_prog t') \<le> length rest"
  by (cases op) (auto simp: with_payment_def abort_rest_def Let_def split: option.splits if_splits)

lemma cstep_prog_size: "cstep c c' \<Longrightarrow> prog_size c' < prog_size c"
proof (induction rule: cstep.induct)
  case (run i ts g g' t')
  from run.hyps(2) obtain op rest where "t_prog (ts ! i) = op # rest" "op_step op rest g (ts ! i) = Some (g', t')"
    by (rule tstep_SomeE)
  then have "length (t_prog t') < length (t_prog (ts ! i))" by (auto dest: op_step_shrinks)
  with sum_list_update_nat [of i "map (\<lambda>t. length (t_prog t)) ts" "length (t_prog t')"] run.hyps(1)
  show ?case by (simp add: prog_size_def map_update)
qed

lemma go_shape_start: "store_call ps \<Longrightarrow> go_shape (new_goroutine ps)"
  by (auto simp: store_call_def new_goroutine_def prog_Create_def intro: go_shape.intros)

lemma tstep_Cons: "t_prog t = op # rest \<Longrightarrow> tstep g t = op_step op rest g t"
  by (simp add: tstep_def)

lemma go_shape_step:
  assumes "go_shape t" and "tstep g t = Some (g', t')"
  shows "go_shape t'"
  using assms
  by (induction rule: go_shape.induct)
     (auto simp: tstep_Cons tstep_def prog_UpdateStatus_def prog_Find_read_def with_payment_def abort_rest_def
        is_unlock_def Let_def split: if_splits option.splits intro: go_shape.intros)

lemma op_step_heap_mono:
  "op_step op rest g t = Some (g', t') \<Longrightarrow> heap g a \<noteq> None \<Longrightarrow> heap g' a \<noteq> None"
  by (cases op) (auto simp: with_payment_def Let_def split: option.splits if_splits)

lemma op_step_sm_alloc:
  "op_step op rest g t = Some (g', t') \<Longrightarrow> sm_alloc g \<Longrightarrow> sm_alloc g'"
  by (cases op) (auto simp: sm_alloc_def with_payment_def Let_def split: option.splits if_splits)

lemma op_step_ptr_ok:
  "op_step op rest g t = Some (g', t') \<Longrightarrow> sm_alloc g \<Longrightarrow> ptr_ok g t \<Longrightarrow> ptr_ok g' t'"
  by (cases op) (auto simp: sm_alloc_def ptr_ok_def with_payment_def Let_def split: option.splits if_splits)

lemma ptr_ok_frame:
  "op_step op rest g t = Some (g', t') \<Longrightarrow> ptr_ok g u \<Longrightarrow> ptr_ok g' u"
  unfolding ptr_ok_def by (blast dest: op_step_heap_mono)

lemma cstep_live_inv:
  assumes "cstep c c'" and "live_inv c"
  shows "live_inv c'"
  using assms
proof (induction rule: cstep.induct)
  case (run i ts g g' t')
  from run.hyps(2) obtain op rest where
    st: "op_step op rest g (ts ! i) = Some (g', t')" by (rule tstep_SomeE)
  from run have sh: "go_shape (ts ! i)" "ptr_ok g (ts ! i)" "sm_alloc g"
    by (auto simp: live_inv_def list_all_length)
  have "mutex_inv (g', ts[i := t'])"
    using run cstep.run [OF run.hyps] by (auto simp: live_inv_def intro: cstep_mutex_inv)
  moreover have "sm_alloc g'" using op_step_sm_alloc [OF st sh(3)] .
  moreover have "go_shape t'" using go_shape_step [OF sh(1) run.hyps(2)] .
  moreover have "ptr_ok g' t'" using op_step_ptr_ok [OF st sh(3,2)] .
  moreover have "\<forall>u \<in> set ts. ptr_ok g u \<longrightarrow> ptr_ok g' u" using ptr_ok_frame [OF st] by blast
  ultimately show ?case
    using run.prems by (auto simp: live_inv_def list_all_iff dest!: set_update_subset_insert [THEN subsetD])
qed

lemma reachable_live_inv:
  "cstep\<^sup>*\<^sup>* c c' \<Longrightarrow> live_inv c \<Longrightarrow> live_inv c'"
  by (induction rule: rtranclp_induct) (auto intro: cstep_live_inv)

lemma live_inv_start:
  assumes "list_all store_call progs"
  shows "live_inv (NewShared, map new_goroutine progs)"
proof -
  have "go_shape (new_goroutine ps)" if "ps \<in> set progs" for ps
    using assms that by (intro go_shape_start) (simp add: list_all_iff)
  with mutex_inv_start [of progs] show ?thesis
    by (auto simp: live_inv_def list_all_iff sm_alloc_def ptr_ok_def) (simp_all add: NewShared_def new_goroutine_def)
qed

lemma shaped_enabled:
  assumes "go_shape t" "t_prog t \<noteq> []" "ptr_ok g t" "t_hold t \<noteq> NoHold \<or> (\<not> mu_w g \<and> mu_r g = 0)"
  shows "tstep g t \<noteq> None"
  using assms
  by (induction rule: go_shape.induct)
     (auto simp: tstep_def ptr_ok_def with_payment_def prog_UpdateStatus_def prog_Find_read_def Let_def
        split: option.splits)

lemma live_inv_progress:
  assumes inv: "live_inv (g, ts)" and "\<not> list_all (\<lambda>t. t_prog t = []) ts"
  shows "\<exists>c'. cstep (g, ts) c'"
proof -
  have ok: "go_shape (ts ! i) \<and> ptr_ok g (ts ! i)" if "i < length ts" for i
    using inv that by (simp add: live_inv_def list_all_length)
  have step: "\<exists>c'. cstep (g, ts) c'" if "i < length ts" "t_prog (ts ! i) \<noteq> []"
      "t_hold (ts ! i) \<noteq> NoHold \<or> (\<not> mu_w g \<and> mu_r g = 0)" for i
  proof -
    from shaped_enabled [of "ts ! i" g] ok [OF that(1)] that(2,3)
    obtain g' t' where "tstep g (ts ! i) = Some (g', t')" by fastforce
    from cstep.run [OF that(1) this] show ?thesis by blast
  qed
  show ?thesis
  proof (cases "\<exists>i < length ts. t_hold (ts ! i) \<noteq> NoHold")
    case True
    then obtain i where i: "i < length ts" "t_hold (ts ! i) \<noteq> NoHold" by blast
    have "t_prog (ts ! i) \<noteq> []"
      using ok [OF i(1)] i(2) by (auto elim: go_shape.cases)
    with step i show ?thesis by blast
  next
    case False
    have "holders h ts = 0" if "h \<noteq> NoHold" for h
      using False that by (auto simp: holders_def count_eq_zero_iff in_set_conv_nth)
    with inv have free: "\<not> mu_w g \<and> mu_r g = 0" by (simp add: live_inv_def mutex_inv_def)
    from assms(2) obtain i where "i < length ts" "t_prog (ts ! i) \<noteq> []"
      by (auto simp: list_all_length)
    with step free show ?thesis by blast
  qed
qed

lemma live_inv_completes:
  "live_inv c \<Longrightarrow> \<exists>g' ts'. cstep\<^sup>*\<^sup>* c (g', ts') \<and> list_all (\<lambda>t. t_prog t = []) ts'"
proof (induction c rule: measure_induct_rule [of prog_size])
  case (less c)
  obtain g ts where c: "c = (g, ts)" by fastforce
  show ?case
  proof (cases "list_all (\<lambda>t. t_prog t = []) ts")
    case True
    with c show ?thesis by blast
  next
    case False
    with live_inv_progress [of g ts] less.prems c obtain c' where st: "cstep c c'" by blast
    from less.IH [OF cstep_prog_size [OF st] cstep_live_inv [OF st less.prems]] st show ?thesis
      by (meson converse_rtranclp_into_rtranclp)
  qed
qed







section \<open>Theorems of the store under concurrency\<close>



text \<open>
  C33. \<open>UpdateStatus\<close> writes the payment under the read lock only, and \<open>Find\<close> hands out
  the stored pointer: in an interleaving of a reconciling request and a reading request,
  the reader sees the payment's status already \<open>successful\<close> while its charge's status
  is still \<open>pending\<close>, a state the spec says readers never observe.
\<close>

theorem UpdateStatus_torn_read:
  "\<exists>g ts. cstep\<^sup>*\<^sup>* (NewShared, map new_goroutine torn_progs) (g, ts) \<and> list_all (\<lambda>t. t_prog t = []) ts \<and>
     t_seen_status (ts ! 2) = Some StatusSuccessful \<and> t_seen_charge (ts ! 2) = Some StatusPending"
proof -
  have "\<exists>g ts. run_schedule torn_schedule (NewShared, map new_goroutine torn_progs) = Some (g, ts) \<and> list_all (\<lambda>t. t_prog t = []) ts \<and>
     t_seen_status (ts ! 2) = Some StatusSuccessful \<and> t_seen_charge (ts ! 2) = Some StatusPending"
    by (simp add: torn_progs_def torn_schedule_def NewShared_def new_goroutine_def prog_Create_def
        prog_UpdateStatus_def prog_Find_read_def tstep_def with_payment_def payment_of_charge_def
        fixture_charge_def status_defs)
  then show ?thesis by (blast dest: run_schedule_reach)
qed


text \<open>
  C34. Run without interference, \<open>UpdateStatus\<close>'s statements refine the sequential
  \<open>inmem_UpdateStatus\<close> on the store the heap represents, on every path (identifier
  missing, nil charge, linked charge), and release the read lock they took.
\<close>

theorem solo_UpdateStatus_refines:
  assumes ok: "heap_ok g" and free: "\<not> mu_w g"
  shows "\<exists>g' t'. cstep\<^sup>*\<^sup>* (g, [new_goroutine (prog_UpdateStatus pid s now)]) (g', [t']) \<and>
           t_prog t' = [] \<and> mu_r g' = mu_r g \<and>
           abs_store g' = snd (inmem_UpdateStatus now pid s (abs_store g))"
proof (cases "sm g pid")
  case None
  let ?t' = "(new_goroutine (prog_UpdateStatus pid s now))\<lparr>t_prog := []\<rparr>"
  have r: "run_schedule [0, 0, 0] (g, [new_goroutine (prog_UpdateStatus pid s now)]) = Some (g, [?t'])"
    using free None
    by (simp add: run_schedule_one tstep_def new_goroutine_def prog_UpdateStatus_def abort_rest_def is_unlock_def)
  have "inmem_m (abs_store g) pid = None" using None by (simp add: abs_store_def)
  with run_schedule_reach [OF r] show ?thesis
    by (intro exI [of _ g] exI [of _ ?t']) simp
next
  case (Some a)
  from ok Some obtain p where p: "heap g a = Some p" unfolding heap_ok_def by blast
  have other: "sm g k = Some b \<Longrightarrow> k \<noteq> pid \<Longrightarrow> b \<noteq> a" for k b
    using ok Some by (auto simp: heap_ok_def)
  have m: "inmem_m (abs_store g) pid = Some p" using Some p by (simp add: abs_store_def)
  show ?thesis
  proof (cases "payment_OmiseCharge p")
    case None
    let ?g' = "g\<lparr>heap := (heap g)(a \<mapsto> p\<lparr>payment_Status := s\<rparr>)\<rparr>"
    let ?t' = "(new_goroutine (prog_UpdateStatus pid s now))\<lparr>t_prog := [], t_ptr := Some a\<rparr>"
    have r: "run_schedule [0, 0, 0, 0, 0] (g, [new_goroutine (prog_UpdateStatus pid s now)]) = Some (?g', [?t'])"
      using free Some p None
      by (simp add: run_schedule_one tstep_def new_goroutine_def prog_UpdateStatus_def abort_rest_def
          is_unlock_def with_payment_def)
    have "abs_store ?g' = snd (inmem_UpdateStatus now pid s (abs_store g))"
      using m None other Some by (auto simp: abs_store_def fun_eq_iff split: option.split Option.bind_split)
    with run_schedule_reach [OF r] show ?thesis
      by (intro exI [of _ ?g'] exI [of _ ?t']) (simp add: new_goroutine_def)
  next
    case (Some oc)
    let ?p' = "p\<lparr>payment_Status := s, payment_OmiseCharge := Some (oc\<lparr>charge_Status := s\<rparr>),
                 payment_UpdatedAt := now\<rparr>"
    let ?g' = "g\<lparr>heap := (heap g)(a \<mapsto> ?p')\<rparr>"
    let ?t' = "(new_goroutine (prog_UpdateStatus pid s now))\<lparr>t_prog := [], t_ptr := Some a\<rparr>"
    have r: "run_schedule [0, 0, 0, 0, 0, 0] (g, [new_goroutine (prog_UpdateStatus pid s now)]) = Some (?g', [?t'])"
      using free \<open>sm g pid = Some a\<close> p Some
      by (simp add: run_schedule_one tstep_def new_goroutine_def prog_UpdateStatus_def with_payment_def)
    have "abs_store ?g' = snd (inmem_UpdateStatus now pid s (abs_store g))"
      using m Some other \<open>sm g pid = Some a\<close> by (auto simp: abs_store_def fun_eq_iff split: option.split Option.bind_split)
    with run_schedule_reach [OF r] show ?thesis
      by (intro exI [of _ ?g'] exI [of _ ?t']) (simp add: new_goroutine_def)
  qed
qed

text \<open>
  C35. Run without interference, \<open>Create\<close>'s statements refine the sequential
  \<open>inmem_Create\<close>, release the write lock and keep the heap layout.
\<close>

theorem solo_Create_refines:
  assumes ok: "heap_ok g" and free: "\<not> mu_w g" "mu_r g = 0"
  shows "\<exists>g' t'. cstep\<^sup>*\<^sup>* (g, [new_goroutine (prog_Create p now)]) (g', [t']) \<and>
           t_prog t' = [] \<and> \<not> mu_w g' \<and> heap_ok g' \<and>
           abs_store g' = snd (inmem_Create now p (abs_store g))"
proof -
  let ?cid = "s_currentID g + 1"
  let ?p' = "p\<lparr>payment_ID := ?cid, payment_CreatedAt := now, payment_UpdatedAt := now\<rparr>"
  let ?g' = "g\<lparr>s_currentID := ?cid, heap := (heap g)(next_addr g \<mapsto> ?p'),
               sm := (sm g)(?cid \<mapsto> next_addr g), next_addr := Suc (next_addr g)\<rparr>"
  let ?t' = "(new_goroutine (prog_Create p now))\<lparr>t_prog := []\<rparr>"
  have r: "run_schedule [0, 0, 0] (g, [new_goroutine (prog_Create p now)]) = Some (?g', [?t'])"
    using free by (simp add: run_schedule_one tstep_def new_goroutine_def prog_Create_def Let_def)
  have fresh: "sm g k = Some b \<Longrightarrow> b \<noteq> next_addr g" for k b
    using ok by (auto simp: heap_ok_def)
  then have "abs_store ?g' = snd (inmem_Create now p (abs_store g))"
    by (auto simp: abs_store_def inmem_Create_eq fun_eq_iff split: Option.bind_split)
  moreover have "heap_ok ?g'"
    using ok fresh unfolding heap_ok_def by (auto simp: less_Suc_eq)
  ultimately show ?thesis using free run_schedule_reach [OF r]
    by (intro exI [of _ ?g'] exI [of _ ?t']) (simp add: new_goroutine_def)
qed



text \<open>
  C37. Goroutines running \<open>Create\<close>, \<open>UpdateStatus\<close> and \<open>Find\<close> on the new store never
  deadlock: in every configuration they reach, while one of them has statements left, some
  goroutine can take a step (the holder of the mutex, or any goroutine when it is free).
\<close>

theorem deadlock_free:
  assumes "list_all store_call progs"
    and "cstep\<^sup>*\<^sup>* (NewShared, map new_goroutine progs) (g, ts)"
    and "\<not> list_all (\<lambda>t. t_prog t = []) ts"
  shows "\<exists>c'. cstep (g, ts) c'"
  using live_inv_progress [OF reachable_live_inv [OF assms(2) live_inv_start [OF assms(1)]] assms(3)] .


text \<open>
  Every call completes: from every configuration the goroutines of the three methods
  reach, some continuation of the interleaving finishes every goroutine's statements,
  deferred unlocks included.
\<close>

theorem calls_complete:
  assumes "list_all store_call progs"
    and "cstep\<^sup>*\<^sup>* (NewShared, map new_goroutine progs) c"
  shows "\<exists>g' ts'. cstep\<^sup>*\<^sup>* c (g', ts') \<and> list_all (\<lambda>t. t_prog t = []) ts'"
  using live_inv_completes [OF reachable_live_inv [OF assms(2) live_inv_start [OF assms(1)]]] .


text \<open>
  C39. Subject reduction for the goroutines' positions: in every configuration reached
  from the new store, each goroutine running one of the three methods is at one of the
  positions \<open>go_shape\<close> lists, with the lock and the pointer that position requires.
\<close>

theorem goroutines_well_shaped:
  assumes "list_all store_call progs"
    and "cstep\<^sup>*\<^sup>* (NewShared, map new_goroutine progs) (g, ts)"
  shows "list_all go_shape ts"
  using reachable_live_inv [OF assms(2) live_inv_start [OF assms(1)]] by (simp add: live_inv_def list_all_iff)



section \<open>Witnesses\<close>

lemmas conc_eval = run_schedule_one tstep_def new_goroutine_def prog_Create_def prog_UpdateStatus_def
  prog_Find_read_def with_payment_def NewShared_def heap_ok_def payment_of_charge_def fixture_charge_def


theorem solo_UpdateStatus_refines_witness:
  "\<exists>g' t'. cstep\<^sup>*\<^sup>* (one_payment_heap, [new_goroutine (prog_UpdateStatus 1 StatusSuccessful 2)]) (g', [t']) \<and>
     t_prog t' = [] \<and> mu_r g' = mu_r one_payment_heap \<and>
     abs_store g' = snd (inmem_UpdateStatus 2 1 StatusSuccessful (abs_store one_payment_heap))"
  by (rule solo_UpdateStatus_refines) (auto simp: one_payment_heap_def heap_ok_def NewShared_def split: if_splits)

theorem solo_Create_refines_witness:
  "\<exists>g' t'. cstep\<^sup>*\<^sup>* (NewShared, [new_goroutine (prog_Create (fixture_payment StatusPending) 1)]) (g', [t']) \<and>
     t_prog t' = [] \<and> \<not> mu_w g' \<and> heap_ok g' \<and>
     abs_store g' = snd (inmem_Create 1 (fixture_payment StatusPending) (abs_store NewShared))"
  by (rule solo_Create_refines) (simp_all add: NewShared_def heap_ok_def)

theorem deadlock_free_witness:
  "list_all store_call torn_progs \<and>
   cstep\<^sup>*\<^sup>* (NewShared, map new_goroutine torn_progs) (NewShared, map new_goroutine torn_progs) \<and>
   \<not> list_all (\<lambda>t. t_prog t = []) (map new_goroutine torn_progs) \<and>
   (\<exists>c'. cstep (NewShared, map new_goroutine torn_progs) c')"
proof -
  have calls: "list_all store_call torn_progs" by (auto simp: torn_progs_def store_call_def)
  have busy: "\<not> list_all (\<lambda>t. t_prog t = []) (map new_goroutine torn_progs)"
    by (simp add: torn_progs_def conc_eval)
  from deadlock_free [OF calls rtranclp.rtrancl_refl busy] calls busy show ?thesis by blast
qed

theorem calls_complete_witness:
  "list_all store_call torn_progs \<and>
   cstep\<^sup>*\<^sup>* (NewShared, map new_goroutine torn_progs) (NewShared, map new_goroutine torn_progs) \<and>
   (\<exists>g' ts'. cstep\<^sup>*\<^sup>* (NewShared, map new_goroutine torn_progs) (g', ts') \<and> list_all (\<lambda>t. t_prog t = []) ts')"
proof -
  have calls: "list_all store_call torn_progs" by (auto simp: torn_progs_def store_call_def)
  from calls_complete [OF calls rtranclp.rtrancl_refl] calls show ?thesis by blast
qed

theorem goroutines_well_shaped_witness:
  "list_all store_call torn_progs \<and>
   cstep\<^sup>*\<^sup>* (NewShared, map new_goroutine torn_progs) (NewShared, map new_goroutine torn_progs) \<and>
   list_all go_shape (map new_goroutine torn_progs)"
proof -
  have calls: "list_all store_call torn_progs" by (auto simp: torn_progs_def store_call_def)
  from goroutines_well_shaped [OF calls rtranclp.rtrancl_refl] calls show ?thesis by blast
qed



end
