(* ===== verification/Spec2Isabelle.thy ===== *)
theory Spec2Isabelle
  imports Payment_Main Payment_Service_Test Http_Handler_Test Inmem_Concurrency
begin

text \<open>
  \<^bold>\<open>A verification model of paymentsvc.\<close>

  The program (\<open>src/\<close>) is a small Go HTTP service. \<open>main.go\<close> reads its
  configuration and wires three parts: an Omise gateway client (\<open>client/omise.go\<close>),
  an in-memory payment store (\<open>inmem/payment.go\<close>) and the payment orchestrator
  (\<open>payment/payment.go\<close>), and puts the HTTP handlers (\<open>handler/handler.go\<close>) in front
  of the orchestrator. The orchestrator is the only component with sequencing logic:
  \<open>CreatePaymentRequest\<close> charges at the gateway and stores the resulting payment;
  \<open>Find\<close> reads the store and, when the linked charge is still pending, asks the gateway
  for its status, writes it back and re-reads the record.

  \<^bold>\<open>Theories.\<close>
  \<^item> \<open>Payment_Prelude\<close>: the machine types (Go \<open>int\<close> as \<open>64 word\<close>, clock readings
    as \<open>nat\<close>), lemma collections, and facts on a 64-bit counter.
  \<^item> \<open>Payment_Model\<close>: \<open>payment.go\<close>'s data (the \<open>Status\<close> strings, the
    \<open>Payment\<close>, \<open>OmiseCharge\<close> and \<open>Request\<close> structs as records; a nil pointer as
    \<open>None\<close>), Go errors as the datatype \<open>error\<close> (with the run-time panic of a nil
    dereference as its own value \<open>NilDeref\<close>), and the interfaces \<open>Client\<close>,
    \<open>Repository\<close> and \<open>Service\<close> as records of functions over a state type shared by
    all collaborators. Each call returns its result and the new state.
  \<^item> \<open>Payment_Service\<close>: \<open>CreatePaymentRequest\<close>, \<open>Find\<close> and \<open>NewService\<close> over any
    client and repository, one \<open>case\<close> per collaborator call and one \<open>Inl\<close> branch per
    early return; wrappers \<open>traced_client\<close> and \<open>traced_repository\<close> that record every
    collaborator call with its arguments. Theorems C1--C7: what the operations return and
    exactly which calls they make, in which order, on every path including errors.
  \<^item> \<open>Payment_Service_Test\<close>: the doubles and tables of \<open>payment_test.go\<close>; each Go
    test case is a lemma, and the test rows witness C1--C7.
  \<^item> \<open>Inmem_Repository\<close>: the store (\<open>currentID\<close> and the map \<open>m\<close> as a record,
    \<open>time.Now()\<close> as a parameter), its \<open>Create\<close>, \<open>Find\<close>, \<open>UpdateStatus\<close>, and the
    store as a \<open>Repository\<close>. Theorems C13--C18: insert/lookup and update/lookup round
    trips, not-found errors, well-formedness, and the identifier counter read as Go's
    signed 64-bit \<open>int\<close>, including what happens when it wraps.
  \<^item> \<open>Payment_System\<close>: the orchestrator over the store with the gateway as the
    environment: an operation carries its clock reading and the gateway's answer (any
    answer), runs are lists of operations. An abstract lifecycle (\<open>lifecycle_step\<close>)
    says what the spec promises per payment. Theorems C8--C11: the store is well formed
    in every run, terminal records never change, every step refines the lifecycle, and
    \<open>Find\<close> is idempotent once the gateway reports a terminal status.
  \<^item> \<open>Omise_Client\<close>: \<open>Charge\<close> and \<open>GetCharge\<close> over the three omise-go operations
    they perform (a record \<open>omise_backend\<close> of state-passing functions), with a
    call-recording wrapper and a fixture gateway; \<open>NewOmise\<close> over the library's
    constructor \<open>omise.NewClient\<close>, a parameter. Theorems C19--C22: the charge is made
    on the source just created, with the source's amount and currency; a source error
    stops before any charge; results copy the gateway's charge; a charge without a
    source makes the client panic.
  \<^item> \<open>Http_Handler\<close>: the two handlers, \<open>respondJSON\<close>/\<open>respondError\<close> and the routes,
    with the library calls they make (\<open>Decode\<close> into the request struct, ASCII
    \<open>ToUpper\<close>, 64-bit \<open>Atoi\<close>, route match) modelled from their documentation. Theorems
    C23--C27: the status codes of both handlers, the service calls each request causes,
    and the round trips of the identifier text and of the request body.
  \<^item> \<open>Http_Handler_Test\<close>: \<open>mockService\<close> and the seven cases of \<open>handler_test.go\<close>
    as lemmas, and the witnesses of C23, C24 and C27.
  \<^item> \<open>Payment_Main\<close>: \<open>main\<close>'s configuration and start (\<open>main_start\<close>: the
    environment, then \<open>NewOmise\<close>, each able to stop the process through
    \<open>log.Fatal\<close>; lemmas \<open>main_start_serves\<close> and \<open>main_start_fatal\<close>) and the
    assembled program over the pair (gateway state, store), serving a list of requests. The lemmas
    \<open>main_service_create\<close>/\<open>main_service_find\<close> show that each service call of the real
    program is an operation of \<open>Payment_System\<close> whose gateway answer is the client's, and
    \<open>serve_all_store\<close> lifts this to runs of HTTP requests. Theorems C28--C30: terminal
    records are final over HTTP, every request refines the lifecycle, and with a gateway
    whose charges carry a source the program never panics.
  \<^item> \<open>Inmem_Concurrency\<close>: the store's methods statement by statement over an explicit
    heap of \<open>Payment\<close> objects with the \<open>sync.RWMutex\<close> (writer flag, reader count),
    goroutines interleaving by the step relation \<open>cstep\<close>; \<open>run_schedule\<close> executes a
    given interleaving. Theorems C32--C35: the mutex invariant of every interleaving (a
    writer is alone), the torn read that \<open>UpdateStatus\<close> under \<open>RLock\<close> allows, and that
    each method run without interference refines the sequential store of
    \<open>Inmem_Repository\<close> through \<open>abs_store\<close>. Theorems C36 and C37: every interleaving
    is finite (the number of statements left decreases) and goroutines running the three
    methods never deadlock (and every call can complete); the invariant behind them
    (\<open>live_inv\<close>) adds to the mutex discipline each goroutine's position in its method
    (\<open>go_shape\<close>) and that pointers handed out by \<open>Find\<close> stay valid, the heap never
    being freed. C38: concurrent \<open>Create\<close>s receive distinct identifiers and the map
    finds every object under its own (invariant \<open>ids_ok\<close>, for fewer than \<open>2^64\<close>
    statements in all). C39: every reachable goroutine is at such a position (subject reduction);
    C40: \<open>run_schedule\<close> produces exactly the configurations the interleaving reaches.
  \<^item> This theory: the spec's concrete scenarios on the orchestrator (C12) and over HTTP
    on the assembled program (C31), and the witnesses of C28--C30.

  \<^bold>\<open>Bounds.\<close> Identifiers are Go \<open>int\<close>s on a 64-bit target. C9, C10, C28 and C29
  hold for runs that insert fewer than \<open>2^64\<close> payments (for HTTP runs: fewer than
  \<open>2^64\<close> requests, each inserting at most one): C18 shows that the \<open>2^64 + 1\<close>-th
  insertion reuses identifier 1 and replaces the first record, so the bound cannot be
  dropped; C17 shows the identifiers are 1, 2, ... as signed values below \<open>2^63\<close>. No
  definition needs fuel: the runs are structural recursion on lists, and the decimal
  printer \<open>nat_digits\<close> terminates by the measure of its argument.

  \<^bold>\<open>Not modelled.\<close> The JSON text of responses (a response is its code, content type
  and the value encoded), path cleaning and redirects of gorilla/mux, the
  interleaving of whole requests (\<open>Payment_Main\<close> serves them one after the other;
  only the store's own statements interleave, in \<open>Inmem_Concurrency\<close>),
  the omise-go library beyond the three operations the client performs (its answers are
  free inputs, and \<open>omise.NewClient\<close>'s key check is a parameter of \<open>NewOmise\<close>), non-ASCII case mapping in
  \<open>strings.ToUpper\<close>, and logging.
\<close>

section \<open>Requests of the end-to-end scenarios\<close>

definition scenario_body :: "json option" where
  "scenario_body = Some (JObj [(''amount'', JNum 2000), (''currency'', JStr ''thb''),
     (''return_uri'', JStr ''http://return''), (''source_type'', JStr ''internet_banking_scb'')])"

definition scenario_post :: http_request where
  "scenario_post = \<lparr>rq_Method = MethodPost, rq_Path = ''/payments'', rq_Body = scenario_body\<rparr>"

definition scenario_get :: http_request where
  "scenario_get = \<lparr>rq_Method = MethodGet, rq_Path = ''/payments/1'', rq_Body = None\<rparr>"

lemmas program_eval = serve_def createPaymentRequest_def getPayment_def route_id_def
  json_Decode_def zero_createPaymentRequestRequest_def ascii_lower_def payment_request_of_def
  strings_ToUpper_def ascii_upper_def strconv_Atoi_def is_digit_def decimal_val_def digit_val_def
  main_handler_def main_service_create main_service_find find_answer_def
  Omise_Charge_def Omise_GetCharge_def to_OmiseCharge_def sandbox_backend_def
  sys_exec.simps paymentSvc_def CreatePaymentRequest_def Find_def inmem_Find_def inmem_Create_eq
  payment_of_charge_def NewPaymentRepository_def response_defs
  scenario_body_def scenario_post_def scenario_get_def char_of_def bit_simps

section \<open>The spec's scenarios, end to end\<close>



section \<open>Witnesses of the assembled program's theorems\<close>

theorem http_terminal_status_final_witness:
  "inmem_m (snd (snd (serve_all (sandbox_backend ''successful'')
      ([(10, scenario_post), (20, scenario_get)] @ [(30, scenario_get), (40, scenario_post)]) ((), NewPaymentRepository)))) 1 =
   Some \<lparr>payment_ID = 1, payment_Status = StatusSuccessful, payment_Amount = 2000, payment_Currency = ''THB'',
      payment_OmiseCharge = Some \<lparr>charge_ID = ''chrg_1'', charge_Status = StatusSuccessful, charge_Amount = 2000,
        charge_Currency = ''THB'', charge_AuthorizeURI = ''http://auth'', charge_SourceType = ''internet_banking_scb'',
        charge_ReturnURI = ''http://return''\<rparr>,
      payment_CreatedAt = 10, payment_UpdatedAt = 20\<rparr>"
  by (rule http_terminal_status_final) (simp_all add: program_eval status_defs)

theorem http_request_refines_lifecycle_witness:
  "lifecycle_step (abs_status (snd (snd (serve_all (sandbox_backend ''successful'') [(10, scenario_post)] ((), NewPaymentRepository)))))
     (abs_status (snd (snd (serve_all (sandbox_backend ''successful'') ([(10, scenario_post)] @ [(20, scenario_get)])
        ((), NewPaymentRepository)))))"
  by (rule http_request_refines_lifecycle) simp

theorem main_never_panics_witness:
  "Inl NilDeref \<notin> set (fst (serve_all (sandbox_backend ''successful'')
      [(10, scenario_post), (20, scenario_get), (30, scenario_get)] ((), NewPaymentRepository))) \<and>
   inmem_wf (snd (snd (serve_all (sandbox_backend ''successful'')
      [(10, scenario_post), (20, scenario_get), (30, scenario_get)] ((), NewPaymentRepository))))"
  by (rule main_never_panics) (simp_all add: gateway_sound_def sandbox_backend_def inmem_wf_empty)

end
